theory Spec2Isabelle
  imports Main "HOL-Library.AList"
begin

section \<open>Dependency directory preparation: a model of \<^verbatim>\<open>dependency_dir_preparator.py\<close>\<close>

text \<open>
  The module resolves the dependencies of an Ansible target into a directory tree. It
  works on the file system, starts external programs and keeps its results in fields of
  the preparator object. The model makes each of these explicit: a file system value, a
  trace of the external commands that were started, a list of logged warnings and the
  preparator's fields are the state; every method is a function from a state to a result
  (or the exception it raises) and the state it leaves.
\<close>

subsection \<open>Python strings\<close>

text \<open>
  A string is the list of the bytes of its text in UTF-8: an ASCII character is one
  element, any other code point is two to four elements, none of them an ASCII
  character. The operations are those the source uses: \<^verbatim>\<open>str.startswith\<close>,
  \<^verbatim>\<open>str.endswith\<close>, \<^verbatim>\<open>str.find\<close>, \<^verbatim>\<open>str.rfind\<close>, the \<^verbatim>\<open>in\<close> test, \<^verbatim>\<open>str.split\<close>,
  \<^verbatim>\<open>str.rsplit(sep, 1)[0]\<close>, \<^verbatim>\<open>str.replace\<close> and \<^verbatim>\<open>str.splitlines\<close>. Every separator and
  every pattern of the source is ASCII text, so the operations give on the bytes what
  they give on the code points; every separator the source splits at is a single
  character, so \<open>str_split\<close> takes a character.
\<close>

fun startswith :: "string \<Rightarrow> string \<Rightarrow> bool" where
  "startswith s [] = True"
| "startswith [] (p # ps) = False"
| "startswith (c # cs) (p # ps) = (c = p \<and> startswith cs ps)"

definition endswith :: "string \<Rightarrow> string \<Rightarrow> bool" where
  "endswith s p = startswith (rev s) (rev p)"

fun str_find :: "string \<Rightarrow> string \<Rightarrow> nat option" where
  "str_find [] sub = (if sub = [] then Some 0 else None)"
| "str_find (c # cs) sub =
     (if startswith (c # cs) sub then Some 0 else map_option Suc (str_find cs sub))"

fun str_rfind :: "string \<Rightarrow> string \<Rightarrow> nat option" where
  "str_rfind [] sub = (if sub = [] then Some 0 else None)"
| "str_rfind (c # cs) sub =
     (case str_rfind cs sub of
        Some i \<Rightarrow> Some (Suc i)
      | None \<Rightarrow> if startswith (c # cs) sub then Some 0 else None)"

definition str_contains :: "string \<Rightarrow> string \<Rightarrow> bool" where
  \<comment> \<open>\<^verbatim>\<open>sub in s\<close>\<close>
  "str_contains s sub = (str_find s sub \<noteq> None)"

fun str_split :: "char \<Rightarrow> string \<Rightarrow> string list" where
  "str_split sep [] = [[]]"
| "str_split sep (c # cs) =
     (if c = sep then [] # str_split sep cs
      else (case str_split sep cs of
              w # ws \<Rightarrow> (c # w) # ws
            | [] \<Rightarrow> [[c]]))"

definition rsplit1_head :: "char \<Rightarrow> string \<Rightarrow> string" where
  \<comment> \<open>\<^verbatim>\<open>s.rsplit(sep, 1)[0]\<close>: the text before the last separator, all of it when there is none\<close>
  "rsplit1_head sep s =
     (case str_rfind s [sep] of None \<Rightarrow> s | Some i \<Rightarrow> take i s)"

fun str_replace_from :: "string \<Rightarrow> string \<Rightarrow> nat \<Rightarrow> string \<Rightarrow> string" where
  "str_replace_from old new k [] = []"
| "str_replace_from old new (Suc k) (c # cs) = str_replace_from old new k cs"
| "str_replace_from old new 0 (c # cs) =
     (if startswith (c # cs) old then new @ str_replace_from old new (length old - 1) cs
      else c # str_replace_from old new 0 cs)"

definition str_replace :: "string \<Rightarrow> string \<Rightarrow> string \<Rightarrow> string" where
  \<comment> \<open>\<^verbatim>\<open>s.replace(old, new)\<close> for a non-empty \<open>old\<close>: every occurrence, left to right;
      the counter of \<open>str_replace_from\<close> skips the rest of an occurrence just replaced\<close>
  "str_replace s old new = str_replace_from old new 0 s"

text \<open>
  The line boundaries of \<^verbatim>\<open>str.splitlines\<close>: carriage return and line feed together, line
  feed, carriage return, vertical tab, form feed, the file, group and record separators,
  and the code points U+0085, U+2028 and U+2029, which are the bytes \<^verbatim>\<open>C2 85\<close>,
  \<^verbatim>\<open>E2 80 A8\<close> and \<^verbatim>\<open>E2 80 A9\<close>. The text after the last boundary is a line when it is not
  empty.
\<close>

definition linebreak_length :: "string \<Rightarrow> nat" where
  \<comment> \<open>the number of bytes of the line boundary that \<open>s\<close> starts with, \<open>0\<close> when it starts
      with none\<close>
  "linebreak_length s =
     (if startswith s [CHR 0x0D, CHR 0x0A] then 2
      else if list_ex (\<lambda>b. startswith s [b])
                [CHR 0x0A, CHR 0x0D, CHR 0x0B, CHR 0x0C, CHR 0x1C, CHR 0x1D, CHR 0x1E] then 1
      else if startswith s [CHR 0xC2, CHR 0x85] then 2
      else if startswith s [CHR 0xE2, CHR 0x80, CHR 0xA8] \<or>
              startswith s [CHR 0xE2, CHR 0x80, CHR 0xA9] then 3
      else 0)"

fun splitlines_from :: "string \<Rightarrow> string \<Rightarrow> string list" where
  "splitlines_from cur [] = (if cur = [] then [] else [rev cur])"
| "splitlines_from cur (c # cs) =
     (if linebreak_length (c # cs) = 0 then splitlines_from (c # cur) cs
      else rev cur # splitlines_from [] (drop (linebreak_length (c # cs) - 1) cs))"

definition splitlines :: "string \<Rightarrow> string list" where
  "splitlines s = splitlines_from [] s"

subsection \<open>Paths\<close>

definition join2 :: "string \<Rightarrow> string \<Rightarrow> string" where
  \<comment> \<open>one step of \<^verbatim>\<open>posixpath.join\<close>\<close>
  "join2 path b =
     (if startswith b ''/'' then b
      else if path = [] \<or> endswith path ''/'' then path @ b
      else path @ ''/'' @ b)"

definition path_join :: "string \<Rightarrow> string list \<Rightarrow> string" where
  \<comment> \<open>\<^verbatim>\<open>os.path.join(a, *p)\<close>\<close>
  "path_join a p = foldl join2 a p"

subsection \<open>Python values and exceptions\<close>

text \<open>
  The values that \<^verbatim>\<open>json.load\<close> returns and \<^verbatim>\<open>json.dump\<close> accepts. A dictionary is an
  association list with distinct keys. A file of JSON text is modelled by the value it
  holds, so that \<^verbatim>\<open>json.load\<close> after \<^verbatim>\<open>json.dump\<close> is the identity (numbers are integers
  here; floating point numbers are left out).
\<close>

datatype pyval =
    PNone
  | PBool bool
  | PInt int
  | PStr string
  | PList "pyval list"
  | PDict "(string \<times> pyval) list"

datatype error =
    FileNotFoundError
  | IsADirectoryError
  | NotADirectoryError
  | FileExistsError
  | JSONDecodeError
  | ReadError
  | AttributeError
  | TypeError
  | IndexError
  | KeyError
  | YAMLError
  | ValueError string

definition dict_get :: "pyval \<Rightarrow> string \<Rightarrow> pyval \<Rightarrow> error + pyval" where
  \<comment> \<open>\<^verbatim>\<open>d.get(key, default)\<close>; only a dictionary has the method\<close>
  "dict_get d key dflt =
     (case d of
        PDict kvs \<Rightarrow> (case map_of kvs key of Some v \<Rightarrow> Inr v | None \<Rightarrow> Inr dflt)
      | _ \<Rightarrow> Inl AttributeError)"

definition dict_set :: "pyval \<Rightarrow> string \<Rightarrow> pyval \<Rightarrow> error + pyval" where
  \<comment> \<open>\<^verbatim>\<open>d[key] = v\<close>\<close>
  "dict_set d key v =
     (case d of
        PDict kvs \<Rightarrow> Inr (PDict (AList.update key v kvs))
      | _ \<Rightarrow> Inl TypeError)"

definition py_iter :: "pyval \<Rightarrow> error + pyval list" where
  \<comment> \<open>the elements a \<^verbatim>\<open>for\<close> loop visits: a list's elements, a dictionary's keys, a
      string's characters; other values are not iterable\<close>
  "py_iter v =
     (case v of
        PList xs \<Rightarrow> Inr xs
      | PDict kvs \<Rightarrow> Inr (map (\<lambda>kv. PStr (fst kv)) kvs)
      | PStr s \<Rightarrow> Inr (map (\<lambda>c. PStr [c]) s)
      | _ \<Rightarrow> Inl TypeError)"

definition the_str :: "pyval \<Rightarrow> error + string" where
  \<comment> \<open>a value used through a string method (\<^verbatim>\<open>rsplit\<close>, \<^verbatim>\<open>replace\<close>): a value that is
      not a string has no such attribute\<close>
  "the_str v = (case v of PStr s \<Rightarrow> Inr s | _ \<Rightarrow> Inl AttributeError)"

subsection \<open>Load types\<close>

text \<open>
  Modelled from the spec: the class \<^verbatim>\<open>LoadType\<close> of \<^verbatim>\<open>models.py\<close> is not among the
  sources. The spec gives the kinds of a metadata record as collection, role, project,
  playbook and unknown; the source uses the constants as strings (as a path component of
  \<^verbatim>\<open>os.path.join\<close> and as the value of the field \<^verbatim>\<open>type\<close>).
\<close>

definition LoadType_PROJECT :: string where "LoadType_PROJECT = ''project''"
definition LoadType_COLLECTION :: string where "LoadType_COLLECTION = ''collection''"
definition LoadType_ROLE :: string where "LoadType_ROLE = ''role''"
definition LoadType_PLAYBOOK :: string where "LoadType_PLAYBOOK = ''playbook''"
definition LoadType_UNKNOWN :: string where "LoadType_UNKNOWN = ''unknown''"

definition collection_manifest_json :: string where "collection_manifest_json = ''MANIFEST.json''"
definition collection_files_json :: string where "collection_files_json = ''FILES.json''"
definition role_meta_main_yml :: string where "role_meta_main_yml = ''meta/main.yml''"
definition role_meta_main_yaml :: string where "role_meta_main_yaml = ''meta/main.yaml''"
definition requirements_yml :: string where "requirements_yml = ''requirements.yml''"
definition download_metadata_file :: string where "download_metadata_file = ''download_meta.json''"

subsection \<open>The metadata record\<close>

text \<open>
  The dataclass \<^verbatim>\<open>DownloadMetadata\<close>. Python does not check a field's annotation, so a
  field holds any value: \<^verbatim>\<open>setattr\<close> and a hand-written metadata file can put a
  non-string there. The annotated types are \<^verbatim>\<open>str\<close>, but for \<^verbatim>\<open>cache_enabled: bool\<close>.
\<close>

record DownloadMetadata =
  name :: pyval
  type :: pyval
  version :: pyval
  author :: pyval
  download_url :: pyval
  download_src_path :: pyval
  hash :: pyval
  metafile_path :: pyval
  files_json_path :: pyval
  download_timestamp :: pyval
  cache_enabled :: pyval
  cache_dir :: pyval
  source_repository :: pyval
  requirements_file :: pyval

definition field_names :: "string list" where
  "field_names =
     [''name'', ''type'', ''version'', ''author'', ''download_url'', ''download_src_path'',
      ''hash'', ''metafile_path'', ''files_json_path'', ''download_timestamp'',
      ''cache_enabled'', ''cache_dir'', ''source_repository'', ''requirements_file'']"

definition DownloadMetadata_default :: DownloadMetadata where
  \<comment> \<open>\<^verbatim>\<open>DownloadMetadata()\<close>\<close>
  "DownloadMetadata_default =
     \<lparr> name = PStr [], type = PStr [], version = PStr [], author = PStr [],
       download_url = PStr [], download_src_path = PStr [], hash = PStr [],
       metafile_path = PStr [], files_json_path = PStr [], download_timestamp = PStr [],
       cache_enabled = PBool False, cache_dir = PStr [], source_repository = PStr [],
       requirements_file = PStr [] \<rparr>"

definition kwarg :: "(string \<times> pyval) list \<Rightarrow> string \<Rightarrow> pyval \<Rightarrow> pyval" where
  "kwarg kw key dflt = (case map_of kw key of Some v \<Rightarrow> v | None \<Rightarrow> dflt)"

definition DownloadMetadata_init :: "pyval \<Rightarrow> error + DownloadMetadata" where
  \<comment> \<open>\<^verbatim>\<open>DownloadMetadata(**data)\<close>: the argument is a mapping, each key is a field (an
      unexpected keyword argument is a \<^verbatim>\<open>TypeError\<close>), a missing field has its default\<close>
  "DownloadMetadata_init data =
     (case data of
        PDict kw \<Rightarrow>
          if list_all (\<lambda>k. List.member field_names k) (map fst kw) then
            Inr \<lparr> name = kwarg kw ''name'' (PStr []),
                  type = kwarg kw ''type'' (PStr []),
                  version = kwarg kw ''version'' (PStr []),
                  author = kwarg kw ''author'' (PStr []),
                  download_url = kwarg kw ''download_url'' (PStr []),
                  download_src_path = kwarg kw ''download_src_path'' (PStr []),
                  hash = kwarg kw ''hash'' (PStr []),
                  metafile_path = kwarg kw ''metafile_path'' (PStr []),
                  files_json_path = kwarg kw ''files_json_path'' (PStr []),
                  download_timestamp = kwarg kw ''download_timestamp'' (PStr []),
                  cache_enabled = kwarg kw ''cache_enabled'' (PBool False),
                  cache_dir = kwarg kw ''cache_dir'' (PStr []),
                  source_repository = kwarg kw ''source_repository'' (PStr []),
                  requirements_file = kwarg kw ''requirements_file'' (PStr []) \<rparr>
          else Inl TypeError
      | _ \<Rightarrow> Inl TypeError)"

definition asdict :: "DownloadMetadata \<Rightarrow> pyval" where
  \<comment> \<open>\<^verbatim>\<open>dataclasses.asdict\<close>\<close>
  "asdict dm =
     PDict [(''name'', name dm), (''type'', type dm), (''version'', version dm),
            (''author'', author dm), (''download_url'', download_url dm),
            (''download_src_path'', download_src_path dm), (''hash'', hash dm),
            (''metafile_path'', metafile_path dm), (''files_json_path'', files_json_path dm),
            (''download_timestamp'', download_timestamp dm),
            (''cache_enabled'', cache_enabled dm), (''cache_dir'', cache_dir dm),
            (''source_repository'', source_repository dm),
            (''requirements_file'', requirements_file dm)]"

definition setattr_dm :: "DownloadMetadata \<Rightarrow> string \<Rightarrow> pyval \<Rightarrow> DownloadMetadata" where
  \<comment> \<open>\<^verbatim>\<open>setattr(dm, key, value)\<close> for a field \<open>key\<close>\<close>
  "setattr_dm dm key v =
     (if key = ''name'' then dm\<lparr>name := v\<rparr>
      else if key = ''type'' then dm\<lparr>type := v\<rparr>
      else if key = ''version'' then dm\<lparr>version := v\<rparr>
      else if key = ''author'' then dm\<lparr>author := v\<rparr>
      else if key = ''download_url'' then dm\<lparr>download_url := v\<rparr>
      else if key = ''download_src_path'' then dm\<lparr>download_src_path := v\<rparr>
      else if key = ''hash'' then dm\<lparr>hash := v\<rparr>
      else if key = ''metafile_path'' then dm\<lparr>metafile_path := v\<rparr>
      else if key = ''files_json_path'' then dm\<lparr>files_json_path := v\<rparr>
      else if key = ''download_timestamp'' then dm\<lparr>download_timestamp := v\<rparr>
      else if key = ''cache_enabled'' then dm\<lparr>cache_enabled := v\<rparr>
      else if key = ''cache_dir'' then dm\<lparr>cache_dir := v\<rparr>
      else if key = ''source_repository'' then dm\<lparr>source_repository := v\<rparr>
      else if key = ''requirements_file'' then dm\<lparr>requirements_file := v\<rparr>
      else dm)"

definition getattr_dm :: "DownloadMetadata \<Rightarrow> string \<Rightarrow> pyval option" where
  \<comment> \<open>the value of the field \<open>key\<close>, as \<open>asdict\<close> lists it\<close>
  "getattr_dm dm key = (case asdict dm of PDict kvs \<Rightarrow> map_of kvs key | _ \<Rightarrow> None)"

text \<open>
  \<^verbatim>\<open>update_metadata\<close> sets an attribute by its name: \<^verbatim>\<open>if hasattr(dm, key): setattr(dm,
  key, value)\<close>, and then takes \<^verbatim>\<open>asdict(dm)\<close>. The record has its fields and, like every
  Python object, other attributes, for which \<^verbatim>\<open>hasattr\<close> is true as well. What the
  assignment does depends on the name:
  \<^item> a field is set to the value;
  \<^item> \<^verbatim>\<open>__class__\<close> takes a class only: every value of a JSON file is a \<^verbatim>\<open>TypeError\<close>;
  \<^item> \<^verbatim>\<open>__weakref__\<close> is not writable: an \<^verbatim>\<open>AttributeError\<close>;
  \<^item> \<^verbatim>\<open>__dict__\<close> takes a dictionary only (another value is a \<^verbatim>\<open>TypeError\<close>), which
    becomes the dictionary of the instance: a field then has the value that the dictionary
    gives it, and the default of the class when the dictionary has no such key;
  \<^item> under any other name the value is stored in the dictionary of the instance, beside the
    fields, which stay as they are (and for a name that is no attribute at all, nothing
    is assigned).
  \<^verbatim>\<open>asdict\<close> reads the list of fields through the instance, as the attribute
  \<^verbatim>\<open>__dataclass_fields__\<close>. A value stored under this name in the dictionary of the instance
  hides the list of the class: for an empty dictionary \<^verbatim>\<open>asdict\<close> then returns the empty
  dictionary, for another value it raises an \<^verbatim>\<open>AttributeError\<close> (the value, or an element
  of it, is not a field description).
\<close>

definition instance_fields :: "(string \<times> pyval) list \<Rightarrow> DownloadMetadata" where
  \<comment> \<open>the fields of a record whose instance dictionary is \<open>kw\<close>\<close>
  "instance_fields kw =
     \<lparr> name = kwarg kw ''name'' (PStr []),
       type = kwarg kw ''type'' (PStr []),
       version = kwarg kw ''version'' (PStr []),
       author = kwarg kw ''author'' (PStr []),
       download_url = kwarg kw ''download_url'' (PStr []),
       download_src_path = kwarg kw ''download_src_path'' (PStr []),
       hash = kwarg kw ''hash'' (PStr []),
       metafile_path = kwarg kw ''metafile_path'' (PStr []),
       files_json_path = kwarg kw ''files_json_path'' (PStr []),
       download_timestamp = kwarg kw ''download_timestamp'' (PStr []),
       cache_enabled = kwarg kw ''cache_enabled'' (PBool False),
       cache_dir = kwarg kw ''cache_dir'' (PStr []),
       source_repository = kwarg kw ''source_repository'' (PStr []),
       requirements_file = kwarg kw ''requirements_file'' (PStr []) \<rparr>"

definition asdict_hidden_fields :: "pyval \<Rightarrow> error + pyval" where
  \<comment> \<open>\<^verbatim>\<open>asdict(dm)\<close> when the instance has its own \<^verbatim>\<open>__dataclass_fields__\<close>, with the value
      \<open>hidden\<close>\<close>
  "asdict_hidden_fields hidden = (if hidden = PDict [] then Inr (PDict []) else Inl AttributeError)"

definition setattr_asdict :: "DownloadMetadata \<Rightarrow> string \<Rightarrow> pyval \<Rightarrow> error + pyval" where
  \<comment> \<open>\<^verbatim>\<open>if hasattr(dm, key): setattr(dm, key, value)\<close> and then \<^verbatim>\<open>asdict(dm)\<close>\<close>
  "setattr_asdict dm key v =
     (if List.member field_names key then Inr (asdict (setattr_dm dm key v))
      else if key = ''__class__'' then Inl TypeError
      else if key = ''__weakref__'' then Inl AttributeError
      else if key = ''__dict__'' then
        (case v of
           PDict kw \<Rightarrow>
             (case map_of kw ''__dataclass_fields__'' of
                None \<Rightarrow> Inr (asdict (instance_fields kw))
              | Some hidden \<Rightarrow> asdict_hidden_fields hidden)
         | _ \<Rightarrow> Inl TypeError)
      else if key = ''__dataclass_fields__'' then asdict_hidden_fields v
      else Inr (asdict dm))"

subsection \<open>The file system\<close>

text \<open>
  A path names a directory or a file; a file is modelled by what it holds once decoded: a
  JSON value, the members of a tar archive, a YAML value, or other bytes. The nodes are
  listed in the order in which the file system enumerates them (the order of
  \<^verbatim>\<open>glob.glob\<close> and \<^verbatim>\<open>os.listdir\<close>). Paths are compared as they are written: the
  model takes them normalised (no doubled or trailing slash, no symbolic link). The
  modification time of a path is read by \<^verbatim>\<open>os.path.getmtime\<close> only; the program's own
  writes leave it as it is, since no time written by the program is read back.
\<close>

datatype content =
    Json pyval
  | Tar "(string \<times> content) list"
  | Yaml pyval
  | Bytes string

datatype node = Dir | File content

record filesystem =
  nodes :: "(string \<times> node) list"
  mtime :: "string \<Rightarrow> int"

definition path_exists :: "filesystem \<Rightarrow> string \<Rightarrow> bool" where
  \<comment> \<open>\<^verbatim>\<open>os.path.exists\<close>\<close>
  "path_exists f p = (map_of (nodes f) p \<noteq> None)"

definition isdir :: "filesystem \<Rightarrow> string \<Rightarrow> bool" where
  \<comment> \<open>\<^verbatim>\<open>os.path.isdir\<close>\<close>
  "isdir f p = (map_of (nodes f) p = Some Dir)"

definition isfile :: "filesystem \<Rightarrow> string \<Rightarrow> bool" where
  \<comment> \<open>\<^verbatim>\<open>os.path.isfile\<close>\<close>
  "isfile f p = (case map_of (nodes f) p of Some (File c) \<Rightarrow> True | _ \<Rightarrow> False)"

fun parents_from :: "string \<Rightarrow> string \<Rightarrow> string list" where
  "parents_from acc [] = []"
| "parents_from acc (c # cs) =
     (if c = CHR ''/'' \<and> acc \<noteq> [] then rev acc # parents_from (c # acc) cs
      else parents_from (c # acc) cs)"

definition parents :: "string \<Rightarrow> string list" where
  \<comment> \<open>the directories above a path, outermost first (the root directory always exists)\<close>
  "parents p = parents_from [] p"

definition parent_state :: "filesystem \<Rightarrow> string \<Rightarrow> node option" where
  \<comment> \<open>what the directory holding \<open>p\<close> is; the root and the working directory exist\<close>
  "parent_state f p =
     (case str_rfind p ''/'' of
        None \<Rightarrow> Some Dir
      | Some 0 \<Rightarrow> Some Dir
      | Some (Suc i) \<Rightarrow> map_of (nodes f) (take (Suc i) p))"

definition add_dir :: "string \<Rightarrow> (string \<times> node) list \<Rightarrow> (string \<times> node) list" where
  "add_dir p ns = (if map_of ns p = None then ns @ [(p, Dir)] else ns)"

definition child_name :: "string \<Rightarrow> string \<Rightarrow> string option" where
  \<comment> \<open>the name under which \<open>p\<close> is an entry of the directory \<open>d\<close>, if it is one\<close>
  "child_name d p =
     (let pre = (if endswith d ''/'' then d else d @ ''/'');
          rest = drop (length pre) p
      in if startswith p pre \<and> rest \<noteq> [] \<and> \<not> List.member rest CHR ''/'' then Some rest
         else None)"

definition under_pattern :: "string \<Rightarrow> string \<Rightarrow> string \<Rightarrow> bool" where
  \<comment> \<open>\<open>p\<close> matches \<^verbatim>\<open>base/**/fname\<close>: it lies under \<open>base\<close>, at any depth, its last
      component is \<open>fname\<close>, and no directory on the way is hidden (the recursive wildcard
      skips names that start with a dot)\<close>
  "under_pattern base fname p =
     (let pre = (if endswith base ''/'' then base else base @ ''/'');
          comps = str_split CHR ''/'' (drop (length pre) p)
      in startswith p pre \<and> last comps = fname \<and>
         list_all (\<lambda>c. c \<noteq> [] \<and> hd c \<noteq> CHR ''.'') (butlast comps))"

definition glob_recursive :: "filesystem \<Rightarrow> string \<Rightarrow> string \<Rightarrow> string list" where
  \<comment> \<open>\<^verbatim>\<open>glob.glob(os.path.join(base, "**", fname), recursive=True)\<close>, for a \<open>base\<close>
      without wildcard characters\<close>
  "glob_recursive f base fname = filter (under_pattern base fname) (map fst (nodes f))"

subsection \<open>External commands\<close>

text \<open>
  The module starts other programs (\<^verbatim>\<open>subprocess.run\<close> with a shell command line,
  \<^verbatim>\<open>os.system\<close>, and \<^verbatim>\<open>install_galaxy_target\<close> of \<^verbatim>\<open>utils.py\<close>, which is not among the
  sources). A command is recorded with the arguments its command line is formatted from:
  \<^item> \<open>GalaxyCollectionDownload target_version server_option output_dir\<close> is
    \<^verbatim>\<open>ansible-galaxy collection download '{}' {} -p {}\<close>;
  \<^item> \<open>GalaxyCollectionInstallTargz tarfile output_dir\<close> is
    \<^verbatim>\<open>ansible-galaxy collection install {} -p {}\<close>;
  \<^item> \<open>GalaxyCollectionInstallReqfile src_dir requirements output_dir\<close> is
    \<^verbatim>\<open>cd {} && ansible-galaxy collection install -r {} -p {}\<close>;
  \<^item> \<open>InstallGalaxyTarget name type output_dir source_repository target_version\<close> is the
    call of \<^verbatim>\<open>install_galaxy_target\<close>;
  \<^item> \<open>CopyDir src dst\<close> is \<^verbatim>\<open>cp -r {}/* {}/\<close>.
  The downloads (\<open>GalaxyCollectionDownload\<close>, \<open>InstallGalaxyTarget\<close>) are the fetch
  invocations.
\<close>

datatype version_arg = NoVersionArg | VersionArg "string option"

datatype command =
    GalaxyCollectionDownload string string string
  | GalaxyCollectionInstallTargz pyval string
  | GalaxyCollectionInstallReqfile string string string
  | InstallGalaxyTarget string string string string version_arg
  | CopyDir string string

fun is_fetch :: "command \<Rightarrow> bool" where
  "is_fetch (GalaxyCollectionDownload t so out) = True"
| "is_fetch (InstallGalaxyTarget n t out sr v) = True"
| "is_fetch (GalaxyCollectionInstallTargz t out) = False"
| "is_fetch (GalaxyCollectionInstallReqfile sd r out) = False"
| "is_fetch (CopyDir src dst) = False"

subsection \<open>The preparator and its state\<close>

text \<open>
  \<open>Dependency\<close> is the descriptor (the dataclass of the same name; \<^verbatim>\<open>asdict\<close> of a
  descriptor is the record itself). Its metadata is absent when the source assigns
  \<^verbatim>\<open>None\<close> to it. The fields of \<open>DependencyDirPreparator\<close> are those of the dataclass.
\<close>

record Dependency =
  dir :: string
  dep_name :: string
  dep_metadata :: "DownloadMetadata option"

record DependencyDirPreparator =
  root_dir :: string
  self_source_repository :: string
  target_type :: string
  target_name :: string
  target_version :: string
  target_path :: string
  target_dependency_dir :: string
  target_path_mappings :: "(string \<times> string) list"
  self_metadata :: DownloadMetadata
  download_location :: string
  dependency_dir_path :: string
  silent :: bool
  do_save :: bool
  tmp_install_dir :: "string option"
  dependency_dirs :: "Dependency list"

record state =
  fs :: filesystem
  trace :: "command list"
  warnings :: "string list"
  self :: DependencyDirPreparator

type_synonym 'a action = "state \<Rightarrow> (error + 'a) \<times> state"

definition ret :: "'a \<Rightarrow> 'a action" where
  "ret x s = (Inr x, s)"

definition raise :: "error \<Rightarrow> 'a action" where
  "raise e s = (Inl e, s)"

definition lift :: "error + 'a \<Rightarrow> 'a action" where
  "lift r s = (r, s)"

definition bind :: "'a action \<Rightarrow> ('a \<Rightarrow> 'b action) \<Rightarrow> 'b action" where
  \<comment> \<open>sequencing: an exception ends the computation, with the state reached so far\<close>
  "bind m k s = (case m s of (Inl e, s') \<Rightarrow> (Inl e, s') | (Inr x, s') \<Rightarrow> k x s')"

definition logging_warning :: "string \<Rightarrow> unit action" where
  "logging_warning msg s = (Inr (), s\<lparr>warnings := warnings s @ [msg]\<rparr>)"

text \<open>
  What the module takes from its collaborators, none of them among the sources: the
  effect of an external command on the file system and its standard output; the helpers
  of \<^verbatim>\<open>utils.py\<close>; the dependency finder, whose result is the dictionary of \<open>finder_result\<close>;
  the formatting of a time stamp; \<^verbatim>\<open>safe_glob\<close>. The installation of the root target
  (\<^verbatim>\<open>src_install\<close>) is taken as a state transformer: none of the properties below starts it.

  A declared dependency is a name or a dictionary of strings (\<open>dep_item\<close>). The finder's
  metadata of a collection is a dictionary of strings, or some other value: the source
  tests it with \<^verbatim>\<open>isinstance(col_galaxy_data, dict)\<close>.
\<close>

datatype dep_item = DepName string | DepDict "(string \<times> string) list"

datatype galaxy_data = GalaxyDict "(string \<times> string) list" | NotADict

record finder_result =
  dependencies_collections :: "dep_item list"
  dependencies_roles :: "dep_item list"
  paths_collections :: "(string \<times> string) list"
  paths_roles :: "(string \<times> string) list"
  metadata_collections :: "(string \<times> galaxy_data) list"

record env =
  external :: "command \<Rightarrow> filesystem \<Rightarrow> string \<times> filesystem"
  get_hash_of_url :: "string \<Rightarrow> string"
  is_url :: "string \<Rightarrow> bool"
  is_local_path :: "string \<Rightarrow> bool"
  get_installed_metadata :: "string \<Rightarrow> string \<Rightarrow> string \<Rightarrow> string \<Rightarrow> filesystem \<Rightarrow> string \<times> string"
  find_dependency :: "string \<Rightarrow> string \<Rightarrow> string \<Rightarrow> filesystem \<Rightarrow> finder_result"
  utc_isoformat :: "int \<Rightarrow> string"
  safe_glob :: "string list \<Rightarrow> filesystem \<Rightarrow> string list"
  src_install :: "state \<Rightarrow> (error + unit) \<times> state"

definition run :: "env \<Rightarrow> command \<Rightarrow> string action" where
  \<comment> \<open>start an external command: it is recorded, it changes the file system, and its
      standard output is the result; its exit status is not looked at\<close>
  "run E cmd s =
     (let (out, f) = external E cmd (fs s)
      in (Inr out, s\<lparr>fs := f, trace := trace s @ [cmd]\<rparr>))"

subsection \<open>File operations\<close>

definition makedirs :: "string \<Rightarrow> unit action" where
  \<comment> \<open>\<^verbatim>\<open>os.makedirs(p)\<close>: the directory and the missing directories above it\<close>
  "makedirs p s =
     (if p = [] then (Inl FileNotFoundError, s)
      else if path_exists (fs s) p then (Inl FileExistsError, s)
      else if list_ex (isfile (fs s)) (parents p) then (Inl NotADirectoryError, s)
      else (Inr (), s\<lparr>fs := (fs s)\<lparr>nodes := fold add_dir (parents p @ [p]) (nodes (fs s))\<rparr>\<rparr>))"

definition ensure_dir :: "string \<Rightarrow> unit action" where
  \<comment> \<open>\<^verbatim>\<open>if not os.path.exists(p): os.makedirs(p)\<close>\<close>
  "ensure_dir p s = (if \<not> path_exists (fs s) p then makedirs p s else (Inr (), s))"

definition listdir :: "string \<Rightarrow> string list action" where
  \<comment> \<open>\<^verbatim>\<open>os.listdir(d)\<close>\<close>
  "listdir d s =
     (case map_of (nodes (fs s)) d of
        None \<Rightarrow> (Inl FileNotFoundError, s)
      | Some (File c) \<Rightarrow> (Inl NotADirectoryError, s)
      | Some Dir \<Rightarrow> (Inr (List.map_filter (child_name d) (map fst (nodes (fs s)))), s))"

definition getmtime :: "string \<Rightarrow> int action" where
  \<comment> \<open>\<^verbatim>\<open>os.path.getmtime(p)\<close>\<close>
  "getmtime p s =
     (if path_exists (fs s) p then (Inr (mtime (fs s) p), s) else (Inl FileNotFoundError, s))"

definition json_load :: "string \<Rightarrow> pyval action" where
  \<comment> \<open>\<^verbatim>\<open>with open(p, "r") as f: json.load(f)\<close>\<close>
  "json_load p s =
     (case map_of (nodes (fs s)) p of
        None \<Rightarrow> (Inl FileNotFoundError, s)
      | Some Dir \<Rightarrow> (Inl IsADirectoryError, s)
      | Some (File (Json v)) \<Rightarrow> (Inr v, s)
      | Some (File c) \<Rightarrow> (Inl JSONDecodeError, s))"

definition write_file :: "string \<Rightarrow> content \<Rightarrow> unit action" where
  \<comment> \<open>\<^verbatim>\<open>with open(p, "w") as f: ...\<close>: the file is created or replaced\<close>
  "write_file p c s =
     (if map_of (nodes (fs s)) p = Some Dir then (Inl IsADirectoryError, s)
      else (case parent_state (fs s) p of
              None \<Rightarrow> (Inl FileNotFoundError, s)
            | Some (File c') \<Rightarrow> (Inl NotADirectoryError, s)
            | Some Dir \<Rightarrow>
                (Inr (), s\<lparr>fs := (fs s)\<lparr>nodes := AList.update p (File c) (nodes (fs s))\<rparr>\<rparr>)))"

definition json_dump :: "pyval \<Rightarrow> string \<Rightarrow> unit action" where
  \<comment> \<open>\<^verbatim>\<open>with open(p, "w") as f: json.dump(data, f)\<close>\<close>
  "json_dump data p = write_file p (Json data)"

subsection \<open>The metadata store\<close>

fun find_in_list :: "string \<Rightarrow> pyval list \<Rightarrow> error + DownloadMetadata option" where
  "find_in_list target [] = Inr None"
| "find_in_list target (data # rest) =
     (case DownloadMetadata_init data of
        Inl e \<Rightarrow> Inl e
      | Inr dm \<Rightarrow> if name dm = PStr target then Inr (Some dm) else find_in_list target rest)"

definition find_target_metadata :: "string \<Rightarrow> string \<Rightarrow> string \<Rightarrow> DownloadMetadata option action" where
  \<comment> \<open>the loop returns the first record whose name is the target; falling off the end of
      the function returns \<^verbatim>\<open>None\<close>\<close>
  "find_target_metadata ltype metadata_file target =
     bind (json_load metadata_file) (\<lambda>metadata.
       if ltype = LoadType_COLLECTION then
         bind (lift (dict_get metadata ''collections'' (PList []))) (\<lambda>metadata_list.
         bind (lift (py_iter metadata_list)) (\<lambda>items.
           lift (find_in_list target items)))
       else if ltype = LoadType_ROLE then
         bind (lift (dict_get metadata ''roles'' (PList []))) (\<lambda>metadata_list.
         bind (lift (py_iter metadata_list)) (\<lambda>items.
           lift (find_in_list target items)))
       else
         bind (logging_warning (''metadata not found: '' @ target)) (\<lambda>u. ret None))"

definition export_data :: "pyval \<Rightarrow> string \<Rightarrow> string \<Rightarrow> string action" where
  "export_data data dir_path filename =
     bind (ensure_dir dir_path) (\<lambda>u.
     bind (json_dump data (path_join dir_path [filename])) (\<lambda>u.
       ret (path_join dir_path [filename])))"

text \<open>
  The loop of \<^verbatim>\<open>update_metadata\<close> visits the elements of the list by index; \<open>seen\<close> are
  the elements already visited, as the list now holds them, \<open>todo\<close> the elements still to
  visit. At a record named \<open>target\<close> the element is replaced in the list, the list is
  stored in the dictionary under the key of the type, and the file is written at once:
  an exception at a later element leaves the file as last written. An exception of the
  assignment or of \<^verbatim>\<open>asdict\<close> comes before the element is replaced.
\<close>

definition list_key :: "string \<Rightarrow> string" where
  "list_key ltype = (if ltype = LoadType_COLLECTION then ''collections'' else ''roles'')"

fun update_loop ::
  "string \<Rightarrow> string \<Rightarrow> string \<Rightarrow> string \<Rightarrow> pyval \<Rightarrow> pyval \<Rightarrow> pyval list \<Rightarrow> pyval list \<Rightarrow> unit action" where
  "update_loop ltype metadata_file target key v metadata seen [] = ret ()"
| "update_loop ltype metadata_file target key v metadata seen (data # todo) =
     bind (lift (DownloadMetadata_init data)) (\<lambda>dm.
       if name dm = PStr target then
         bind (lift (setattr_asdict dm key v)) (\<lambda>new.
         bind (lift (dict_set metadata (list_key ltype) (PList (seen @ new # todo))))
           (\<lambda>metadata'.
         bind (json_dump metadata' metadata_file) (\<lambda>u.
           update_loop ltype metadata_file target key v metadata' (seen @ [new]) todo)))
       else update_loop ltype metadata_file target key v metadata (seen @ [data]) todo)"

definition update_metadata :: "string \<Rightarrow> string \<Rightarrow> string \<Rightarrow> string \<Rightarrow> pyval \<Rightarrow> unit action" where
  "update_metadata ltype metadata_file target key v =
     bind (json_load metadata_file) (\<lambda>metadata.
       if ltype = LoadType_COLLECTION \<or> ltype = LoadType_ROLE then
         bind (lift (dict_get metadata (list_key ltype) (PList []))) (\<lambda>metadata_list.
         bind (lift (py_iter metadata_list)) (\<lambda>items.
           update_loop ltype metadata_file target key v metadata [] items))
       else
         bind (logging_warning (''metadata not found: '' @ target)) (\<lambda>u. ret ()))"

definition move_src :: "env \<Rightarrow> string \<Rightarrow> string \<Rightarrow> unit action" where
  "move_src E src dst s =
     (if src = [] \<or> \<not> path_exists (fs s) src \<or> \<not> isdir (fs s) src
        then (Inl (ValueError (''src '' @ src @ '' is not directory'')), s)
      else if dst = [] \<or> str_contains dst ''..''
        then (Inl (ValueError (''dst '' @ dst @ '' is invalid'')), s)
      else bind (run E (CopyDir src dst)) (\<lambda>status. ret ()) s)"

subsection \<open>Archives and authors\<close>

definition tar_open :: "string \<Rightarrow> (string \<times> content) list action" where
  \<comment> \<open>\<^verbatim>\<open>tarfile.open(name=p, mode="r")\<close> and \<^verbatim>\<open>getmembers\<close>: the members that are files,
      with their names\<close>
  "tar_open p s =
     (case map_of (nodes (fs s)) p of
        None \<Rightarrow> (Inl FileNotFoundError, s)
      | Some Dir \<Rightarrow> (Inl IsADirectoryError, s)
      | Some (File (Tar members)) \<Rightarrow> (Inr members, s)
      | Some (File c) \<Rightarrow> (Inl ReadError, s))"

fun extract_members :: "string \<Rightarrow> (string \<times> content) list \<Rightarrow> string \<times> string \<Rightarrow> (string \<times> string) action" where
  "extract_members filepath [] paths = ret paths"
| "extract_members filepath ((member, c) # rest) paths =
     bind (if endswith member collection_manifest_json
           then bind (write_file (str_replace filepath ''.tar.gz'' (''-'' @ collection_manifest_json)) c)
                  (\<lambda>u. ret (str_replace filepath ''.tar.gz'' (''-'' @ collection_manifest_json), snd paths))
           else ret paths) (\<lambda>paths1.
     bind (if endswith member collection_files_json
           then bind (write_file (str_replace filepath ''.tar.gz'' (''-'' @ collection_files_json)) c)
                  (\<lambda>u. ret (fst paths1, str_replace filepath ''.tar.gz'' (''-'' @ collection_files_json)))
           else ret paths1) (\<lambda>paths2.
       extract_members filepath rest paths2))"

definition get_metafile_in_target :: "env \<Rightarrow> string \<Rightarrow> string \<Rightarrow> (string \<times> string) action" where
  "get_metafile_in_target E ltype filepath =
     (if ltype = LoadType_COLLECTION then
        bind (tar_open filepath) (\<lambda>members. extract_members filepath members ([], []))
      else if ltype = LoadType_ROLE then
        (\<lambda>s. (case safe_glob E [path_join filepath [''**'', role_meta_main_yml],
                                 path_join filepath [''**'', role_meta_main_yaml]] (fs s) of
                 [] \<Rightarrow> (Inr ([], []), s)
               | m # ms \<Rightarrow> (Inr (m, []), s)))
      else ret ([], []))"

definition str_join :: "string \<Rightarrow> pyval \<Rightarrow> error + string" where
  \<comment> \<open>\<^verbatim>\<open>sep.join(v)\<close>: every element is a string\<close>
  "str_join sep v =
     (case py_iter v of
        Inl e \<Rightarrow> Inl e
      | Inr xs \<Rightarrow>
          if list_all (\<lambda>x. case x of PStr t \<Rightarrow> True | _ \<Rightarrow> False) xs
          then Inr (concat
                 (case map (\<lambda>x. case x of PStr t \<Rightarrow> t | _ \<Rightarrow> []) xs of
                    [] \<Rightarrow> []
                  | t # ts \<Rightarrow> t # map (\<lambda>u. sep @ u) ts))
          else Inl TypeError)"

definition yaml_load :: "string \<Rightarrow> pyval action" where
  \<comment> \<open>\<^verbatim>\<open>with open(p, "r") as f: yaml.safe_load(f)\<close>; JSON text is YAML text\<close>
  "yaml_load p s =
     (case map_of (nodes (fs s)) p of
        None \<Rightarrow> (Inl FileNotFoundError, s)
      | Some Dir \<Rightarrow> (Inl IsADirectoryError, s)
      | Some (File (Yaml v)) \<Rightarrow> (Inr v, s)
      | Some (File (Json v)) \<Rightarrow> (Inr v, s)
      | Some (File c) \<Rightarrow> (Inl YAMLError, s))"

definition get_author :: "string \<Rightarrow> string \<Rightarrow> pyval action" where
  "get_author ltype metafile =
     (\<lambda>s. if \<not> path_exists (fs s) metafile
           then bind (logging_warning (''invalid file path: '' @ metafile)) (\<lambda>u. ret (PStr [])) s
           else if ltype = LoadType_COLLECTION then
             bind (json_load metafile) (\<lambda>metadata.
             bind (lift (dict_get metadata ''collection_info'' (PDict []))) (\<lambda>info.
             bind (lift (dict_get info ''authors'' (PList []))) (\<lambda>authors.
             bind (lift (str_join '','' authors)) (\<lambda>joined. ret (PStr joined))))) s
           else if ltype = LoadType_ROLE then
             bind (yaml_load metafile) (\<lambda>metadata.
             bind (lift (dict_get metadata ''galaxy_info'' (PDict []))) (\<lambda>info.
               lift (dict_get info ''author'' (PStr [])))) s
           else ret PNone s)"

subsection \<open>Parsing the output of the download tools\<close>

text \<open>
  \<^verbatim>\<open>re.findall(r"Downloading (.*) to", log_message)\<close>. The dot matches every character but
  the newline, so a match lies within one line; the search is leftmost and the star is
  greedy, so the match of a line starts at its first \<^verbatim>\<open>Downloading\<close> followed by a space
  and the group ends before the last \<^verbatim>\<open>to\<close> preceded by a space that comes after it.
  Nothing can match in what is left of the line, and a later start in a line cannot
  match where the first fails.
\<close>

definition match_download_line :: "string \<Rightarrow> string option" where
  "match_download_line l =
     (case str_find l ''Downloading '' of
        None \<Rightarrow> None
      | Some i \<Rightarrow>
          (case str_rfind (drop (i + 12) l) '' to'' of
             None \<Rightarrow> None
           | Some j \<Rightarrow> Some (take j (drop (i + 12) l))))"

definition re_findall_download :: "string \<Rightarrow> string list" where
  "re_findall_download log_message =
     List.map_filter match_download_line (str_split (CHR 0x0A) log_message)"

definition second_token :: "string list \<Rightarrow> error + string" where
  \<comment> \<open>\<^verbatim>\<open>parts[1]\<close>\<close>
  "second_token parts = (case parts of a # b # rest \<Rightarrow> Inr b | _ \<Rightarrow> Inl IndexError)"

definition collection_record :: "env \<Rightarrow> string \<Rightarrow> string \<Rightarrow> pyval action" where
  \<comment> \<open>the body of the loop of \<^verbatim>\<open>extract_collections_metadata\<close> for a match \<open>url\<close> that ends
      in \<^verbatim>\<open>tar.gz\<close>; the result is \<^verbatim>\<open>asdict(metadata)\<close>\<close>
  "collection_record E location url =
     bind (lift (second_token (str_split CHR ''-'' url))) (\<lambda>second.
     bind (\<lambda>s. if \<not> path_exists (fs s) (location @ ''/'' @ last (str_split CHR ''/'' url))
                then logging_warning (''failed to get metadata for '' @ url) s
                else ret () s) (\<lambda>u.
     bind (getmtime (location @ ''/'' @ last (str_split CHR ''/'' url))) (\<lambda>m_time.
     bind (get_metafile_in_target E LoadType_COLLECTION
             (location @ ''/'' @ last (str_split CHR ''/'' url))) (\<lambda>paths.
     bind (get_author LoadType_COLLECTION (fst paths)) (\<lambda>author_value.
       ret (asdict (DownloadMetadata_default
             \<lparr> name := PStr (last (str_split CHR ''/'' (hd (str_split CHR ''-'' url))) @ ''.'' @ second),
               type := PStr LoadType_COLLECTION,
               version := PStr (str_replace (last (str_split CHR ''-'' url)) ''.tar.gz'' []),
               author := author_value,
               download_url := PStr url,
               download_src_path := PStr (location @ ''/'' @ last (str_split CHR ''/'' url)),
               hash := (if url \<noteq> [] then PStr (get_hash_of_url E url) else PStr []),
               metafile_path := PStr (fst paths),
               files_json_path := PStr (snd paths),
               download_timestamp := PStr (utc_isoformat E m_time),
               requirements_file := PStr (location @ ''/'' @ requirements_yml) \<rparr>)))))))"

fun extract_collections_loop :: "env \<Rightarrow> string \<Rightarrow> string list \<Rightarrow> pyval list action" where
  "extract_collections_loop E location [] = ret []"
| "extract_collections_loop E location (m # ms) =
     (if endswith m ''tar.gz'' then
        bind (collection_record E location m) (\<lambda>d.
        bind (extract_collections_loop E location ms) (\<lambda>ds. ret (d # ds)))
      else extract_collections_loop E location ms)"

definition extract_collections_metadata :: "env \<Rightarrow> string \<Rightarrow> string \<Rightarrow> pyval action" where
  "extract_collections_metadata E log_message location =
     bind (extract_collections_loop E location (re_findall_download log_message))
       (\<lambda>metadata_list. ret (PDict [(''collections'', PList metadata_list)]))"

definition role_record :: "env \<Rightarrow> string \<Rightarrow> string list \<Rightarrow> pyval action" where
  \<comment> \<open>the body of the loop of \<^verbatim>\<open>extract_roles_metadata\<close> for a line that starts with the
      sentinel; \<open>rest\<close> are the lines after it, and \<^verbatim>\<open>messages[i + 1]\<close> is the first of
      them\<close>
  "role_record E line rest =
     (case rest of
        [] \<Rightarrow> raise IndexError
      | nxt # others \<Rightarrow>
          bind (getmtime (last (str_split CHR '' '' nxt))) (\<lambda>m_time.
            ret (asdict (DownloadMetadata_default
              \<lparr> name := PStr (last (str_split CHR ''/'' nxt)),
                type := PStr LoadType_ROLE,
                version := PStr (str_replace
                   (last (str_split CHR ''/'' (last (str_split CHR '' '' line)))) ''.tar.gz'' []),
                download_url := PStr (last (str_split CHR '' '' line)),
                download_src_path := PStr (last (str_split CHR '' '' nxt)),
                hash := (if last (str_split CHR '' '' line) \<noteq> []
                         then PStr (get_hash_of_url E (last (str_split CHR '' '' line)))
                         else PStr []),
                download_timestamp := PStr (utc_isoformat E m_time) \<rparr>))))"

fun extract_roles_loop :: "env \<Rightarrow> string list \<Rightarrow> pyval list action" where
  "extract_roles_loop E [] = ret []"
| "extract_roles_loop E (line # rest) =
     (if startswith line ''- downloading role from '' then
        bind (role_record E line rest) (\<lambda>d.
        bind (extract_roles_loop E rest) (\<lambda>ds. ret (d # ds)))
      else extract_roles_loop E rest)"

definition extract_roles_metadata :: "env \<Rightarrow> string \<Rightarrow> pyval action" where
  "extract_roles_metadata E log_message =
     bind (extract_roles_loop E (splitlines log_message))
       (\<lambda>metadata_list. ret (PDict [(''roles'', PList metadata_list)]))"

subsection \<open>Download and installation commands\<close>

definition download_galaxy_collection :: "env \<Rightarrow> string \<Rightarrow> string \<Rightarrow> string \<Rightarrow> string \<Rightarrow> string action" where
  "download_galaxy_collection E target output_dir ver repository =
     run E (GalaxyCollectionDownload
              (if ver \<noteq> [] then target @ '':'' @ ver else target)
              (if repository \<noteq> [] then ''--server '' @ repository else [])
              output_dir)"

definition install_galaxy_collection_from_targz :: "env \<Rightarrow> pyval \<Rightarrow> string \<Rightarrow> unit action" where
  "install_galaxy_collection_from_targz E tarfile output_dir =
     bind (run E (GalaxyCollectionInstallTargz tarfile output_dir)) (\<lambda>install_msg. ret ())"

definition install_galaxy_collection_from_reqfile :: "env \<Rightarrow> pyval \<Rightarrow> string \<Rightarrow> unit action" where
  "install_galaxy_collection_from_reqfile E requirements output_dir =
     bind (lift (the_str requirements)) (\<lambda>req.
     bind (run E (GalaxyCollectionInstallReqfile (str_replace req requirements_yml []) req output_dir))
       (\<lambda>install_msg. ret ()))"

definition install_galaxy_target :: "env \<Rightarrow> string \<Rightarrow> string \<Rightarrow> string \<Rightarrow> string \<Rightarrow> version_arg \<Rightarrow> string action" where
  "install_galaxy_target E target ltype output_dir repository ver =
     run E (InstallGalaxyTarget target ltype output_dir repository ver)"

subsection \<open>Looking for a downloaded archive\<close>

fun scan_metafiles :: "string \<Rightarrow> string \<Rightarrow> string list \<Rightarrow> bool \<times> pyval \<Rightarrow> (bool \<times> pyval) action" where
  "scan_metafiles ltype target [] found = ret found"
| "scan_metafiles ltype target (metafile # rest) found =
     bind (find_target_metadata ltype metafile target) (\<lambda>md.
       case md of
         None \<Rightarrow> scan_metafiles ltype target rest found
       | Some dm \<Rightarrow> scan_metafiles ltype target rest (True, download_src_path dm))"

fun scan_archives :: "string \<Rightarrow> string list \<Rightarrow> bool \<times> pyval \<Rightarrow> bool \<times> pyval" where
  "scan_archives namepart [] found = found"
| "scan_archives namepart (file # rest) found =
     (if endswith file ''.tar.gz'' \<and> str_contains file namepart
      then scan_archives namepart rest (True, PStr file)
      else scan_archives namepart rest found)"

definition is_download_file_exist :: "string \<Rightarrow> string \<Rightarrow> string \<Rightarrow> (bool \<times> pyval) action" where
  "is_download_file_exist ltype target dir_path =
     (\<lambda>s. case glob_recursive (fs s) (path_join dir_path [ltype]) download_metadata_file of
             [] \<Rightarrow> bind (listdir dir_path)
                    (\<lambda>files. ret (scan_archives (str_replace target ''.'' ''-'') files (False, PStr []))) s
           | metafile # rest \<Rightarrow> scan_metafiles ltype target (metafile # rest) (False, PStr []) s)"

subsection \<open>The decision for one collection\<close>

definition dep_value :: "(string \<times> string) list \<Rightarrow> string \<Rightarrow> string" where
  \<comment> \<open>\<^verbatim>\<open>d.get(key, "")\<close>\<close>
  "dep_value d key = (case map_of d key of Some v \<Rightarrow> v | None \<Rightarrow> [])"

fun collection_name :: "dep_item \<Rightarrow> string" where
  "collection_name (DepName n) = n"
| "collection_name (DepDict d) =
     (if dep_value d ''name'' = [] then dep_value d ''source'' else dep_value d ''name'')"

fun collection_version :: "dep_item \<Rightarrow> string" where
  "collection_version (DepName n) = []"
| "collection_version (DepDict d) = dep_value d ''version''"

definition new_dependency :: "string \<Rightarrow> string \<Rightarrow> bool \<Rightarrow> Dependency" where
  \<comment> \<open>\<^verbatim>\<open>Dependency(name=n)\<close> with the type, the name and the cache flag of its metadata set\<close>
  "new_dependency ltype n cache =
     \<lparr> dir = [], dep_name = n,
       dep_metadata = Some (DownloadMetadata_default
          \<lparr> name := PStr n, type := PStr ltype, cache_enabled := PBool cache \<rparr>) \<rparr>"

definition set_metadata_field ::
  "(DownloadMetadata \<Rightarrow> DownloadMetadata) \<Rightarrow> Dependency \<Rightarrow> error + Dependency" where
  \<comment> \<open>\<^verbatim>\<open>downloaded_dep.metadata.field = v\<close>: \<^verbatim>\<open>None\<close> has no fields\<close>
  "set_metadata_field upd dep =
     (case dep_metadata dep of
        None \<Rightarrow> Inl AttributeError
      | Some md \<Rightarrow> Inr (dep\<lparr>dep_metadata := Some (upd md)\<rparr>))"

definition collection_dir :: "string \<Rightarrow> string \<Rightarrow> error + string" where
  \<comment> \<open>\<^verbatim>\<open>parts = col_name.split(".")\<close> and
      \<^verbatim>\<open>os.path.join(sub_dependency_dir_path, "ansible_collections", parts[0], parts[1])\<close>\<close>
  "collection_dir sub col_name =
     (case str_split CHR ''.'' col_name of
        p0 # p1 # rest \<Rightarrow> Inr (path_join sub [''ansible_collections'', p0, p1])
      | _ \<Rightarrow> Inl IndexError)"

definition collection_cache_hit :: "string \<Rightarrow> pyval \<Rightarrow> (DownloadMetadata option \<times> pyval) action" where
  \<comment> \<open>cache data found: the metadata file beside the recorded archive is read; the result
      is \<^verbatim>\<open>md\<close> and \<^verbatim>\<open>targz_file\<close>\<close>
  "collection_cache_hit col_name targz_file =
     bind (lift (the_str targz_file)) (\<lambda>targz.
     bind (find_target_metadata LoadType_COLLECTION
             (path_join (rsplit1_head CHR ''/'' targz) [download_metadata_file]) col_name) (\<lambda>md.
       ret (md, targz_file)))"

definition collection_cache_miss ::
  "env \<Rightarrow> string \<Rightarrow> string \<Rightarrow> string \<Rightarrow> pyval \<Rightarrow> (DownloadMetadata option \<times> pyval) action" where
  \<comment> \<open>no cache data: download into the cache location, parse the output, store and read
      the metadata\<close>
  "collection_cache_miss E col_name col_version cache_path targz_file =
     bind (\<lambda>s. download_galaxy_collection E col_name
                  (path_join cache_path [''collection'', col_name]) col_version
                  (self_source_repository (self s)) s) (\<lambda>install_msg.
     bind (extract_collections_metadata E install_msg
             (path_join cache_path [''collection'', col_name])) (\<lambda>metadata.
     bind (export_data metadata (path_join cache_path [''collection'', col_name])
             download_metadata_file) (\<lambda>metadata_file.
     bind (find_target_metadata LoadType_COLLECTION metadata_file col_name) (\<lambda>md.
       ret (md, (case md of Some dm \<Rightarrow> download_src_path dm | None \<Rightarrow> targz_file))))))"

definition collection_cache_branch ::
  "env \<Rightarrow> string \<Rightarrow> string \<Rightarrow> string \<Rightarrow> string \<Rightarrow> Dependency \<Rightarrow> Dependency action" where
  \<comment> \<open>the branch \<^verbatim>\<open>if cache_enabled:\<close> up to the assignment of \<^verbatim>\<open>metadata.cache_dir\<close>\<close>
  "collection_cache_branch E col_name col_version cache_path sub dep =
     bind (is_download_file_exist LoadType_COLLECTION col_name cache_path) (\<lambda>found.
     bind (if fst found then collection_cache_hit col_name (snd found)
           else collection_cache_miss E col_name col_version cache_path (snd found)) (\<lambda>r.
     bind (install_galaxy_collection_from_targz E (snd r) sub) (\<lambda>u.
       lift (set_metadata_field (\<lambda>md. md\<lparr>cache_dir := snd r\<rparr>) (dep\<lparr>dep_metadata := fst r\<rparr>)))))"

definition collection_paths_branch ::
  "env \<Rightarrow> finder_result \<Rightarrow> string \<Rightarrow> string \<Rightarrow> Dependency \<Rightarrow> Dependency action" where
  \<comment> \<open>the branch \<^verbatim>\<open>elif col_name in col_dependency_dirs:\<close>; \<open>mapped\<close> is
      \<^verbatim>\<open>col_dependency_dirs[col_name]\<close>\<close>
  "collection_paths_branch E deps col_name mapped dep =
     (\<lambda>s. case (case map_of (metadata_collections deps) col_name of
                   None \<Rightarrow> GalaxyDict [] | Some g \<Rightarrow> g) of
             NotADict \<Rightarrow> ret dep s
           | GalaxyDict col_galaxy_data \<Rightarrow>
               bind (lift (set_metadata_field
                       (\<lambda>md. md\<lparr> source_repository := PStr (self_source_repository (self s)),
                                  download_url := PStr (dep_value col_galaxy_data ''download_url''),
                                  hash := PStr (if dep_value col_galaxy_data ''download_url'' \<noteq> []
                                                then get_hash_of_url E (dep_value col_galaxy_data ''download_url'')
                                                else []),
                                  version := PStr (dep_value col_galaxy_data ''version'') \<rparr>) dep))
                 (\<lambda>dep1. ret (dep1\<lparr>dir := mapped\<rparr>)) s)"

definition collection_download_branch ::
  "env \<Rightarrow> string \<Rightarrow> string \<Rightarrow> string \<Rightarrow> Dependency \<Rightarrow> Dependency action" where
  \<comment> \<open>the last branch, up to the assignment of \<^verbatim>\<open>metadata.source_repository\<close>\<close>
  "collection_download_branch E col_name col_version sub dep s0 =
     bind (is_download_file_exist LoadType_COLLECTION col_name
             (path_join (download_location (self s0)) [''collection'', col_name])) (\<lambda>found.
     bind (if fst found then
             bind (install_galaxy_collection_from_targz E (snd found) sub) (\<lambda>u.
               find_target_metadata LoadType_COLLECTION
                 (path_join (download_location (self s0))
                    [''collection'', target_name (self s0), download_metadata_file]) col_name)
           else
             bind (ensure_dir (path_join (download_location (self s0)) [''collection'', col_name])) (\<lambda>u.
             bind (download_galaxy_collection E col_name
                     (path_join (download_location (self s0)) [''collection'', col_name]) col_version
                     (self_source_repository (self s0))) (\<lambda>install_msg.
             bind (extract_collections_metadata E install_msg
                     (path_join (download_location (self s0)) [''collection'', col_name])) (\<lambda>metadata.
             bind (export_data metadata
                     (path_join (download_location (self s0)) [''collection'', col_name])
                     download_metadata_file) (\<lambda>metadata_file.
             bind (find_target_metadata LoadType_COLLECTION metadata_file col_name) (\<lambda>md.
             bind (case md of
                     Some dm \<Rightarrow> install_galaxy_collection_from_reqfile E (requirements_file dm) sub
                   | None \<Rightarrow> ret ()) (\<lambda>u. ret md)))))))
       (\<lambda>md.
       lift (set_metadata_field
               (\<lambda>m. m\<lparr>source_repository := PStr (self_source_repository (self s0))\<rparr>)
               (case md of Some dm \<Rightarrow> dep\<lparr>dep_metadata := Some dm\<rparr> | None \<Rightarrow> dep)))) s0"

definition append_dependency :: "Dependency \<Rightarrow> unit action" where
  \<comment> \<open>\<^verbatim>\<open>self.dependency_dirs.append(asdict(downloaded_dep))\<close>\<close>
  "append_dependency dep s =
     (Inr (), s\<lparr>self := (self s)\<lparr>dependency_dirs := dependency_dirs (self s) @ [dep]\<rparr>\<rparr>)"

definition prepare_collection_dep :: "env \<Rightarrow> finder_result \<Rightarrow> bool \<Rightarrow> string \<Rightarrow> dep_item \<Rightarrow> unit action" where
  \<comment> \<open>one iteration of the loop over the collections\<close>
  "prepare_collection_dep E deps cache cache_path cdep s0 =
     bind (ensure_dir (path_join (dependency_dir_path (self s0)) [''collections'', ''src''])) (\<lambda>u.
     bind (if cache then
             bind (collection_cache_branch E (collection_name cdep) (collection_version cdep) cache_path
                     (path_join (dependency_dir_path (self s0)) [''collections'', ''src''])
                     (new_dependency LoadType_COLLECTION (collection_name cdep) cache)) (\<lambda>dep.
             bind (lift (collection_dir
                     (path_join (dependency_dir_path (self s0)) [''collections'', ''src''])
                     (collection_name cdep))) (\<lambda>d. ret (dep\<lparr>dir := d\<rparr>)))
           else (case map_of (paths_collections deps) (collection_name cdep) of
                   Some mapped \<Rightarrow>
                     collection_paths_branch E deps (collection_name cdep) mapped
                       (new_dependency LoadType_COLLECTION (collection_name cdep) cache)
                 | None \<Rightarrow>
                     bind (collection_download_branch E (collection_name cdep) (collection_version cdep)
                             (path_join (dependency_dir_path (self s0)) [''collections'', ''src''])
                             (new_dependency LoadType_COLLECTION (collection_name cdep) cache)) (\<lambda>dep.
                     bind (lift (collection_dir
                             (path_join (dependency_dir_path (self s0)) [''collections'', ''src''])
                             (collection_name cdep))) (\<lambda>d. ret (dep\<lparr>dir := d\<rparr>)))))
       append_dependency) s0"

subsection \<open>The decision for one role\<close>

fun role_name :: "dep_item \<Rightarrow> string option" where
  \<comment> \<open>\<^verbatim>\<open>rdep.get("name", None)\<close> for a dictionary; after \<^verbatim>\<open>rdep = rdep_name\<close> the second
      test for a dictionary never holds\<close>
  "role_name (DepName n) = Some n"
| "role_name (DepDict d) = map_of d ''name''"

fun role_version :: "dep_item \<Rightarrow> string option" where
  "role_version (DepName n) = None"
| "role_version (DepDict d) = map_of d ''version''"

definition as_path :: "pyval \<Rightarrow> error + string" where
  \<comment> \<open>a value given to \<^verbatim>\<open>os.path.exists\<close>: a path is a string\<close>
  "as_path v = (case v of PStr p \<Rightarrow> Inr p | _ \<Rightarrow> Inl TypeError)"

definition set_md :: "DownloadMetadata option \<Rightarrow> Dependency \<Rightarrow> Dependency" where
  \<comment> \<open>\<^verbatim>\<open>if md is not None: downloaded_dep.metadata = md\<close>\<close>
  "set_md md dep = (case md of Some dm \<Rightarrow> dep\<lparr>dep_metadata := Some dm\<rparr> | None \<Rightarrow> dep)"

definition role_cache_test :: "string \<Rightarrow> bool action" where
  \<comment> \<open>\<^verbatim>\<open>os.path.exists(cache_dir_path) and len(os.listdir(cache_dir_path)) != 0\<close>\<close>
  "role_cache_test cache_dir_path s =
     (if path_exists (fs s) cache_dir_path
      then bind (listdir cache_dir_path) (\<lambda>files. ret (files \<noteq> [])) s
      else ret False s)"

definition role_cache_miss ::
  "env \<Rightarrow> string \<Rightarrow> version_arg \<Rightarrow> string \<Rightarrow> string \<Rightarrow> string \<Rightarrow> DownloadMetadata option action" where
  \<comment> \<open>no cache data: install the role into the cache directory, parse the output, store
      and read the metadata; \<open>target\<close> is \<^verbatim>\<open>self.target_name\<close>\<close>
  "role_cache_miss E rname ver cache_dir_path repository target =
     bind (install_galaxy_target E rname LoadType_ROLE cache_dir_path repository ver) (\<lambda>install_msg.
     bind (extract_roles_metadata E install_msg) (\<lambda>metadata.
     bind (export_data metadata cache_dir_path download_metadata_file) (\<lambda>metadata_file.
       find_target_metadata LoadType_ROLE metadata_file target)))"

definition role_cache_branch ::
  "env \<Rightarrow> string \<Rightarrow> version_arg \<Rightarrow> string \<Rightarrow> string \<Rightarrow> Dependency \<Rightarrow> Dependency action" where
  \<comment> \<open>the branch \<^verbatim>\<open>if cache_enabled:\<close> of a role; \<open>cache_dir_path\<close> is
      \<^verbatim>\<open>os.path.join(cache_dir, "roles", "src", name)\<close>\<close>
  "role_cache_branch E rname ver cache_dir_path sub dep s0 =
     bind (role_cache_test cache_dir_path) (\<lambda>cached.
     bind (if cached then
             find_target_metadata LoadType_ROLE
               (path_join cache_dir_path [download_metadata_file]) (target_name (self s0))
           else
             role_cache_miss E rname ver cache_dir_path (self_source_repository (self s0))
               (target_name (self s0))) (\<lambda>md.
     bind (move_src E sub cache_dir_path) (\<lambda>u.
       ret (set_md md dep)))) s0"

definition role_download_branch :: "env \<Rightarrow> string \<Rightarrow> string \<Rightarrow> Dependency \<Rightarrow> Dependency action" where
  \<comment> \<open>the last branch of a role\<close>
  "role_download_branch E rname sub dep s0 =
     bind (is_download_file_exist LoadType_ROLE rname
             (path_join (download_location (self s0)) [''role'', rname])) (\<lambda>found.
     bind (if fst found then
             bind (find_target_metadata LoadType_ROLE
                     (path_join (download_location (self s0)) [''role'', rname, download_metadata_file])
                     rname) (\<lambda>md.
             bind (case md of
                     None \<Rightarrow> raise AttributeError
                   | Some dm \<Rightarrow> bind (lift (as_path (download_src_path dm))) (\<lambda>src. move_src E src sub))
               (\<lambda>u. ret md))
           else
             bind (install_galaxy_target E rname LoadType_ROLE sub
                     (self_source_repository (self s0)) NoVersionArg) (\<lambda>install_msg.
             bind (extract_roles_metadata E install_msg) (\<lambda>metadata.
             bind (export_data metadata (path_join (download_location (self s0)) [''role'', rname])
                     download_metadata_file) (\<lambda>metadata_file.
               find_target_metadata LoadType_ROLE metadata_file rname)))) (\<lambda>md.
       ret (set_md md dep))) s0"

definition prepare_role_dep :: "env \<Rightarrow> finder_result \<Rightarrow> bool \<Rightarrow> string \<Rightarrow> dep_item \<Rightarrow> unit action" where
  \<comment> \<open>one iteration of the loop over the roles; a dictionary without a name gives the
      name \<^verbatim>\<open>None\<close>, which \<^verbatim>\<open>os.path.join\<close> refuses\<close>
  "prepare_role_dep E deps cache cache_path rdep s0 =
     (case role_name rdep of
        None \<Rightarrow> raise TypeError s0
      | Some rname \<Rightarrow>
          bind (ensure_dir (path_join (dependency_dir_path (self s0)) [''roles'', ''src'', rname])) (\<lambda>u.
          bind (if cache then
                  bind (role_cache_branch E rname (VersionArg (role_version rdep))
                          (path_join cache_path [''roles'', ''src'', rname])
                          (path_join (dependency_dir_path (self s0)) [''roles'', ''src'', rname])
                          (new_dependency LoadType_ROLE rname cache)) (\<lambda>dep.
                    ret (dep, path_join (dependency_dir_path (self s0)) [''roles'', ''src'', rname]))
                else (case map_of (paths_roles deps) rname of
                        Some mapped \<Rightarrow> ret (new_dependency LoadType_ROLE rname cache, mapped)
                      | None \<Rightarrow>
                          bind (role_download_branch E rname
                                  (path_join (dependency_dir_path (self s0)) [''roles'', ''src'', rname])
                                  (new_dependency LoadType_ROLE rname cache)) (\<lambda>dep.
                            ret (dep, path_join (dependency_dir_path (self s0)) [''roles'', ''src'', rname]))))
            (\<lambda>r.
          bind (lift (set_metadata_field
                  (\<lambda>m. m\<lparr>source_repository := PStr (self_source_repository (self s0))\<rparr>) (fst r))) (\<lambda>dep.
            append_dependency (dep\<lparr>dir := snd r\<rparr>)))) s0)"

subsection \<open>The orchestrator\<close>

fun for_each :: "('a \<Rightarrow> unit action) \<Rightarrow> 'a list \<Rightarrow> unit action" where
  \<comment> \<open>a \<^verbatim>\<open>for\<close> loop: an exception in an iteration ends the loop\<close>
  "for_each body [] = ret ()"
| "for_each body (x # xs) = bind (body x) (\<lambda>u. for_each body xs)"

definition prepare_dependency_dir :: "env \<Rightarrow> finder_result \<Rightarrow> bool \<Rightarrow> string \<Rightarrow> unit action" where
  "prepare_dependency_dir E deps cache cache_path =
     bind (for_each (prepare_collection_dep E deps cache cache_path) (dependencies_collections deps)) (\<lambda>u.
       for_each (prepare_role_dep E deps cache cache_path) (dependencies_roles deps))"

definition setup_dirs :: "bool \<Rightarrow> string \<Rightarrow> unit action" where
  "setup_dirs cache cache_path =
     bind (\<lambda>s. (Inr (), s\<lparr>self := (self s)\<lparr>download_location := path_join (root_dir (self s)) [''archives''],
                                            dependency_dir_path := root_dir (self s)\<rparr>\<rparr>)) (\<lambda>u.
     bind (\<lambda>s. ensure_dir (download_location (self s)) s) (\<lambda>u.
     bind (\<lambda>s. if cache \<and> \<not> path_exists (fs s) cache_path then makedirs cache_path s else ret () s) (\<lambda>u.
       (\<lambda>s. ensure_dir (dependency_dir_path (self s)) s))))"

definition root_install_wanted :: "env \<Rightarrow> bool \<Rightarrow> DependencyDirPreparator \<Rightarrow> bool" where
  \<comment> \<open>the value of \<^verbatim>\<open>root_install\<close> after the two tests for a local target\<close>
  "root_install_wanted E root_install p =
     (if target_type p \<in> {LoadType_COLLECTION, LoadType_ROLE} \<and> is_local_path E (target_name p)
        then False
      else if target_type p = LoadType_PROJECT \<and> \<not> is_url E (target_name p) then False
      else root_install)"

definition prepare_root_dir :: "env \<Rightarrow> bool \<Rightarrow> bool \<Rightarrow> unit action" where
  "prepare_root_dir E root_install is_src_installed s0 =
     (if is_src_installed then ret () s0
      else if root_install_wanted E root_install (self s0) then src_install E s0
      else (case get_installed_metadata E (target_type (self s0)) (target_name (self s0))
                   (target_path (self s0)) (target_dependency_dir (self s0)) (fs s0) of
              (url, ver) \<Rightarrow>
                (Inr (), s0\<lparr>self := (self s0)\<lparr>self_metadata := (self_metadata (self s0))
                   \<lparr> download_url := PStr url, version := PStr ver,
                     hash := PStr (if url \<noteq> [] then get_hash_of_url E url else []) \<rparr>\<rparr>\<rparr>)))"

definition prepare_dir :: "env \<Rightarrow> bool \<Rightarrow> bool \<Rightarrow> bool \<Rightarrow> string \<Rightarrow> Dependency list action" where
  "prepare_dir E root_install is_src_installed cache cache_path =
     bind (setup_dirs cache cache_path) (\<lambda>u.
     bind (prepare_root_dir E root_install is_src_installed) (\<lambda>u.
     bind (\<lambda>s. ret (find_dependency E (target_type (self s)) (target_path (self s))
                       (target_dependency_dir (self s)) (fs s)) s) (\<lambda>deps.
     bind (prepare_dependency_dir E deps cache cache_path) (\<lambda>u.
       (\<lambda>s. ret (dependency_dirs (self s)) s)))))"

subsection \<open>Auxiliary definitions for the properties\<close>

text \<open>
  The attribute names that are not fields and for which the assignment of
  \<^verbatim>\<open>update_metadata\<close> raises or replaces the record. For every other name, what
  \<^verbatim>\<open>update_metadata\<close> leaves in place of a list element is \<open>updated_item\<close>: the dictionary
  of the updated record when the element is a record named \<open>target\<close>, else the element
  itself. A list element is as \<^verbatim>\<open>asdict\<close> writes it when it has every field, in the order
  of the fields.
\<close>

definition reserved_attributes :: "string list" where
  "reserved_attributes = [''__class__'', ''__weakref__'', ''__dict__'', ''__dataclass_fields__'']"

definition updated_item :: "string \<Rightarrow> string \<Rightarrow> pyval \<Rightarrow> pyval \<Rightarrow> pyval" where
  "updated_item target key v data =
     (case DownloadMetadata_init data of
        Inr dm \<Rightarrow> if name dm = PStr target
                  then asdict (if List.member field_names key then setattr_dm dm key v else dm)
                  else data
      | Inl e \<Rightarrow> data)"

definition written_by_asdict :: "pyval \<Rightarrow> bool" where
  "written_by_asdict data =
     (case DownloadMetadata_init data of Inr dm \<Rightarrow> data = asdict dm | Inl e \<Rightarrow> False)"

definition matches :: "string \<Rightarrow> pyval \<Rightarrow> bool" where
  "matches target data =
     (case DownloadMetadata_init data of Inr dm \<Rightarrow> name dm = PStr target | Inl e \<Rightarrow> False)"

text \<open>
  The reading of the error taxonomy by its words: a destination path has a
  parent-directory traversal when one of its components is \<^verbatim>\<open>..\<close>.
\<close>

definition spec_parent_traversal :: "string \<Rightarrow> bool" where
  "spec_parent_traversal dst = List.member (str_split CHR ''/'' dst) ''..''"

text \<open>
  The lines of a role log that start with the sentinel, each with the line after it.
  The words of the spec for the fields of a role record: the last whitespace token of a
  line is what is left of the line, without the whitespace at its end, after its last
  whitespace character; a path segment minus the archive suffix is the segment without
  \<^verbatim>\<open>.tar.gz\<close> at its end. The parser splits at single spaces and removes every
  \<^verbatim>\<open>.tar.gz\<close>: the two agree on a line that does not end in whitespace and whose only
  whitespace characters are spaces, and on a segment in which \<^verbatim>\<open>.tar.gz\<close> occurs at
  most once, at the end.
\<close>

definition is_whitespace :: "char \<Rightarrow> bool" where
  "is_whitespace c = (c \<in> set [CHR '' '', CHR 0x09, CHR 0x0A, CHR 0x0B, CHR 0x0C, CHR 0x0D])"

definition last_whitespace_token :: "string \<Rightarrow> string" where
  "last_whitespace_token l =
     rev (takeWhile (\<lambda>c. \<not> is_whitespace c) (dropWhile is_whitespace (rev l)))"

definition minus_suffix :: "string \<Rightarrow> string \<Rightarrow> string" where
  "minus_suffix s suffix = (if endswith s suffix then take (length s - length suffix) s else s)"

definition single_spaced :: "string \<Rightarrow> bool" where
  "single_spaced l =
     (l \<noteq> [] \<and> \<not> is_whitespace (last l) \<and> list_all (\<lambda>c. is_whitespace c \<longrightarrow> c = CHR '' '') l)"

definition suffix_only :: "string \<Rightarrow> string \<Rightarrow> bool" where
  "suffix_only seg suffix =
     (str_find seg suffix = None \<or> str_find seg suffix = Some (length seg - length suffix))"

definition sentinel_pairs :: "string list \<Rightarrow> (string \<times> string) list" where
  "sentinel_pairs messages =
     filter (\<lambda>p. startswith (fst p) ''- downloading role from '') (zip messages (tl messages))"

text \<open>
  Two properties of an action: it leaves the preparator's fields as they are; it starts
  no fetch (the commands it adds to the trace are installations and copies).
\<close>

definition keeps_self :: "'a action \<Rightarrow> bool" where
  "keeps_self m = (\<forall>s. self (snd (m s)) = self s)"

definition no_fetch_between :: "state \<Rightarrow> state \<Rightarrow> bool" where
  "no_fetch_between s s' =
     (\<exists>cmds. trace s' = trace s @ cmds \<and> list_all (\<lambda>c. \<not> is_fetch c) cmds)"

definition quiet :: "'a action \<Rightarrow> bool" where
  "quiet m = (\<forall>s. no_fetch_between s (snd (m s)))"

definition appends :: "nat \<Rightarrow> 'a action \<Rightarrow> bool" where
  \<comment> \<open>an action that, when it returns normally, has appended \<open>n\<close> descriptors to the list of
      the preparator\<close>
  "appends n m =
     (\<forall>s x s'. m s = (Inr x, s') \<longrightarrow>
        (\<exists>batch. dependency_dirs (self s') = dependency_dirs (self s) @ batch \<and> length batch = n))"

text \<open>
  A dependency is in the cache when its turn comes: the iteration has made sure of the
  dependency's directory, and then the test of the source finds the cache entry (for a
  collection, a metadata record of its name under the cache directory; for a role, a
  cache directory of its name that is not empty). A dependency set is fully cached for a
  run when this holds for every dependency that the run reaches.
\<close>

definition collection_turn_cached :: "string \<Rightarrow> dep_item \<Rightarrow> state \<Rightarrow> bool" where
  "collection_turn_cached cache_path cdep s =
     (case ensure_dir (path_join (dependency_dir_path (self s)) [''collections'', ''src'']) s of
        (Inr u, s1) \<Rightarrow>
          (case fst (is_download_file_exist LoadType_COLLECTION (collection_name cdep) cache_path s1) of
             Inr found \<Rightarrow> fst found
           | Inl e \<Rightarrow> False)
      | (Inl e, s1) \<Rightarrow> False)"

definition role_turn_cached :: "string \<Rightarrow> dep_item \<Rightarrow> state \<Rightarrow> bool" where
  "role_turn_cached cache_path rdep s =
     (case role_name rdep of
        None \<Rightarrow> False
      | Some rname \<Rightarrow>
          (case ensure_dir (path_join (dependency_dir_path (self s)) [''roles'', ''src'', rname]) s of
             (Inr u, s1) \<Rightarrow>
               (case fst (role_cache_test (path_join cache_path [''roles'', ''src'', rname]) s1) of
                  Inr cached \<Rightarrow> cached
                | Inl e \<Rightarrow> False)
           | (Inl e, s1) \<Rightarrow> False))"

fun all_turns_cached :: "('a \<Rightarrow> state \<Rightarrow> bool) \<Rightarrow> ('a \<Rightarrow> unit action) \<Rightarrow> 'a list \<Rightarrow> state \<Rightarrow> bool" where
  "all_turns_cached cached body [] s = True"
| "all_turns_cached cached body (x # xs) s =
     (cached x s \<and>
      (case body x s of
         (Inr u, s') \<Rightarrow> all_turns_cached cached body xs s'
       | (Inl e, s') \<Rightarrow> True))"

definition found_dependencies :: "env \<Rightarrow> bool \<Rightarrow> bool \<Rightarrow> bool \<Rightarrow> string \<Rightarrow> state \<Rightarrow> finder_result" where
  \<comment> \<open>what the dependency finder reports in a run of \<open>prepare_dir\<close> from \<open>s\<close>\<close>
  "found_dependencies E root_install is_src_installed cache cache_path s =
     (case setup_dirs cache cache_path s of
        (r1, sa) \<Rightarrow>
          (case prepare_root_dir E root_install is_src_installed sa of
             (r2, sb) \<Rightarrow>
               find_dependency E (target_type (self sb)) (target_path (self sb))
                 (target_dependency_dir (self sb)) (fs sb)))"

definition fully_cached_run :: "env \<Rightarrow> bool \<Rightarrow> bool \<Rightarrow> string \<Rightarrow> state \<Rightarrow> bool" where
  "fully_cached_run E root_install is_src_installed cache_path s =
     (case setup_dirs True cache_path s of
        (Inl e, sa) \<Rightarrow> True
      | (Inr u, sa) \<Rightarrow>
          (case prepare_root_dir E root_install is_src_installed sa of
             (Inl e, sb) \<Rightarrow> True
           | (Inr u, sb) \<Rightarrow>
               all_turns_cached (collection_turn_cached cache_path)
                 (prepare_collection_dep E
                    (found_dependencies E root_install is_src_installed True cache_path s) True cache_path)
                 (dependencies_collections
                    (found_dependencies E root_install is_src_installed True cache_path s)) sb \<and>
               (case for_each (prepare_collection_dep E
                       (found_dependencies E root_install is_src_installed True cache_path s) True cache_path)
                      (dependencies_collections
                         (found_dependencies E root_install is_src_installed True cache_path s)) sb of
                  (Inl e, sc) \<Rightarrow> True
                | (Inr u, sc) \<Rightarrow>
                    all_turns_cached (role_turn_cached cache_path)
                      (prepare_role_dep E
                         (found_dependencies E root_install is_src_installed True cache_path s) True cache_path)
                      (dependencies_roles
                         (found_dependencies E root_install is_src_installed True cache_path s)) sc)))"

subsection \<open>Example values\<close>

definition example_record :: "string \<Rightarrow> DownloadMetadata" where
  "example_record n = DownloadMetadata_default\<lparr>name := PStr n\<rparr>"

definition example_self :: DependencyDirPreparator where
  "example_self =
     \<lparr> root_dir = ''/work'', self_source_repository = [], target_type = LoadType_PROJECT,
       target_name = ''rootproject'', target_version = [], target_path = ''/work/src'',
       target_dependency_dir = [], target_path_mappings = [],
       self_metadata = DownloadMetadata_default, download_location = [],
       dependency_dir_path = [], silent = True, do_save = False, tmp_install_dir = None,
       dependency_dirs = [] \<rparr>"

definition example_state :: "(string \<times> node) list \<Rightarrow> state" where
  "example_state ns =
     \<lparr> fs = \<lparr> nodes = ns, mtime = (\<lambda>p. 0) \<rparr>, trace = [], warnings = [], self = example_self \<rparr>"

definition example_env :: env where
  \<comment> \<open>collaborators that print nothing and leave the file system as it is\<close>
  "example_env =
     \<lparr> external = (\<lambda>cmd f. ([], f)),
       get_hash_of_url = (\<lambda>url. ''hash of '' @ url),
       is_url = (\<lambda>t. startswith t ''https://''),
       is_local_path = (\<lambda>t. startswith t ''/''),
       get_installed_metadata = (\<lambda>ty n p d f. ([], [])),
       find_dependency = (\<lambda>ty p d f.
          \<lparr> dependencies_collections = [], dependencies_roles = [], paths_collections = [],
            paths_roles = [], metadata_collections = [] \<rparr>),
       utc_isoformat = (\<lambda>t. ''1970-01-01T00:00:00''),
       safe_glob = (\<lambda>ps f. []),
       src_install = (\<lambda>s. (Inr (), s)) \<rparr>"

definition stored_example :: state where
  \<comment> \<open>a metadata file of one collection record, named \<^verbatim>\<open>a.b\<close>\<close>
  "stored_example =
     example_state
       [(''/tmp'', Dir), (''/tmp/m'', Dir),
        (''/tmp/m/download_meta.json'',
           File (Json (PDict [(''collections'', PList [asdict (example_record ''a.b'')])])))]"

definition incomplete_example :: state where
  \<comment> \<open>a metadata file whose record \<^verbatim>\<open>a.b\<close> is stored with its name only\<close>
  "incomplete_example =
     example_state
       [(''/tmp'', Dir), (''/tmp/m'', Dir),
        (''/tmp/m/download_meta.json'',
           File (Json (PDict [(''collections'', PList [PDict [(''name'', PStr ''a.b'')]])])))]"

definition malformed_example :: state where
  \<comment> \<open>a metadata file whose list holds the record \<^verbatim>\<open>a.b\<close> and then a string\<close>
  "malformed_example =
     example_state
       [(''/tmp'', Dir), (''/tmp/m'', Dir),
        (''/tmp/m/download_meta.json'',
           File (Json (PDict [(''collections'',
                               PList [asdict (example_record ''a.b''), PStr ''junk''])])))]"

text \<open>
  An example of what the copy command does: \<^verbatim>\<open>cp -r src/* dst/\<close> copies the entries of
  \<open>src\<close> whose names do not start with a dot (those the shell pattern names), each with
  what lies under it, into the directory \<open>dst\<close>, replacing what has the same path; when
  \<open>dst\<close> is not an existing directory, or \<open>src\<close> has no such entry, it copies nothing and
  exits with an error status.
\<close>

definition copied_entry :: "string \<Rightarrow> string \<Rightarrow> bool" where
  "copied_entry src p =
     (startswith p (src @ ''/'') \<and> drop (Suc (length src)) p \<noteq> [] \<and>
      hd (drop (Suc (length src)) p) \<noteq> CHR ''.'')"

definition cp_recursive :: "string \<Rightarrow> string \<Rightarrow> filesystem \<Rightarrow> filesystem" where
  "cp_recursive src dst f =
     (if isdir f dst
      then f\<lparr>nodes := fold (\<lambda>pn ns. AList.update (dst @ drop (length src) (fst pn)) (snd pn) ns)
                         (filter (\<lambda>pn. copied_entry src (fst pn)) (nodes f)) (nodes f)\<rparr>
      else f)"

definition cp_env :: env where
  \<comment> \<open>the collaborators of \<open>example_env\<close>, with the copy command of the example above\<close>
  "cp_env =
     example_env\<lparr>external :=
       (\<lambda>cmd f. case cmd of CopyDir src dst \<Rightarrow> ([], cp_recursive src dst f) | _ \<Rightarrow> ([], f))\<rparr>"

definition role_example_log :: string where
  "role_example_log =
     ''- downloading role from https://github.com/x/y/archive/1.0.3.tar.gz'' @ [CHR 0x0A] @
     ''- extracting x.y to /tmp/role-test/x.y''"

definition archive_example :: state where
  \<comment> \<open>a download directory with the archive of \<^verbatim>\<open>ansible.posix\<close>\<close>
  "archive_example =
     example_state
       [(''/dl'', Dir),
        (''/dl/ansible-posix-1.4.0.tar.gz'',
           File (Tar [(''ansible-posix-1.4.0/MANIFEST.json'',
                        Json (PDict [(''collection_info'',
                                      PDict [(''authors'', PList [PStr ''Ansible''])])])),
                      (''ansible-posix-1.4.0/FILES.json'', Json (PDict []))]))]"

definition prepared_self :: DependencyDirPreparator where
  \<comment> \<open>the preparator after \<open>setup_dirs\<close>\<close>
  "prepared_self =
     example_self\<lparr>download_location := ''/work/archives'', dependency_dir_path := ''/work''\<rparr>"

definition cached_collection :: "string \<Rightarrow> DownloadMetadata" where
  "cached_collection n =
     DownloadMetadata_default
       \<lparr> name := PStr n, type := PStr LoadType_COLLECTION, version := PStr ''1.0.0'',
         download_src_path := PStr (''/cache/collection/'' @ n @ ''/archive-1.0.0.tar.gz'') \<rparr>"

definition cached_role :: DownloadMetadata where
  "cached_role =
     DownloadMetadata_default
       \<lparr> name := PStr ''x.y'', type := PStr LoadType_ROLE, version := PStr ''1.0.3'',
         download_src_path := PStr ''/cache/roles/src/x.y'' \<rparr>"

definition cache_nodes :: "(string \<times> node) list" where
  \<comment> \<open>a work directory and a cache with the collections \<^verbatim>\<open>a.b\<close> and \<^verbatim>\<open>nodot\<close> and the role
      \<^verbatim>\<open>x.y\<close>\<close>
  "cache_nodes =
     [(''/work'', Dir), (''/work/archives'', Dir),
      (''/cache'', Dir), (''/cache/collection'', Dir),
      (''/cache/collection/a.b'', Dir),
      (''/cache/collection/a.b/download_meta.json'',
         File (Json (PDict [(''collections'', PList [asdict (cached_collection ''a.b'')])]))),
      (''/cache/collection/a.b/archive-1.0.0.tar.gz'', File (Tar [])),
      (''/cache/collection/nodot'', Dir),
      (''/cache/collection/nodot/download_meta.json'',
         File (Json (PDict [(''collections'', PList [asdict (cached_collection ''nodot'')])]))),
      (''/cache/collection/nodot/archive-1.0.0.tar.gz'', File (Tar [])),
      (''/cache/roles'', Dir), (''/cache/roles/src'', Dir), (''/cache/roles/src/x.y'', Dir),
      (''/cache/roles/src/x.y/download_meta.json'',
         File (Json (PDict [(''roles'', PList [asdict cached_role])])))]"

definition cache_example :: state where
  "cache_example = (example_state cache_nodes)\<lparr>self := prepared_self\<rparr>"

definition no_dependencies :: finder_result where
  "no_dependencies =
     \<lparr> dependencies_collections = [], dependencies_roles = [], paths_collections = [],
       paths_roles = [], metadata_collections = [] \<rparr>"

definition mapped_dependencies :: finder_result where
  \<comment> \<open>the finder gives a directory for the collection \<^verbatim>\<open>a.b\<close> and for the role \<^verbatim>\<open>x.y\<close>,
      and metadata for the collection\<close>
  "mapped_dependencies =
     \<lparr> dependencies_collections = [DepName ''a.b''], dependencies_roles = [DepName ''x.y''],
       paths_collections = [(''a.b'', ''/deps/ansible_collections/a/b'')],
       paths_roles = [(''x.y'', ''/deps/roles/x.y'')],
       metadata_collections =
         [(''a.b'', GalaxyDict [(''download_url'', ''https://example/download/a-b-1.0.0.tar.gz''),
                                (''version'', ''1.0.0'')])] \<rparr>"

definition cached_env :: env where
  \<comment> \<open>the finder reports the collection \<^verbatim>\<open>a.b\<close>\<close>
  "cached_env =
     example_env\<lparr>find_dependency :=
       (\<lambda>ty p d f. no_dependencies\<lparr>dependencies_collections := [DepName ''a.b'']\<rparr>)\<rparr>"

definition cached_descriptor :: Dependency where
  \<comment> \<open>the descriptor of the collection \<^verbatim>\<open>a.b\<close> taken from the cache of \<open>cache_nodes\<close>\<close>
  "cached_descriptor =
     \<lparr> dir = ''/work/collections/src/ansible_collections/a/b'', dep_name = ''a.b'',
       dep_metadata = Some ((cached_collection ''a.b'')
          \<lparr>cache_dir := PStr ''/cache/collection/a.b/archive-1.0.0.tar.gz''\<rparr>) \<rparr>"

definition installing_env :: env where
  \<comment> \<open>an example of the installation of the root target: it starts the download of the
      root role, which is the first step of \<^verbatim>\<open>root_install\<close> for a role, and nothing else\<close>
  "installing_env =
     example_env\<lparr>src_install :=
       (\<lambda>s. bind (run example_env
                     (InstallGalaxyTarget (target_name (self s)) (target_type (self s))
                        ''/tmp/install/src'' (self_source_repository (self s))
                        (VersionArg (Some (target_version (self s))))))
                (\<lambda>msg. ret ()) s)\<rparr>"

definition remote_role_example :: state where
  \<comment> \<open>the root target is the role \<^verbatim>\<open>x.y\<close> of the galaxy server, not a local path\<close>
  "remote_role_example =
     (example_state cache_nodes)
       \<lparr>self := example_self\<lparr>target_type := LoadType_ROLE, target_name := ''x.y''\<rparr>\<rparr>"

section \<open>Properties\<close>

subsection \<open>Strings, paths and directories\<close>

lemma startswith_length: "startswith s p \<Longrightarrow> length p \<le> length s"
  by (induction s p rule: startswith.induct) auto

lemma str_split_nonempty: "str_split sep s \<noteq> []"
  by (induction s) (auto split: list.splits)

lemma str_split_no_sep: "\<not> List.member s sep \<Longrightarrow> str_split sep s = [s]"
  by (induction s) auto

lemma str_split_sep_tail: "sep \<in> set s \<Longrightarrow> tl (str_split sep s) \<noteq> []"
  using str_split_nonempty[of sep]
  by (induction s) (auto split: list.splits)

lemma last_str_split: "last (str_split sep s) = rev (takeWhile (\<lambda>c. c \<noteq> sep) (rev s))"
proof (induction s)
  case Nil
  then show ?case by simp
next
  case (Cons c cs)
  show ?case
  proof (cases "c = sep")
    case True
    then show ?thesis using Cons str_split_nonempty[of sep cs]
      by (auto simp: takeWhile_append)
  next
    case False
    show ?thesis
    proof (cases "sep \<in> set cs")
      case True
      then obtain w x ws where "str_split sep cs = w # x # ws"
        using str_split_sep_tail[OF True] str_split_nonempty[of sep cs]
        by (cases "str_split sep cs") (auto simp: neq_Nil_conv)
      then show ?thesis using Cons False True by (auto simp: takeWhile_append)
    next
      case n: False
      then have "str_split sep cs = [cs]" by (simp add: str_split_no_sep)
      then show ?thesis using False n by (auto simp: takeWhile_append)
    qed
  qed
qed

lemma last_token_single_spaced:
  assumes "single_spaced l"
  shows "last (str_split CHR '' '' l) = last_whitespace_token l"
proof -
  have l: "l \<noteq> []" "\<not> is_whitespace (last l)" "\<forall>c \<in> set l. is_whitespace c \<longrightarrow> c = CHR '' ''"
    using assms by (simp_all add: single_spaced_def list_all_iff)
  have d: "dropWhile is_whitespace (rev l) = rev l"
    using l(1,2) by (cases "rev l") (auto simp: last_rev hd_rev)
  have "takeWhile (\<lambda>c. \<not> is_whitespace c) (rev l) = takeWhile (\<lambda>c. c \<noteq> CHR '' '') (rev l)"
    using l(3) by (intro takeWhile_cong) (auto simp: is_whitespace_def)
  then show ?thesis by (simp add: last_str_split last_whitespace_token_def d)
qed

lemma startswith_append: "startswith (p @ r) p"
  by (induction p) auto

lemma startswith_split: "startswith s p \<Longrightarrow> \<exists>r. s = p @ r"
  by (induction s p rule: startswith.induct) auto

lemma endswith_split: "endswith s p \<longleftrightarrow> (\<exists>q. s = q @ p)"
proof
  assume "endswith s p"
  then obtain r where "rev s = rev p @ r" using startswith_split by (auto simp: endswith_def)
  then have "s = rev r @ p" by (metis rev_append rev_rev_ident)
  then show "\<exists>q. s = q @ p" by blast
next
  assume "\<exists>q. s = q @ p"
  then show "endswith s p" by (auto simp: endswith_def startswith_append)
qed

lemma startswith_refl: "startswith p p"
  using startswith_append[of p "[]"] by simp

lemma str_find_self: "str_find p p = Some 0"
  by (cases p) (simp_all add: startswith_refl)

lemma str_find_suffix: "str_find (q @ p) p \<noteq> None"
  by (induction q) (simp_all add: str_find_self)

lemma replace_skip: "length cs \<le> k \<Longrightarrow> str_replace_from old new k cs = []"
  by (induction old new k cs rule: str_replace_from.induct) auto

lemma replace_absent:
  "old \<noteq> [] \<Longrightarrow> str_find s old = None \<Longrightarrow> str_replace_from old new 0 s = s"
  by (induction s) (auto split: if_splits)

lemma startswith_same_length: "startswith s p \<Longrightarrow> length s \<le> length p \<Longrightarrow> s = p"
  by (induction s p rule: startswith.induct) auto

lemma replace_at_end:
  "old \<noteq> [] \<Longrightarrow> str_find s old = Some i \<Longrightarrow> i + length old = length s \<Longrightarrow>
   str_replace_from old new 0 s = take i s @ new"
proof (induction s arbitrary: i)
  case Nil
  then show ?case by simp
next
  case (Cons c cs)
  show ?case
  proof (cases "startswith (c # cs) old")
    case True
    then have "i = 0" using Cons.prems by simp
    then show ?thesis using True Cons.prems by (simp add: replace_skip)
  next
    case False
    then obtain j where "str_find cs old = Some j" "i = Suc j" using Cons.prems by auto
    then show ?thesis using False Cons by simp
  qed
qed

lemma str_find_startswith: "str_find s sub = Some i \<Longrightarrow> startswith (drop i s) sub"
proof (induction s arbitrary: i)
  case Nil
  then show ?case by (simp split: if_splits)
next
  case (Cons c cs)
  then show ?case by (cases "startswith (c # cs) sub") auto
qed

lemma str_find_bound: "str_find s sub = Some i \<Longrightarrow> i + length sub \<le> length s"
proof (induction s arbitrary: i)
  case Nil
  then show ?case by (simp split: if_splits)
next
  case (Cons c cs)
  show ?case
  proof (cases "startswith (c # cs) sub")
    case True
    then show ?thesis using Cons.prems startswith_length[OF True] by simp
  next
    case False
    then show ?thesis using Cons by auto
  qed
qed

lemma version_minus_suffix:
  assumes "suffix_only seg suffix" and "suffix \<noteq> []"
  shows "str_replace seg suffix [] = minus_suffix seg suffix"
proof (cases "str_find seg suffix")
  case None
  have "\<not> endswith seg suffix"
  proof
    assume "endswith seg suffix"
    then obtain q where "seg = q @ suffix" using endswith_split by blast
    then show False using None str_find_suffix[of q suffix] by simp
  qed
  then show ?thesis using None assms(2) by (simp add: str_replace_def minus_suffix_def replace_absent)
next
  case (Some i)
  then have i: "i = length seg - length suffix" using assms(1) by (simp add: suffix_only_def)
  have le: "length suffix \<le> length seg"
    using str_find_bound[OF Some] by simp
  have r: "str_replace seg suffix [] = take i seg"
    using replace_at_end[OF assms(2) Some, of "[]"] i le by (simp add: str_replace_def)
  have "startswith (drop i seg) suffix"
    using str_find_startswith[OF Some] .
  then have "drop i seg = suffix"
    using i le by (intro startswith_same_length) simp_all
  then have "seg = take i seg @ suffix" by (metis append_take_drop_id)
  then have "endswith seg suffix" using endswith_split by blast
  then show ?thesis using r i by (simp add: minus_suffix_def)
qed

lemma str_rfind_bound: "str_rfind s sub = Some i \<Longrightarrow> i + length sub \<le> length s"
proof (induction s arbitrary: i)
  case Nil
  then show ?case by (simp split: if_splits)
next
  case (Cons c cs)
  then show ?case using startswith_length[of "c # cs" sub]
    by (auto split: option.splits if_splits)
qed

lemma str_rfind_append_plain:
  "\<not> List.member fn CHR ''/'' \<Longrightarrow> str_rfind (d @ ''/'' @ fn) ''/'' = Some (length d)"
proof (induction d)
  case Nil
  have "str_rfind fn ''/'' = None" using Nil
    by (induction fn) (auto split: option.splits)
  then show ?case by simp
next
  case (Cons c d)
  then show ?case by simp
qed

lemma map_of_add_dir:
  "map_of (add_dir p ns) q = (if q = p \<and> map_of ns p = None then Some Dir else map_of ns q)"
  by (auto simp: add_dir_def map_add_def split: option.splits)

lemma map_of_fold_add_dir:
  "map_of (fold add_dir ps ns) q =
     (if q \<in> set ps \<and> map_of ns q = None then Some Dir else map_of ns q)"
  by (induction ps arbitrary: ns) (auto simp: map_of_add_dir)

lemma parents_from_length:
  "q \<in> set (parents_from acc cs) \<Longrightarrow> length q < length acc + length cs"
  by (induction acc cs rule: parents_from.induct) (auto split: if_splits)

lemma parents_shorter: "q \<in> set (parents p) \<Longrightarrow> length q < length p"
  using parents_from_length[of q "[]" p] by (simp add: parents_def)

lemma join_plain:
  "dir_path \<noteq> [] \<Longrightarrow> \<not> endswith dir_path ''/'' \<Longrightarrow> filename \<noteq> [] \<Longrightarrow>
   \<not> List.member filename CHR ''/'' \<Longrightarrow>
   path_join dir_path [filename] = dir_path @ ''/'' @ filename"
  by (cases filename) (auto simp: path_join_def join2_def)

lemma parent_state_plain:
  "dir_path \<noteq> [] \<Longrightarrow> \<not> List.member filename CHR ''/'' \<Longrightarrow>
   parent_state f (dir_path @ ''/'' @ filename) = map_of (nodes f) dir_path"
  using str_rfind_append_plain[of filename dir_path]
  by (cases dir_path) (simp_all add: parent_state_def)

lemma parent_state_update:
  "parent_state (f\<lparr>nodes := AList.update fl x (nodes f)\<rparr>) fl = parent_state f fl"
  using str_rfind_bound[of fl "''/''"]
  by (auto simp: parent_state_def update_conv' split: option.splits nat.splits)

lemma ensure_dir_result:
  assumes "p \<noteq> []" "\<not> isfile (fs s) p"
      and "path_exists (fs s) p \<or> \<not> list_ex (isfile (fs s)) (parents p)"
  shows "\<exists>s'. ensure_dir p s = (Inr (), s') \<and> map_of (nodes (fs s')) p = Some Dir \<and>
           (\<forall>q. length p < length q \<longrightarrow> map_of (nodes (fs s')) q = map_of (nodes (fs s)) q) \<and>
           trace s' = trace s \<and> warnings s' = warnings s \<and> self s' = self s"
proof (cases "path_exists (fs s) p")
  case True
  with assms(2) have "map_of (nodes (fs s)) p = Some Dir"
    by (auto simp: path_exists_def isfile_def split: option.splits node.splits)
  with True show ?thesis by (simp add: ensure_dir_def)
next
  case False
  with assms(3) have np: "\<not> list_ex (isfile (fs s)) (parents p)" by simp
  have m: "map_of (nodes (fs s)) p = None" using False by (simp add: path_exists_def)
  have "\<And>q. length p < length q \<Longrightarrow> q \<notin> set (parents p @ [p])"
    using parents_shorter by fastforce
  then show ?thesis using False np m assms(1)
    by (auto simp: ensure_dir_def makedirs_def map_of_fold_add_dir map_of_add_dir)
qed

subsection \<open>The metadata store\<close>

lemma init_asdict: "DownloadMetadata_init (asdict dm) = Inr dm"
  by (simp add: DownloadMetadata_init_def asdict_def kwarg_def field_names_def)

lemma find_in_list_asdict:
  "find_in_list n (map asdict recs) = Inr (List.find (\<lambda>r. name r = PStr n) recs)"
  by (induction recs) (simp_all add: init_asdict)

lemma find_target_metadata_stored:
  assumes "ltype = LoadType_COLLECTION \<or> ltype = LoadType_ROLE"
      and "map_of (nodes (fs s)) fl = Some (File (Json (PDict kvs)))"
      and "map_of kvs (list_key ltype) = Some (PList items)"
  shows "find_target_metadata ltype fl n s = (find_in_list n items, s)"
  using assms
  by (auto simp: find_target_metadata_def bind_def json_load_def lift_def dict_get_def
      py_iter_def list_key_def LoadType_COLLECTION_def LoadType_ROLE_def)

text \<open>
  Claim C6. A metadata collection that holds a record named \<open>n\<close> is exported to a
  directory and a file name; then \<open>find_target_metadata\<close> for the same type, the file that
  was written and \<open>n\<close> returns a record of the collection named \<open>n\<close> (the first one; the
  record itself when no other record has its name). The export returns the path of the
  file, the directory exists afterwards, and the file holds the exported data whatever
  it held before. The hypotheses say that the export can succeed: the directory path is
  not empty, is written without a trailing slash and is not a regular file, no directory
  above a missing directory is a regular file, the file name is a plain name, and the
  file's path is not a directory.
\<close>

theorem export_then_find:
  assumes ty: "ltype = LoadType_COLLECTION \<or> ltype = LoadType_ROLE"
      and d1: "dir_path \<noteq> []" and d2: "\<not> endswith dir_path ''/''"
      and f1: "filename \<noteq> []" and f2: "\<not> List.member filename CHR ''/''"
      and d3: "\<not> isfile (fs s) dir_path"
      and d4: "path_exists (fs s) dir_path \<or> \<not> list_ex (isfile (fs s)) (parents dir_path)"
      and f3: "\<not> isdir (fs s) (path_join dir_path [filename])"
      and r: "r \<in> set recs" "name r = PStr n"
  shows "\<exists>s' r'. export_data (PDict [(list_key ltype, PList (map asdict recs))]) dir_path filename s
             = (Inr (path_join dir_path [filename]), s') \<and>
           isdir (fs s') dir_path \<and>
           map_of (nodes (fs s')) (path_join dir_path [filename])
             = Some (File (Json (PDict [(list_key ltype, PList (map asdict recs))]))) \<and>
           find_target_metadata ltype (path_join dir_path [filename]) n s' = (Inr (Some r'), s') \<and>
           List.find (\<lambda>x. name x = PStr n) recs = Some r' \<and>
           ((\<forall>x \<in> set recs. name x = PStr n \<longrightarrow> x = r) \<longrightarrow> r' = r)"
proof -
  let ?file = "path_join dir_path [filename]"
  let ?data = "PDict [(list_key ltype, PList (map asdict recs))]"
  have fl: "?file = dir_path @ ''/'' @ filename" using join_plain[OF d1 d2 f1 f2] .
  obtain s1 where e: "ensure_dir dir_path s = (Inr (), s1)"
      and dir1: "map_of (nodes (fs s1)) dir_path = Some Dir"
      and same: "\<And>q. length dir_path < length q \<Longrightarrow> map_of (nodes (fs s1)) q = map_of (nodes (fs s)) q"
    using ensure_dir_result[OF d1 d3 d4] by blast
  have nd: "map_of (nodes (fs s1)) ?file \<noteq> Some Dir"
    using f3 same[of ?file] by (simp add: fl isdir_def)
  have ps: "parent_state (fs s1) ?file = Some Dir"
    using parent_state_plain[OF d1 f2] dir1 by (simp add: fl)
  define s2 where "s2 = s1\<lparr>fs := (fs s1)\<lparr>nodes := AList.update ?file (File (Json ?data)) (nodes (fs s1))\<rparr>\<rparr>"
  have w: "json_dump ?data ?file s1 = (Inr (), s2)"
    using nd ps by (simp add: json_dump_def write_file_def s2_def)
  have ex: "export_data ?data dir_path filename s = (Inr ?file, s2)"
    by (simp add: export_data_def bind_def e w ret_def)
  have ne: "?file \<noteq> dir_path" by (simp add: fl)
  have c: "map_of (nodes (fs s2)) ?file = Some (File (Json ?data))"
    by (simp add: s2_def update_conv')
  have dir2: "isdir (fs s2) dir_path"
    using dir1 ne by (simp add: s2_def isdir_def update_conv')
  obtain r' where fr: "List.find (\<lambda>x. name x = PStr n) recs = Some r'"
    using r by (cases "List.find (\<lambda>x. name x = PStr n) recs") (auto simp: find_None_iff)
  have fi: "find_target_metadata ltype ?file n s2 = (Inr (Some r'), s2)"
    using find_target_metadata_stored[OF ty c, of "map asdict recs" n] fr
    by (simp add: find_in_list_asdict)
  have u: "(\<forall>x \<in> set recs. name x = PStr n \<longrightarrow> x = r) \<longrightarrow> r' = r"
    using fr by (auto simp: find_Some_iff)
  show ?thesis using ex dir2 c fi fr u by blast
qed

theorem export_then_find_witness:
  "\<exists>s'. export_data (PDict [(''collections'', PList [asdict (example_record ''a.b'')])])
           ''/tmp/m'' ''download_meta.json'' (example_state [(''/tmp'', Dir)])
         = (Inr ''/tmp/m/download_meta.json'', s') \<and>
       isdir (fs s') ''/tmp/m'' \<and>
       find_target_metadata LoadType_COLLECTION ''/tmp/m/download_meta.json'' ''a.b'' s'
         = (Inr (Some (example_record ''a.b'')), s')"
proof -
  have j: "path_join ''/tmp/m'' [''download_meta.json''] = ''/tmp/m/download_meta.json''"
    by (simp add: path_join_def join2_def endswith_def)
  have k: "list_key LoadType_COLLECTION = ''collections''" by (simp add: list_key_def)
  have h: "\<not> endswith ''/tmp/m'' ''/''"
    "\<not> isfile (fs (example_state [(''/tmp'', Dir)])) ''/tmp/m''"
    "\<not> list_ex (isfile (fs (example_state [(''/tmp'', Dir)]))) (parents ''/tmp/m'')"
    "\<not> isdir (fs (example_state [(''/tmp'', Dir)])) ''/tmp/m/download_meta.json''"
    "name (example_record ''a.b'') = PStr ''a.b''"
    by (simp_all add: endswith_def isfile_def isdir_def example_state_def parents_def
        example_record_def)
  from export_then_find[of LoadType_COLLECTION "''/tmp/m''" "''download_meta.json''"
      "example_state [(''/tmp'', Dir)]" "example_record ''a.b''" "[example_record ''a.b'']" "''a.b''"]
  show ?thesis using h by (simp add: j k) blast
qed

lemma name_setattr_other: "key \<noteq> ''name'' \<Longrightarrow> name (setattr_dm dm key v) = name dm"
  by (simp add: setattr_dm_def)

lemma name_setattr_name: "name (setattr_dm dm ''name'' v) = v"
  by (simp add: setattr_dm_def)

lemma setattr_asdict_plain:
  "\<not> List.member reserved_attributes key \<Longrightarrow>
   setattr_asdict dm key v =
     Inr (asdict (if List.member field_names key then setattr_dm dm key v else dm))"
  by (simp add: setattr_asdict_def reserved_attributes_def)

lemma update_loop_result:
  assumes "list_all (\<lambda>d. \<exists>dm. DownloadMetadata_init d = Inr dm) todo"
      and "parent_state (fs s) fl = Some Dir"
      and "map_of (nodes (fs s)) fl \<noteq> Some Dir"
      and "\<not> List.member reserved_attributes key"
  shows "\<exists>s'. update_loop ltype fl target key v (PDict kvs) seen todo s = (Inr (), s') \<and>
           (if list_ex (matches target) todo
            then \<exists>kvs'. map_of (nodes (fs s')) fl = Some (File (Json (PDict kvs'))) \<and>
                   map_of kvs' (list_key ltype) = Some (PList (seen @ map (updated_item target key v) todo))
            else s' = s)"
  using assms
proof (induction todo arbitrary: kvs seen s)
  case Nil
  then show ?case by (simp add: ret_def)
next
  case (Cons data todo)
  from Cons.prems(1) obtain dm where dm: "DownloadMetadata_init data = Inr dm" by auto
  have rest: "list_all (\<lambda>d. \<exists>dm. DownloadMetadata_init d = Inr dm) todo" using Cons.prems(1) by simp
  note key = Cons.prems(4)
  show ?case
  proof (cases "name dm = PStr target")
    case False
    have m: "\<not> matches target data" "updated_item target key v data = data"
      using dm False by (simp_all add: matches_def updated_item_def)
    from Cons.IH[OF rest Cons.prems(2,3) key, of kvs "seen @ [data]"]
    show ?thesis using dm False m by (auto simp: bind_def lift_def split: if_splits)
  next
    case True
    let ?new = "asdict (if List.member field_names key then setattr_dm dm key v else dm)"
    let ?kvs = "AList.update (list_key ltype) (PList (seen @ ?new # todo)) kvs"
    let ?s1 = "s\<lparr>fs := (fs s)\<lparr>nodes := AList.update fl (File (Json (PDict ?kvs))) (nodes (fs s))\<rparr>\<rparr>"
    have m: "matches target data" "updated_item target key v data = ?new"
      using dm True by (simp_all add: matches_def updated_item_def)
    have sa: "setattr_asdict dm key v = Inr ?new" using setattr_asdict_plain[OF key] .
    have w: "json_dump (PDict ?kvs) fl s = (Inr (), ?s1)"
      using Cons.prems(2,3) by (simp add: json_dump_def write_file_def)
    have p1: "parent_state (fs ?s1) fl = Some Dir"
      using Cons.prems(2) by (simp add: parent_state_update)
    have p2: "map_of (nodes (fs ?s1)) fl \<noteq> Some Dir" by (simp add: update_conv')
    from Cons.IH[OF rest p1 p2 key, of ?kvs "seen @ [?new]"]
    obtain s' where s': "update_loop ltype fl target key v (PDict ?kvs) (seen @ [?new]) todo ?s1 = (Inr (), s')"
      and post: "(if list_ex (matches target) todo
            then \<exists>kvs'. map_of (nodes (fs s')) fl = Some (File (Json (PDict kvs'))) \<and>
                   map_of kvs' (list_key ltype) = Some (PList ((seen @ [?new]) @ map (updated_item target key v) todo))
            else s' = ?s1)" by blast
    have run: "update_loop ltype fl target key v (PDict kvs) seen (data # todo) s = (Inr (), s')"
      using dm True w s' sa by (simp add: bind_def lift_def dict_set_def)
    have "\<exists>kvs'. map_of (nodes (fs s')) fl = Some (File (Json (PDict kvs'))) \<and>
                   map_of kvs' (list_key ltype) = Some (PList (seen @ map (updated_item target key v) (data # todo)))"
    proof (cases "list_ex (matches target) todo")
      case True
      with post show ?thesis using m by simp
    next
      case False
      with post have "s' = ?s1" by simp
      moreover have "map (updated_item target key v) todo = todo"
        using False rest
        by (induction todo) (auto simp: matches_def updated_item_def)
      ultimately show ?thesis using m by (auto simp: update_conv')
    qed
    then show ?thesis using run m by auto
  qed
qed

lemma update_loop_same:
  assumes "list_all (\<lambda>d. \<exists>dm. DownloadMetadata_init d = Inr dm) todo"
      and "map (updated_item target key v) todo = todo"
      and "\<not> List.member reserved_attributes key"
      and "map_of (nodes (fs s)) fl = Some (File (Json (PDict kvs)))"
      and "map_of kvs (list_key ltype) = Some (PList (seen @ todo))"
      and "parent_state (fs s) fl = Some Dir"
  shows "update_loop ltype fl target key v (PDict kvs) seen todo s = (Inr (), s)"
  using assms
proof (induction todo arbitrary: seen)
  case Nil
  then show ?case by (simp add: ret_def)
next
  case (Cons data todo)
  from Cons.prems(1) obtain dm where dm: "DownloadMetadata_init data = Inr dm" by auto
  have rest: "list_all (\<lambda>d. \<exists>dm. DownloadMetadata_init d = Inr dm) todo" using Cons.prems(1) by simp
  have same: "updated_item target key v data = data" "map (updated_item target key v) todo = todo"
    using Cons.prems(2) by simp_all
  have li: "map_of kvs (list_key ltype) = Some (PList ((seen @ [data]) @ todo))"
    using Cons.prems(5) by simp
  note ih = Cons.IH[OF rest same(2) Cons.prems(3,4) li Cons.prems(6)]
  show ?case
  proof (cases "name dm = PStr target")
    case False
    then show ?thesis using dm ih by (simp add: bind_def lift_def)
  next
    case True
    have new: "setattr_asdict dm key v = Inr data"
      using setattr_asdict_plain[OF Cons.prems(3), of dm v] same(1) dm True
      by (simp add: updated_item_def)
    have k: "AList.update (list_key ltype) (PList (seen @ data # todo)) kvs = kvs"
      using Cons.prems(5) by (simp add: update_triv)
    have n: "AList.update fl (File (Json (PDict kvs))) (nodes (fs s)) = nodes (fs s)"
      using Cons.prems(4) by (simp add: update_triv)
    have w: "json_dump (PDict kvs) fl s = (Inr (), s)"
      using Cons.prems(4,6) by (simp add: json_dump_def write_file_def n)
    show ?thesis using dm True new k w ih by (simp add: bind_def lift_def dict_set_def)
  qed
qed

lemma init_updated_item:
  "DownloadMetadata_init data = Inr dm \<Longrightarrow>
   DownloadMetadata_init (updated_item target key v data) =
     Inr (if name dm = PStr target
          then (if List.member field_names key then setattr_dm dm key v else dm) else dm)"
  by (simp add: updated_item_def init_asdict)

lemma find_some_matches: "find_in_list n items = Inr (Some r) \<Longrightarrow> list_ex (matches n) items"
  by (induction items) (auto simp: matches_def split: sum.splits if_splits)

lemma find_updated_field:
  "find_in_list n items = Inr (Some r) \<Longrightarrow> List.member field_names key \<Longrightarrow>
   key \<noteq> ''name'' \<or> v = PStr n \<Longrightarrow>
   find_in_list n (map (updated_item n key v) items) = Inr (Some (setattr_dm r key v))"
proof (induction items)
  case Nil
  then show ?case by simp
next
  case (Cons data items)
  then obtain dm where dm: "DownloadMetadata_init data = Inr dm"
    by (auto split: sum.splits)
  show ?case
  proof (cases "name dm = PStr n")
    case True
    with Cons.prems dm have "r = dm" by simp
    moreover have "name (setattr_dm dm key v) = PStr n"
      using Cons.prems(3) True name_setattr_other[of key dm v] name_setattr_name[of dm v] by auto
    ultimately show ?thesis using True Cons.prems(2) init_updated_item[OF dm, of n key v] by simp
  next
    case False
    then show ?thesis using Cons dm init_updated_item[OF dm, of n key v] by simp
  qed
qed

lemma updated_nofield_same_records:
  "list_all (\<lambda>d. \<exists>dm. DownloadMetadata_init d = Inr dm) items \<Longrightarrow>
   \<not> List.member field_names key \<Longrightarrow>
   map DownloadMetadata_init (map (updated_item n key v) items) = map DownloadMetadata_init items"
proof (induction items)
  case Nil
  then show ?case by simp
next
  case (Cons data items)
  then obtain dm where dm: "DownloadMetadata_init data = Inr dm" by auto
  show ?case using Cons dm init_updated_item[OF dm, of n key v] by simp
qed

lemma find_in_list_records:
  "map DownloadMetadata_init xs = map DownloadMetadata_init ys \<Longrightarrow>
   find_in_list n xs = find_in_list n ys"
proof (induction xs arbitrary: ys)
  case Nil
  then show ?case by simp
next
  case (Cons x xs)
  then obtain y ys' where "ys = y # ys'" by (cases ys) auto
  then show ?case using Cons by (auto split: sum.splits)
qed

lemma updated_written_same:
  "list_all (\<lambda>d. matches n d \<longrightarrow> written_by_asdict d) items \<Longrightarrow>
   \<not> List.member field_names key \<Longrightarrow>
   map (updated_item n key v) items = items"
  by (induction items)
     (auto simp: updated_item_def matches_def written_by_asdict_def split: sum.splits)

lemma find_updated_renamed:
  "list_all (\<lambda>d. \<exists>dm. DownloadMetadata_init d = Inr dm) items \<Longrightarrow> v \<noteq> PStr n \<Longrightarrow>
   find_in_list n (map (updated_item n ''name'' v) items) = Inr None"
proof (induction items)
  case Nil
  then show ?case by simp
next
  case (Cons data items)
  then obtain dm where dm: "DownloadMetadata_init data = Inr dm" by auto
  have h: "List.member field_names ''name''" by (simp add: field_names_def)
  show ?case using Cons dm h init_updated_item[OF dm, of n "''name''" v] name_setattr_name[of dm v]
    by (cases "name dm = PStr n") simp_all
qed

text \<open>
  Claim C7, as amended. The stored metadata file holds, under the key of the type, a
  list of metadata dictionaries, and \<open>r\<close> is the record that \<open>find_target_metadata\<close>
  returns for \<open>n\<close>. The field name is none of the four attribute names of
  \<open>reserved_attributes\<close>. Then \<open>update_metadata\<close> for \<open>n\<close>, the field and a value returns
  normally, and \<open>find_target_metadata\<close> for \<open>n\<close> afterwards returns
  \<^item> \<open>r\<close> with the field set to the value, when the field is a field of the record and is
    not \<^verbatim>\<open>name\<close> (or the value is \<open>n\<close> itself);
  \<^item> nothing, when the field is \<^verbatim>\<open>name\<close> and the value is another name: every record
    named \<open>n\<close> has been renamed;
  \<^item> \<open>r\<close> unchanged, when the record has no such field. The update is then a no-operation
    on the records: the file is rewritten with a list that holds the same records, one
    by one; and when the dictionaries of the records named \<open>n\<close> are as \<^verbatim>\<open>asdict\<close> writes
    them, the file and all of the state are as they were.
\<close>

theorem update_then_find:
  assumes ty: "ltype = LoadType_COLLECTION \<or> ltype = LoadType_ROLE"
      and st: "map_of (nodes (fs s)) fl = Some (File (Json (PDict kvs)))"
      and li: "map_of kvs (list_key ltype) = Some (PList items)"
      and wf: "list_all (\<lambda>d. \<exists>dm. DownloadMetadata_init d = Inr dm) items"
      and pa: "parent_state (fs s) fl = Some Dir"
      and fi: "find_target_metadata ltype fl n s = (Inr (Some r), s)"
      and key: "\<not> List.member reserved_attributes key"
  shows "\<exists>s'. update_metadata ltype fl n key v s = (Inr (), s') \<and>
           (List.member field_names key \<and> (key \<noteq> ''name'' \<or> v = PStr n) \<longrightarrow>
              find_target_metadata ltype fl n s' = (Inr (Some (setattr_dm r key v)), s')) \<and>
           (key = ''name'' \<and> v \<noteq> PStr n \<longrightarrow>
              find_target_metadata ltype fl n s' = (Inr None, s')) \<and>
           (\<not> List.member field_names key \<longrightarrow>
              find_target_metadata ltype fl n s' = (Inr (Some r), s') \<and>
              (\<exists>kvs' items'.
                 map_of (nodes (fs s')) fl = Some (File (Json (PDict kvs'))) \<and>
                 map_of kvs' (list_key ltype) = Some (PList items') \<and>
                 map DownloadMetadata_init items' = map DownloadMetadata_init items) \<and>
              (list_all (\<lambda>d. matches n d \<longrightarrow> written_by_asdict d) items \<longrightarrow> s' = s))"
proof -
  have f0: "find_in_list n items = Inr (Some r)"
    using fi find_target_metadata_stored[OF ty st li, of n] by simp
  have nd: "map_of (nodes (fs s)) fl \<noteq> Some Dir" using st by simp
  from update_loop_result[OF wf pa nd key, of ltype n v kvs "[]"] find_some_matches[OF f0]
  obtain s' kvs' where run: "update_loop ltype fl n key v (PDict kvs) [] items s = (Inr (), s')"
    and st': "map_of (nodes (fs s')) fl = Some (File (Json (PDict kvs')))"
    and li': "map_of kvs' (list_key ltype) = Some (PList (map (updated_item n key v) items))"
    by auto
  have upd: "update_metadata ltype fl n key v s = (update_loop ltype fl n key v (PDict kvs) [] items s)"
    using ty st li
    by (auto simp: update_metadata_def bind_def json_load_def lift_def dict_get_def py_iter_def)
  have up: "update_metadata ltype fl n key v s = (Inr (), s')" using upd run by simp
  have after: "find_target_metadata ltype fl n s' = (find_in_list n (map (updated_item n key v) items), s')"
    using find_target_metadata_stored[OF ty st' li'] .
  have a: "List.member field_names key \<and> (key \<noteq> ''name'' \<or> v = PStr n) \<longrightarrow>
              find_target_metadata ltype fl n s' = (Inr (Some (setattr_dm r key v)), s')"
    using after find_updated_field[OF f0, of key v] by simp
  have b: "key = ''name'' \<and> v \<noteq> PStr n \<longrightarrow> find_target_metadata ltype fl n s' = (Inr None, s')"
    using after find_updated_renamed[OF wf, of v n] by auto
  have c: "\<not> List.member field_names key \<longrightarrow>
              find_target_metadata ltype fl n s' = (Inr (Some r), s') \<and>
              (\<exists>kvs' items'.
                 map_of (nodes (fs s')) fl = Some (File (Json (PDict kvs'))) \<and>
                 map_of kvs' (list_key ltype) = Some (PList items') \<and>
                 map DownloadMetadata_init items' = map DownloadMetadata_init items) \<and>
              (list_all (\<lambda>d. matches n d \<longrightarrow> written_by_asdict d) items \<longrightarrow> s' = s)"
  proof (intro impI conjI)
    assume nf: "\<not> List.member field_names key"
    note rec = updated_nofield_same_records[OF wf nf, of n v]
    show "find_target_metadata ltype fl n s' = (Inr (Some r), s')"
      using after find_in_list_records[OF rec, of n] f0 by simp
    show "\<exists>kvs' items'.
                 map_of (nodes (fs s')) fl = Some (File (Json (PDict kvs'))) \<and>
                 map_of kvs' (list_key ltype) = Some (PList items') \<and>
                 map DownloadMetadata_init items' = map DownloadMetadata_init items"
      using st' li' rec by blast
    assume "list_all (\<lambda>d. matches n d \<longrightarrow> written_by_asdict d) items"
    then have "map (updated_item n key v) items = items" using nf by (rule updated_written_same)
    from update_loop_same[OF wf this key st _ pa, of ltype "[]"] li
    have "update_loop ltype fl n key v (PDict kvs) [] items s = (Inr (), s)" by simp
    then show "s' = s" using run by simp
  qed
  show ?thesis using up a b c by blast
qed

theorem update_then_find_witness:
  "(\<exists>s'. update_metadata LoadType_COLLECTION ''/tmp/m/download_meta.json'' ''a.b''
           ''version'' (PStr ''1.4.0'') stored_example = (Inr (), s') \<and>
        find_target_metadata LoadType_COLLECTION ''/tmp/m/download_meta.json'' ''a.b'' s'
          = (Inr (Some ((example_record ''a.b'')\<lparr>version := PStr ''1.4.0''\<rparr>)), s')) \<and>
   update_metadata LoadType_COLLECTION ''/tmp/m/download_meta.json'' ''a.b''
     ''licence'' (PStr ''MIT'') stored_example = (Inr (), stored_example)"
proof -
  have st: "map_of (nodes (fs stored_example)) ''/tmp/m/download_meta.json''
      = Some (File (Json (PDict [(''collections'', PList [asdict (example_record ''a.b'')])])))"
    by (simp add: stored_example_def example_state_def)
  have li: "map_of [(''collections'', PList [asdict (example_record ''a.b'')])] (list_key LoadType_COLLECTION)
      = Some (PList [asdict (example_record ''a.b'')])"
    by (simp add: list_key_def)
  have wf: "list_all (\<lambda>d. \<exists>dm. DownloadMetadata_init d = Inr dm) [asdict (example_record ''a.b'')]"
    by (simp add: init_asdict)
  have pa: "parent_state (fs stored_example) ''/tmp/m/download_meta.json'' = Some Dir"
    by (simp add: parent_state_def stored_example_def example_state_def)
  have fi: "find_target_metadata LoadType_COLLECTION ''/tmp/m/download_meta.json'' ''a.b'' stored_example
      = (Inr (Some (example_record ''a.b'')), stored_example)"
    using find_target_metadata_stored[OF _ st li, of "''a.b''"]
    by (simp add: init_asdict example_record_def)
  have h: "List.member field_names ''version''" "\<not> List.member reserved_attributes ''version''"
    "\<not> List.member field_names ''licence''" "\<not> List.member reserved_attributes ''licence''"
    by (simp_all add: field_names_def reserved_attributes_def)
  have sa: "setattr_dm (example_record ''a.b'') ''version'' (PStr ''1.4.0'')
      = (example_record ''a.b'')\<lparr>version := PStr ''1.4.0''\<rparr>"
    by (simp add: setattr_dm_def)
  have wr: "list_all (\<lambda>d. matches ''a.b'' d \<longrightarrow> written_by_asdict d) [asdict (example_record ''a.b'')]"
    by (simp add: written_by_asdict_def init_asdict)
  from update_then_find[OF _ st li wf pa fi h(2), of "PStr ''1.4.0''"]
  have one: "\<exists>s'. update_metadata LoadType_COLLECTION ''/tmp/m/download_meta.json'' ''a.b''
           ''version'' (PStr ''1.4.0'') stored_example = (Inr (), s') \<and>
        find_target_metadata LoadType_COLLECTION ''/tmp/m/download_meta.json'' ''a.b'' s'
          = (Inr (Some ((example_record ''a.b'')\<lparr>version := PStr ''1.4.0''\<rparr>)), s')"
    using h(1) by (simp add: sa)
  from update_then_find[OF _ st li wf pa fi h(4), of "PStr ''MIT''"]
  have two: "update_metadata LoadType_COLLECTION ''/tmp/m/download_meta.json'' ''a.b''
     ''licence'' (PStr ''MIT'') stored_example = (Inr (), stored_example)"
    using h(3) wr by auto
  show ?thesis using one two by simp
qed

theorem update_name_counterexample:
  "fst (find_target_metadata LoadType_COLLECTION ''/tmp/m/download_meta.json'' ''a.b'' stored_example)
     = Inr (Some (example_record ''a.b'')) \<and>
   List.member field_names ''name'' \<and>
   fst (update_metadata LoadType_COLLECTION ''/tmp/m/download_meta.json'' ''a.b''
          ''name'' (PStr ''c.d'') stored_example) = Inr () \<and>
   fst (find_target_metadata LoadType_COLLECTION ''/tmp/m/download_meta.json'' ''a.b''
          (snd (update_metadata LoadType_COLLECTION ''/tmp/m/download_meta.json'' ''a.b''
                  ''name'' (PStr ''c.d'') stored_example))) = Inr None \<and>
   \<not> List.member field_names ''__dict__'' \<and>
   fst (update_metadata LoadType_COLLECTION ''/tmp/m/download_meta.json'' ''a.b''
          ''__dict__'' (PDict [(''name'', PStr ''c.d'')]) stored_example) = Inr () \<and>
   fst (find_target_metadata LoadType_COLLECTION ''/tmp/m/download_meta.json'' ''a.b''
          (snd (update_metadata LoadType_COLLECTION ''/tmp/m/download_meta.json'' ''a.b''
                  ''__dict__'' (PDict [(''name'', PStr ''c.d'')]) stored_example))) = Inr None \<and>
   \<not> List.member field_names ''__class__'' \<and>
   fst (update_metadata LoadType_COLLECTION ''/tmp/m/download_meta.json'' ''a.b''
          ''__class__'' (PStr ''x'') stored_example) = Inl TypeError \<and>
   fst (find_target_metadata LoadType_COLLECTION ''/tmp/m/download_meta.json'' ''a.b'' malformed_example)
     = Inr (Some (example_record ''a.b'')) \<and>
   fst (update_metadata LoadType_COLLECTION ''/tmp/m/download_meta.json'' ''a.b''
          ''version'' (PStr ''1.4.0'') malformed_example) = Inl TypeError \<and>
   fst (find_target_metadata LoadType_COLLECTION ''/tmp/m/download_meta.json'' ''a.b'' incomplete_example)
     = Inr (Some (example_record ''a.b'')) \<and>
   fst (update_metadata LoadType_COLLECTION ''/tmp/m/download_meta.json'' ''a.b''
          ''licence'' (PStr ''MIT'') incomplete_example) = Inr () \<and>
   nodes (fs (snd (update_metadata LoadType_COLLECTION ''/tmp/m/download_meta.json'' ''a.b''
                     ''licence'' (PStr ''MIT'') incomplete_example))) = nodes (fs stored_example) \<and>
   nodes (fs incomplete_example) \<noteq> nodes (fs stored_example)"
  by code_simp

text \<open>
  Claim C8, as amended. \<open>move_src\<close> raises exactly when the source path is empty, does
  not exist or is not a directory, or the destination path is empty or has the two
  characters \<^verbatim>\<open>..\<close> anywhere in it (within a name, too); the exception is a
  \<^verbatim>\<open>ValueError\<close>. Otherwise it runs the copy command and returns normally, whatever the
  command has done: the file system is as the command leaves it, and the command is the
  one command started.
\<close>

theorem move_src_raises_iff:
  "((\<exists>e. fst (move_src E src dst s) = Inl e) \<longleftrightarrow>
      (src = [] \<or> \<not> path_exists (fs s) src \<or> \<not> isdir (fs s) src \<or>
       dst = [] \<or> str_contains dst ''..'')) \<and>
   ((src = [] \<or> \<not> path_exists (fs s) src \<or> \<not> isdir (fs s) src \<or>
       dst = [] \<or> str_contains dst ''..'') \<longrightarrow>
      (\<exists>msg. move_src E src dst s = (Inl (ValueError msg), s))) \<and>
   (\<not> (src = [] \<or> \<not> path_exists (fs s) src \<or> \<not> isdir (fs s) src \<or>
       dst = [] \<or> str_contains dst ''..'') \<longrightarrow>
      move_src E src dst s =
        (Inr (), s\<lparr>fs := snd (external E (CopyDir src dst) (fs s)),
                   trace := trace s @ [CopyDir src dst]\<rparr>))"
  by (auto simp: move_src_def bind_def run_def ret_def split: prod.splits)

theorem move_src_raises_iff_witness:
  "fst (move_src cp_env ''/tmp/m'' ''/tmp'' stored_example) = Inr () \<and>
   trace (snd (move_src cp_env ''/tmp/m'' ''/tmp'' stored_example)) = [CopyDir ''/tmp/m'' ''/tmp''] \<and>
   map_of (nodes (fs (snd (move_src cp_env ''/tmp/m'' ''/tmp'' stored_example)))) ''/tmp/download_meta.json''
     = map_of (nodes (fs stored_example)) ''/tmp/m/download_meta.json'' \<and>
   isfile (fs (snd (move_src cp_env ''/tmp/m'' ''/tmp'' stored_example))) ''/tmp/download_meta.json'' \<and>
   (\<exists>e. fst (move_src cp_env ''/tmp/missing'' ''/tmp'' stored_example) = Inl e)"
proof -
  have a: "path_exists (fs stored_example) ''/tmp/m''" "isdir (fs stored_example) ''/tmp/m''"
    "\<not> str_contains ''/tmp'' ''..''" "\<not> path_exists (fs stored_example) ''/tmp/missing''"
    "trace stored_example = []"
    by (simp_all add: path_exists_def isdir_def str_contains_def stored_example_def example_state_def)
  have c: "nodes (snd (external cp_env (CopyDir ''/tmp/m'' ''/tmp'') (fs stored_example)))
      = nodes (fs stored_example) @
        [(''/tmp/download_meta.json'',
          File (Json (PDict [(''collections'', PList [asdict (example_record ''a.b'')])])))]"
    by code_simp
  have n: "nodes (fs stored_example) =
       [(''/tmp'', Dir), (''/tmp/m'', Dir),
        (''/tmp/m/download_meta.json'',
           File (Json (PDict [(''collections'', PList [asdict (example_record ''a.b'')])])))]"
    by (simp add: stored_example_def example_state_def)
  from move_src_raises_iff[of cp_env "''/tmp/m''" "''/tmp''" stored_example]
       move_src_raises_iff[of cp_env "''/tmp/missing''" "''/tmp''" stored_example]
  show ?thesis using a by (auto simp: c n isfile_def)
qed

theorem move_src_component_counterexample:
  "''/tmp/m'' \<noteq> [] \<and> path_exists (fs stored_example) ''/tmp/m'' \<and> isdir (fs stored_example) ''/tmp/m'' \<and>
   ''/tmp/a..b'' \<noteq> [] \<and> \<not> spec_parent_traversal ''/tmp/a..b'' \<and>
   fst (move_src cp_env ''/tmp/m'' ''/tmp/a..b'' stored_example)
     = Inl (ValueError ''dst /tmp/a..b is invalid'') \<and>
   ''/tmp/out'' \<noteq> [] \<and> \<not> spec_parent_traversal ''/tmp/out'' \<and> \<not> str_contains ''/tmp/out'' ''..'' \<and>
   \<not> path_exists (fs stored_example) ''/tmp/out'' \<and>
   fst (move_src cp_env ''/tmp/m'' ''/tmp/out'' stored_example) = Inr () \<and>
   trace (snd (move_src cp_env ''/tmp/m'' ''/tmp/out'' stored_example)) = [CopyDir ''/tmp/m'' ''/tmp/out''] \<and>
   nodes (fs (snd (move_src cp_env ''/tmp/m'' ''/tmp/out'' stored_example))) = nodes (fs stored_example)"
  by code_simp

subsection \<open>The parsers\<close>

text \<open>
  Claim C4. The name is formed from the first two hyphen-separated parts of the whole
  URL, not of the file name. With a hyphen in the directory part of the URL the name is
  not the namespace and the collection of the archive. The line of the spec's example
  is parsed as the spec says.
\<close>

theorem collection_name_from_whole_url:
  "fst (extract_collections_metadata example_env
          ''Downloading https://hub.example/api/automation-hub/ansible-posix-1.4.0.tar.gz to /tmp/x''
          ''/dl'' archive_example)
   = Inr (PDict [(''collections'', PList [asdict
       \<lparr> name = PStr ''automation.hub/ansible'', type = PStr ''collection'',
         version = PStr ''1.4.0'', author = PStr ''Ansible'',
         download_url = PStr ''https://hub.example/api/automation-hub/ansible-posix-1.4.0.tar.gz'',
         download_src_path = PStr ''/dl/ansible-posix-1.4.0.tar.gz'',
         hash = PStr ''hash of https://hub.example/api/automation-hub/ansible-posix-1.4.0.tar.gz'',
         metafile_path = PStr ''/dl/ansible-posix-1.4.0-MANIFEST.json'',
         files_json_path = PStr ''/dl/ansible-posix-1.4.0-FILES.json'',
         download_timestamp = PStr ''1970-01-01T00:00:00'',
         cache_enabled = PBool False, cache_dir = PStr [], source_repository = PStr [],
         requirements_file = PStr ''/dl/requirements.yml'' \<rparr>])])"
  by code_simp

lemma collection_log_example:
  "fst (extract_collections_metadata example_env
          ''Downloading https://example/download/ansible-posix-1.4.0.tar.gz to /tmp/x''
          ''/dl'' archive_example)
   = Inr (PDict [(''collections'', PList [asdict
       \<lparr> name = PStr ''ansible.posix'', type = PStr ''collection'',
         version = PStr ''1.4.0'', author = PStr ''Ansible'',
         download_url = PStr ''https://example/download/ansible-posix-1.4.0.tar.gz'',
         download_src_path = PStr ''/dl/ansible-posix-1.4.0.tar.gz'',
         hash = PStr ''hash of https://example/download/ansible-posix-1.4.0.tar.gz'',
         metafile_path = PStr ''/dl/ansible-posix-1.4.0-MANIFEST.json'',
         files_json_path = PStr ''/dl/ansible-posix-1.4.0-FILES.json'',
         download_timestamp = PStr ''1970-01-01T00:00:00'',
         cache_enabled = PBool False, cache_dir = PStr [], source_repository = PStr [],
         requirements_file = PStr ''/dl/requirements.yml'' \<rparr>])])"
  by code_simp

lemma extract_collections_loop_skip:
  "list_all (\<lambda>x. \<not> endswith x ''tar.gz'') pre \<Longrightarrow>
   extract_collections_loop E location (pre @ ms) = extract_collections_loop E location ms"
  by (induction pre) simp_all

text \<open>
  Claim C9. In a collection log, the first match that ends in \<^verbatim>\<open>tar.gz\<close> names an archive
  that is not in the download directory (and its URL has a hyphen, so that the name can
  be formed). Then the parser logs the warning, looks the modification time up all the
  same, and the whole parse ends with the exception of the lookup: no list of records is
  returned.
\<close>

theorem missing_archive_aborts_parse:
  assumes "re_findall_download log_message = pre @ m # post"
      and "list_all (\<lambda>x. \<not> endswith x ''tar.gz'') pre"
      and "endswith m ''tar.gz''"
      and "second_token (str_split CHR ''-'' m) = Inr t"
      and "\<not> path_exists (fs s) (location @ ''/'' @ last (str_split CHR ''/'' m))"
  shows "extract_collections_metadata E log_message location s
           = (Inl FileNotFoundError,
              s\<lparr>warnings := warnings s @ [''failed to get metadata for '' @ m]\<rparr>)"
proof -
  have "collection_record E location m s
          = (Inl FileNotFoundError, s\<lparr>warnings := warnings s @ [''failed to get metadata for '' @ m]\<rparr>)"
    using assms(4,5)
    by (simp add: collection_record_def bind_def lift_def logging_warning_def getmtime_def path_exists_def)
  then show ?thesis
    using assms(1,3) extract_collections_loop_skip[OF assms(2), of E location "m # post"]
    by (simp add: extract_collections_metadata_def bind_def)
qed

theorem missing_archive_aborts_parse_witness:
  "extract_collections_metadata example_env
     ''Downloading https://example/download/ansible-posix-1.4.0.tar.gz to /tmp/x'' ''/tmp/x''
     (example_state [(''/tmp/x'', Dir)])
   = (Inl FileNotFoundError,
      (example_state [(''/tmp/x'', Dir)])
        \<lparr>warnings := [''failed to get metadata for https://example/download/ansible-posix-1.4.0.tar.gz'']\<rparr>)"
proof -
  have a: "re_findall_download ''Downloading https://example/download/ansible-posix-1.4.0.tar.gz to /tmp/x''
      = [] @ ''https://example/download/ansible-posix-1.4.0.tar.gz'' # []"
    by code_simp
  have b: "endswith ''https://example/download/ansible-posix-1.4.0.tar.gz'' ''tar.gz''"
    by code_simp
  have c: "second_token (str_split CHR ''-'' ''https://example/download/ansible-posix-1.4.0.tar.gz'') = Inr ''posix''"
    by code_simp
  have d: "\<not> path_exists (fs (example_state [(''/tmp/x'', Dir)]))
      (''/tmp/x'' @ ''/'' @ last (str_split CHR ''/'' ''https://example/download/ansible-posix-1.4.0.tar.gz''))"
    by code_simp
  have e: "warnings (example_state [(''/tmp/x'', Dir)]) = []" by (simp add: example_state_def)
  from missing_archive_aborts_parse[OF a _ b c d, of example_env]
  show ?thesis by (simp add: e)
qed

lemma sentinel_pairs_Cons:
  "sentinel_pairs (line # nxt # others) =
     (if startswith line ''- downloading role from ''
      then (line, nxt) # sentinel_pairs (nxt # others) else sentinel_pairs (nxt # others))"
  by (simp add: sentinel_pairs_def)

lemma extract_roles_loop_result:
  assumes "lines = [] \<or> \<not> startswith (last lines) ''- downloading role from ''"
      and "list_all (\<lambda>p. path_exists (fs s) (last (str_split CHR '' '' (snd p)))) (sentinel_pairs lines)"
  shows "\<exists>ds. extract_roles_loop E lines s = (Inr (map asdict ds), s) \<and>
           list_all2 (\<lambda>p d.
               download_url d = PStr (last (str_split CHR '' '' (fst p))) \<and>
               version d = PStr (str_replace
                  (last (str_split CHR ''/'' (last (str_split CHR '' '' (fst p))))) ''.tar.gz'' []) \<and>
               name d = PStr (last (str_split CHR ''/'' (snd p))) \<and>
               type d = PStr LoadType_ROLE)
             (sentinel_pairs lines) ds"
  using assms
proof (induction lines)
  case Nil
  then show ?case by (simp add: ret_def sentinel_pairs_def)
next
  case (Cons line rest)
  show ?case
  proof (cases rest)
    case Nil
    with Cons.prems show ?thesis by (simp add: ret_def sentinel_pairs_def)
  next
    case (Cons nxt others)
    have l: "rest = [] \<or> \<not> startswith (last rest) ''- downloading role from ''"
      using Cons.prems(1) Cons by simp
    have p: "list_all (\<lambda>p. path_exists (fs s) (last (str_split CHR '' '' (snd p)))) (sentinel_pairs rest)"
      using Cons.prems(2) Cons by (simp add: sentinel_pairs_Cons split: if_splits)
    from Cons.IH[OF l p] obtain ds where
      ds: "extract_roles_loop E rest s = (Inr (map asdict ds), s)"
      and rel: "list_all2 (\<lambda>p d.
               download_url d = PStr (last (str_split CHR '' '' (fst p))) \<and>
               version d = PStr (str_replace
                  (last (str_split CHR ''/'' (last (str_split CHR '' '' (fst p))))) ''.tar.gz'' []) \<and>
               name d = PStr (last (str_split CHR ''/'' (snd p))) \<and>
               type d = PStr LoadType_ROLE)
             (sentinel_pairs rest) ds" by blast
    show ?thesis
    proof (cases "startswith line ''- downloading role from ''")
      case False
      then show ?thesis using ds rel Cons by (auto simp: sentinel_pairs_Cons)
    next
      case True
      have ex: "path_exists (fs s) (last (str_split CHR '' '' nxt))"
        using Cons.prems(2) Cons True by (simp add: sentinel_pairs_Cons)
      obtain d where d: "role_record E line rest s = (Inr (asdict d), s)"
        and f: "download_url d = PStr (last (str_split CHR '' '' line))"
          "version d = PStr (str_replace
                  (last (str_split CHR ''/'' (last (str_split CHR '' '' line)))) ''.tar.gz'' [])"
          "name d = PStr (last (str_split CHR ''/'' nxt))"
          "type d = PStr LoadType_ROLE"
        using ex Cons by (simp add: role_record_def bind_def getmtime_def ret_def)
      have "extract_roles_loop E (line # rest) s = (Inr (map asdict (d # ds)), s)"
        using True d ds by (simp add: bind_def ret_def)
      then show ?thesis using rel f True Cons
        by (intro exI[of _ "d # ds"]) (simp add: sentinel_pairs_Cons)
    qed
  qed
qed

text \<open>
  Claim C5, as amended. In a role log, every line that starts with the sentinel is
  followed by a line, and the directory named by the text after the last space of that
  line exists (the parser reads its modification time). Then the parser returns one
  record for each such line, in order, and leaves the state as it is:
  \<^item> the URL of the record is the text after the last space of the line; it is the last
    whitespace token of the line when the line does not end in whitespace and has no
    whitespace character but spaces;
  \<^item> its version is the last path segment of that URL with every \<^verbatim>\<open>.tar.gz\<close> removed; it
    is the segment minus the archive suffix when \<^verbatim>\<open>.tar.gz\<close> occurs in the segment at
    most once, at its end;
  \<^item> its name is the last path segment of the next line.
  For the two lines of the example, with the directory of the role in place, the record
  has the name \<^verbatim>\<open>x.y\<close> and the version \<^verbatim>\<open>1.0.3\<close>.
\<close>

theorem role_log_fields:
  assumes "splitlines log_message = [] \<or>
           \<not> startswith (last (splitlines log_message)) ''- downloading role from ''"
      and "list_all (\<lambda>p. path_exists (fs s) (last (str_split CHR '' '' (snd p))))
             (sentinel_pairs (splitlines log_message))"
  shows "\<exists>ds. extract_roles_metadata E log_message s
                 = (Inr (PDict [(''roles'', PList (map asdict ds))]), s) \<and>
           list_all2 (\<lambda>p d.
               download_url d = PStr (last (str_split CHR '' '' (fst p))) \<and>
               (single_spaced (fst p) \<longrightarrow> download_url d = PStr (last_whitespace_token (fst p))) \<and>
               version d = PStr (str_replace
                  (last (str_split CHR ''/'' (last (str_split CHR '' '' (fst p))))) ''.tar.gz'' []) \<and>
               (suffix_only (last (str_split CHR ''/'' (last (str_split CHR '' '' (fst p))))) ''.tar.gz''
                  \<longrightarrow> version d = PStr (minus_suffix
                         (last (str_split CHR ''/'' (last (str_split CHR '' '' (fst p))))) ''.tar.gz'')) \<and>
               name d = PStr (last (str_split CHR ''/'' (snd p))) \<and>
               type d = PStr LoadType_ROLE)
             (sentinel_pairs (splitlines log_message)) ds"
proof -
  from extract_roles_loop_result[OF assms, of E] obtain ds where
    run: "extract_roles_loop E (splitlines log_message) s = (Inr (map asdict ds), s)"
    and rel: "list_all2 (\<lambda>p d.
               download_url d = PStr (last (str_split CHR '' '' (fst p))) \<and>
               version d = PStr (str_replace
                  (last (str_split CHR ''/'' (last (str_split CHR '' '' (fst p))))) ''.tar.gz'' []) \<and>
               name d = PStr (last (str_split CHR ''/'' (snd p))) \<and>
               type d = PStr LoadType_ROLE)
             (sentinel_pairs (splitlines log_message)) ds" by blast
  have res: "extract_roles_metadata E log_message s
                 = (Inr (PDict [(''roles'', PList (map asdict ds))]), s)"
    using run by (simp add: extract_roles_metadata_def bind_def ret_def)
  have "list_all2 (\<lambda>p d.
               download_url d = PStr (last (str_split CHR '' '' (fst p))) \<and>
               (single_spaced (fst p) \<longrightarrow> download_url d = PStr (last_whitespace_token (fst p))) \<and>
               version d = PStr (str_replace
                  (last (str_split CHR ''/'' (last (str_split CHR '' '' (fst p))))) ''.tar.gz'' []) \<and>
               (suffix_only (last (str_split CHR ''/'' (last (str_split CHR '' '' (fst p))))) ''.tar.gz''
                  \<longrightarrow> version d = PStr (minus_suffix
                         (last (str_split CHR ''/'' (last (str_split CHR '' '' (fst p))))) ''.tar.gz'')) \<and>
               name d = PStr (last (str_split CHR ''/'' (snd p))) \<and>
               type d = PStr LoadType_ROLE)
             (sentinel_pairs (splitlines log_message)) ds"
    using rel
    by (rule list_all2_mono) (simp add: last_token_single_spaced version_minus_suffix)
  then show ?thesis using res by blast
qed

theorem role_log_fields_witness:
  "\<exists>d. extract_roles_metadata example_env role_example_log
          (example_state [(''/tmp/role-test/x.y'', Dir)])
        = (Inr (PDict [(''roles'', PList [asdict d])]), example_state [(''/tmp/role-test/x.y'', Dir)]) \<and>
       name d = PStr ''x.y'' \<and> version d = PStr ''1.0.3'' \<and>
       download_url d = PStr ''https://github.com/x/y/archive/1.0.3.tar.gz'' \<and>
       download_url d = PStr (last_whitespace_token
          ''- downloading role from https://github.com/x/y/archive/1.0.3.tar.gz'') \<and>
       version d = PStr (minus_suffix ''1.0.3.tar.gz'' ''.tar.gz'')"
proof -
  have sp: "sentinel_pairs (splitlines role_example_log)
      = [(''- downloading role from https://github.com/x/y/archive/1.0.3.tar.gz'',
          ''- extracting x.y to /tmp/role-test/x.y'')]"
    by code_simp
  have a: "splitlines role_example_log = [] \<or>
           \<not> startswith (last (splitlines role_example_log)) ''- downloading role from ''"
    by code_simp
  have b: "list_all (\<lambda>p. path_exists (fs (example_state [(''/tmp/role-test/x.y'', Dir)]))
               (last (str_split CHR '' '' (snd p))))
             (sentinel_pairs (splitlines role_example_log))"
    by code_simp
  have c: "last (str_split CHR '' '' ''- downloading role from https://github.com/x/y/archive/1.0.3.tar.gz'')
       = ''https://github.com/x/y/archive/1.0.3.tar.gz''"
    "str_replace (last (str_split CHR ''/'' ''https://github.com/x/y/archive/1.0.3.tar.gz'')) ''.tar.gz'' [] = ''1.0.3''"
    "last (str_split CHR ''/'' ''- extracting x.y to /tmp/role-test/x.y'') = ''x.y''"
    "str_replace ''1.0.3.tar.gz'' ''.tar.gz'' [] = ''1.0.3''"
    "last (str_split CHR ''/'' ''https://github.com/x/y/archive/1.0.3.tar.gz'') = ''1.0.3.tar.gz''"
    by code_simp+
  have e: "single_spaced ''- downloading role from https://github.com/x/y/archive/1.0.3.tar.gz''"
    "suffix_only ''1.0.3.tar.gz'' ''.tar.gz''"
    by code_simp+
  from role_log_fields[OF a b, of example_env]
  show ?thesis using e by (auto simp: sp c list_all2_Cons1)
qed

theorem role_log_counterexample:
  "startswith (hd (splitlines role_example_log)) ''- downloading role from '' \<and>
   fst (extract_roles_metadata example_env role_example_log (example_state []))
     = Inl FileNotFoundError \<and>
   fst (extract_roles_metadata example_env
          ''- downloading role from https://github.com/x/y/archive/1.0.3.tar.gz''
          (example_state [(''/tmp/role-test/x.y'', Dir)])) = Inl IndexError \<and>
   last_whitespace_token ''- downloading role from https://github.com/x/y/archive/1.0.3.tar.gz ''
     = ''https://github.com/x/y/archive/1.0.3.tar.gz'' \<and>
   fst (extract_roles_metadata example_env
          (''- downloading role from https://github.com/x/y/archive/1.0.3.tar.gz '' @ [CHR 0x0A] @
           ''- extracting x.y to /tmp/role-test/x.y'')
          (example_state [(''/tmp/role-test/x.y'', Dir)]))
     = Inr (PDict [(''roles'', PList [asdict (DownloadMetadata_default
          \<lparr> name := PStr ''x.y'', type := PStr LoadType_ROLE,
            download_src_path := PStr ''/tmp/role-test/x.y'',
            download_timestamp := PStr ''1970-01-01T00:00:00'' \<rparr>)])]) \<and>
   last_whitespace_token (''- downloading role from '' @ [CHR 0x09] @ ''https://github.com/x/y/archive/1.0.3.tar.gz'')
     = ''https://github.com/x/y/archive/1.0.3.tar.gz'' \<and>
   fst (extract_roles_metadata example_env
          (''- downloading role from '' @ [CHR 0x09] @ ''https://github.com/x/y/archive/1.0.3.tar.gz'' @
           [CHR 0x0A] @ ''- extracting x.y to /tmp/role-test/x.y'')
          (example_state [(''/tmp/role-test/x.y'', Dir)]))
     = Inr (PDict [(''roles'', PList [asdict (DownloadMetadata_default
          \<lparr> name := PStr ''x.y'', type := PStr LoadType_ROLE, version := PStr ''1.0.3'',
            download_url := PStr ([CHR 0x09] @ ''https://github.com/x/y/archive/1.0.3.tar.gz''),
            download_src_path := PStr ''/tmp/role-test/x.y'',
            hash := PStr (''hash of '' @ [CHR 0x09] @ ''https://github.com/x/y/archive/1.0.3.tar.gz''),
            download_timestamp := PStr ''1970-01-01T00:00:00'' \<rparr>)])]) \<and>
   minus_suffix ''y.tar.gz-1.0.3.tar.gz'' ''.tar.gz'' = ''y.tar.gz-1.0.3'' \<and>
   fst (extract_roles_metadata example_env
          (''- downloading role from https://github.com/x/y.tar.gz-1.0.3.tar.gz'' @ [CHR 0x0A] @
           ''- extracting x.y to /tmp/role-test/x.y'')
          (example_state [(''/tmp/role-test/x.y'', Dir)]))
     = Inr (PDict [(''roles'', PList [asdict (DownloadMetadata_default
          \<lparr> name := PStr ''x.y'', type := PStr LoadType_ROLE, version := PStr ''y-1.0.3'',
            download_url := PStr ''https://github.com/x/y.tar.gz-1.0.3.tar.gz'',
            download_src_path := PStr ''/tmp/role-test/x.y'',
            hash := PStr ''hash of https://github.com/x/y.tar.gz-1.0.3.tar.gz'',
            download_timestamp := PStr ''1970-01-01T00:00:00'' \<rparr>)])])"
  by code_simp

subsection \<open>Actions that leave the preparator as it is\<close>

lemma keeps_selfD: "keeps_self m \<Longrightarrow> m s = (r, s') \<Longrightarrow> self s' = self s"
  by (metis keeps_self_def snd_conv)

lemma keeps_self_ret: "keeps_self (ret x)" by (simp add: keeps_self_def ret_def)
lemma keeps_self_raise: "keeps_self (raise e)" by (simp add: keeps_self_def raise_def)
lemma keeps_self_lift: "keeps_self (lift r)" by (simp add: keeps_self_def lift_def)

lemma keeps_self_bind:
  "keeps_self m \<Longrightarrow> (\<And>x. keeps_self (k x)) \<Longrightarrow> keeps_self (bind m k)"
  by (auto simp: keeps_self_def bind_def split: prod.splits sum.splits)
     (metis snd_conv)+

lemma keeps_self_state: "(\<And>s0. keeps_self (m s0)) \<Longrightarrow> keeps_self (\<lambda>s. m s s)"
  by (simp add: keeps_self_def)

lemma keeps_self_if: "keeps_self a \<Longrightarrow> keeps_self b \<Longrightarrow> keeps_self (if c then a else b)"
  by simp

lemma keeps_self_ensure_dir: "keeps_self (ensure_dir p)"
  by (simp add: keeps_self_def ensure_dir_def makedirs_def)
lemma keeps_self_makedirs: "keeps_self (makedirs p)"
  by (simp add: keeps_self_def makedirs_def)
lemma keeps_self_listdir: "keeps_self (listdir p)"
  by (simp add: keeps_self_def listdir_def split: option.splits node.splits)
lemma keeps_self_getmtime: "keeps_self (getmtime p)"
  by (simp add: keeps_self_def getmtime_def)
lemma keeps_self_json_load: "keeps_self (json_load p)"
  by (simp add: keeps_self_def json_load_def split: option.splits node.splits content.splits)
lemma keeps_self_yaml_load: "keeps_self (yaml_load p)"
  by (simp add: keeps_self_def yaml_load_def split: option.splits node.splits content.splits)
lemma keeps_self_tar_open: "keeps_self (tar_open p)"
  by (simp add: keeps_self_def tar_open_def split: option.splits node.splits content.splits)
lemma keeps_self_write_file: "keeps_self (write_file p c)"
  by (simp add: keeps_self_def write_file_def split: option.splits node.splits)
lemma keeps_self_json_dump: "keeps_self (json_dump d p)"
  by (simp add: json_dump_def keeps_self_write_file)
lemma keeps_self_logging_warning: "keeps_self (logging_warning m)"
  by (simp add: keeps_self_def logging_warning_def)
lemma keeps_self_run: "keeps_self (run E c)"
  by (simp add: keeps_self_def run_def split: prod.splits)

lemmas keeps_self_basic = keeps_self_ret keeps_self_raise keeps_self_lift keeps_self_ensure_dir
  keeps_self_makedirs keeps_self_listdir keeps_self_getmtime keeps_self_json_load
  keeps_self_yaml_load keeps_self_tar_open keeps_self_write_file keeps_self_json_dump
  keeps_self_logging_warning keeps_self_run

lemma keeps_self_find_target_metadata: "keeps_self (find_target_metadata t f n)"
  unfolding find_target_metadata_def
  by (intro keeps_self_bind keeps_self_if keeps_self_basic)

lemma keeps_self_export_data: "keeps_self (export_data d p f)"
  unfolding export_data_def
  by (intro keeps_self_bind keeps_self_basic)

lemma keeps_self_move_src: "keeps_self (move_src E a b)"
proof -
  have "keeps_self (bind (run E (CopyDir a b)) (\<lambda>status. ret ()))"
    by (intro keeps_self_bind keeps_self_basic)
  then show ?thesis by (simp add: keeps_self_def move_src_def)
qed

lemma keeps_self_extract_members: "keeps_self (extract_members fp ms acc)"
proof (induction ms arbitrary: acc)
  case Nil
  show ?case by (simp add: keeps_self_basic)
next
  case (Cons m ms)
  obtain a b where m: "m = (a, b)" by (cases m)
  show ?case unfolding m extract_members.simps
    by (intro keeps_self_bind keeps_self_if keeps_self_basic Cons)
qed

lemma keeps_self_get_metafile_in_target: "keeps_self (get_metafile_in_target E t fp)"
proof -
  have "keeps_self (\<lambda>s. (case safe_glob E [path_join fp [''**'', role_meta_main_yml],
                                 path_join fp [''**'', role_meta_main_yaml]] (fs s) of
                 [] \<Rightarrow> (Inr ([], []), s)
               | m # ms \<Rightarrow> (Inr (m, []), s)))"
    by (simp add: keeps_self_def split: list.splits)
  then show ?thesis unfolding get_metafile_in_target_def
    by (intro keeps_self_bind keeps_self_if keeps_self_basic keeps_self_extract_members)
qed

lemma keeps_self_get_author: "keeps_self (get_author t p)"
proof -
  have a: "keeps_self (bind (logging_warning (''invalid file path: '' @ p)) (\<lambda>u. ret (PStr [])))"
    by (intro keeps_self_bind keeps_self_basic)
  have b: "keeps_self (bind (json_load p) (\<lambda>metadata.
             bind (lift (dict_get metadata ''collection_info'' (PDict []))) (\<lambda>info.
             bind (lift (dict_get info ''authors'' (PList []))) (\<lambda>authors.
             bind (lift (str_join '','' authors)) (\<lambda>joined. ret (PStr joined))))))"
    by (intro keeps_self_bind keeps_self_basic)
  have c: "keeps_self (bind (yaml_load p) (\<lambda>metadata.
             bind (lift (dict_get metadata ''galaxy_info'' (PDict []))) (\<lambda>info.
               lift (dict_get info ''author'' (PStr [])))))"
    by (intro keeps_self_bind keeps_self_basic)
  show ?thesis using a b c keeps_self_ret[of PNone]
    by (simp add: keeps_self_def get_author_def)
qed

lemma keeps_self_collection_record: "keeps_self (collection_record E loc url)"
proof -
  have w: "\<And>p m. keeps_self (\<lambda>s. if \<not> path_exists (fs s) p then logging_warning m s else ret () s)"
    by (simp add: keeps_self_def logging_warning_def ret_def)
  show ?thesis unfolding collection_record_def
    by (intro keeps_self_bind keeps_self_basic w keeps_self_get_metafile_in_target keeps_self_get_author)
qed

lemma keeps_self_extract_collections_loop: "keeps_self (extract_collections_loop E loc ms)"
  by (induction ms) (auto intro!: keeps_self_bind keeps_self_basic keeps_self_collection_record)

lemma keeps_self_extract_collections_metadata: "keeps_self (extract_collections_metadata E l loc)"
  unfolding extract_collections_metadata_def
  by (intro keeps_self_bind keeps_self_basic keeps_self_extract_collections_loop)

lemma keeps_self_role_record: "keeps_self (role_record E line rest)"
  unfolding role_record_def
  by (cases rest) (auto intro!: keeps_self_bind keeps_self_basic)

lemma keeps_self_extract_roles_loop: "keeps_self (extract_roles_loop E ls)"
  by (induction ls) (auto intro!: keeps_self_bind keeps_self_basic keeps_self_role_record)

lemma keeps_self_extract_roles_metadata: "keeps_self (extract_roles_metadata E l)"
  unfolding extract_roles_metadata_def
  by (intro keeps_self_bind keeps_self_basic keeps_self_extract_roles_loop)

lemma keeps_self_scan_metafiles: "keeps_self (scan_metafiles t n fs0 acc)"
proof (induction fs0 arbitrary: acc)
  case Nil
  show ?case by (simp add: keeps_self_basic)
next
  case (Cons f fs0)
  have "\<And>md. keeps_self (case md of None \<Rightarrow> scan_metafiles t n fs0 acc
             | Some dm \<Rightarrow> scan_metafiles t n fs0 (True, download_src_path dm))"
    using Cons by (simp split: option.splits)
  then show ?case unfolding scan_metafiles.simps
    by (intro keeps_self_bind keeps_self_find_target_metadata)
qed

lemma keeps_self_is_download_file_exist: "keeps_self (is_download_file_exist t n d)"
proof -
  have a: "keeps_self (bind (listdir d)
                    (\<lambda>files. ret (scan_archives (str_replace n ''.'' ''-'') files (False, PStr []))))"
    by (intro keeps_self_bind keeps_self_basic)
  show ?thesis using a keeps_self_scan_metafiles
    by (auto simp: keeps_self_def is_download_file_exist_def simp del: scan_metafiles.simps
        split: list.splits)
qed

lemma keeps_self_download: "keeps_self (download_galaxy_collection E a b c d)"
  by (simp add: download_galaxy_collection_def keeps_self_run)
lemma keeps_self_install_targz: "keeps_self (install_galaxy_collection_from_targz E a b)"
  unfolding install_galaxy_collection_from_targz_def by (intro keeps_self_bind keeps_self_basic)
lemma keeps_self_install_reqfile: "keeps_self (install_galaxy_collection_from_reqfile E a b)"
  unfolding install_galaxy_collection_from_reqfile_def by (intro keeps_self_bind keeps_self_basic)
lemma keeps_self_install_galaxy_target: "keeps_self (install_galaxy_target E a b c d e)"
  by (simp add: install_galaxy_target_def keeps_self_run)

lemmas keeps_self_all = keeps_self_basic keeps_self_find_target_metadata keeps_self_export_data
  keeps_self_move_src keeps_self_extract_collections_metadata keeps_self_extract_roles_metadata
  keeps_self_is_download_file_exist keeps_self_download keeps_self_install_targz
  keeps_self_install_reqfile keeps_self_install_galaxy_target

subsection \<open>The decision engine\<close>

lemma keeps_self_set_md_lift: "keeps_self (lift (set_metadata_field f d))"
  by (rule keeps_self_lift)

lemma keeps_self_collection_cache_hit: "keeps_self (collection_cache_hit n t)"
  unfolding collection_cache_hit_def
  by (intro keeps_self_bind keeps_self_all)

lemma keeps_self_collection_cache_miss: "keeps_self (collection_cache_miss E n v cp t)"
proof -
  have d: "\<And>p. keeps_self (\<lambda>s. download_galaxy_collection E n p v (self_source_repository (self s)) s)"
    using keeps_self_download by (simp add: keeps_self_def)
  show ?thesis unfolding collection_cache_miss_def
    by (intro keeps_self_bind keeps_self_all d)
qed

lemma keeps_self_collection_cache_branch:
  "keeps_self (collection_cache_branch E n v cp sub dep)"
  unfolding collection_cache_branch_def
  by (intro keeps_self_bind keeps_self_if keeps_self_all keeps_self_collection_cache_hit
      keeps_self_collection_cache_miss)

lemma keeps_self_collection_download_branch:
  "keeps_self (collection_download_branch E n v sub dep)"
proof -
  have c: "\<And>sub md. keeps_self (case md of
                     Some dm \<Rightarrow> install_galaxy_collection_from_reqfile E (requirements_file dm) sub
                   | None \<Rightarrow> ret ())"
    by (simp add: keeps_self_all split: option.splits)
  have "keeps_self (\<lambda>s. collection_download_branch E n v sub dep s)"
    unfolding collection_download_branch_def
    by (rule keeps_self_state) (intro keeps_self_bind keeps_self_if keeps_self_all c)
  then show ?thesis by simp
qed

lemma collection_dir_no_dot: "\<not> List.member n CHR ''.'' \<Longrightarrow> collection_dir sub n = Inl IndexError"
  by (simp add: collection_dir_def str_split_no_sep)

lemma prepare_collection_dep_no_dot:
  assumes nodot: "\<not> List.member (collection_name cdep) CHR ''.''"
      and br: "cache \<or> map_of (paths_collections deps) (collection_name cdep) = None"
  shows "\<exists>e s'. prepare_collection_dep E deps cache cache_path cdep s = (Inl e, s') \<and> self s' = self s"
proof -
  let ?sub = "path_join (dependency_dir_path (self s)) [''collections'', ''src'']"
  let ?new = "new_dependency LoadType_COLLECTION (collection_name cdep) cache"
  let ?branch = "if cache
       then collection_cache_branch E (collection_name cdep) (collection_version cdep) cache_path ?sub ?new
       else collection_download_branch E (collection_name cdep) (collection_version cdep) ?sub ?new"
  have kb: "keeps_self ?branch"
    by (simp add: keeps_self_collection_cache_branch keeps_self_collection_download_branch)
  have step: "prepare_collection_dep E deps cache cache_path cdep s =
      bind (ensure_dir ?sub) (\<lambda>u.
      bind (bind ?branch (\<lambda>dep. bind (lift (collection_dir ?sub (collection_name cdep)))
                                   (\<lambda>d. ret (dep\<lparr>dir := d\<rparr>))))
        append_dependency) s"
    using br by (auto simp: prepare_collection_dep_def)
  obtain r1 s1 where e: "ensure_dir ?sub s = (r1, s1)" by (cases "ensure_dir ?sub s")
  have s1: "self s1 = self s" using keeps_selfD[OF keeps_self_ensure_dir e] .
  show ?thesis
  proof (cases r1)
    case (Inl err)
    then show ?thesis using e s1 by (simp add: step bind_def)
  next
    case (Inr u)
    obtain r2 s2 where b: "?branch s1 = (r2, s2)" by (cases "?branch s1")
    have s2: "self s2 = self s" using keeps_selfD[OF kb b] s1 by simp
    show ?thesis using e Inr b s2 collection_dir_no_dot[OF nodot, of ?sub]
      by (cases r2) (simp_all add: step bind_def lift_def)
  qed
qed

text \<open>
  Claim C10. A collection dependency whose name has no dot, in the cache-enabled branch
  or in the default-download branch (cache disabled and no path mapping for the name):
  the iteration ends with an exception and appends no descriptor, and the loop over the
  collections ends with it, so the run aborts. When the branch itself gets as far as the
  computation of the target directory, the exception is the \<^verbatim>\<open>IndexError\<close> of
  \<^verbatim>\<open>parts[1]\<close>.
\<close>

theorem collection_name_without_dot:
  assumes nodot: "\<not> List.member (collection_name cdep) CHR ''.''"
      and br: "cache \<or> map_of (paths_collections deps) (collection_name cdep) = None"
  shows "(\<exists>e s'. prepare_collection_dep E deps cache cache_path cdep s = (Inl e, s') \<and>
            dependency_dirs (self s') = dependency_dirs (self s)) \<and>
         (\<exists>e s'. for_each (prepare_collection_dep E deps cache cache_path) (cdep # rest) s = (Inl e, s') \<and>
            dependency_dirs (self s') = dependency_dirs (self s)) \<and>
         (\<forall>s1 dep s2.
            ensure_dir (path_join (dependency_dir_path (self s)) [''collections'', ''src'']) s = (Inr (), s1) \<and>
            (if cache
             then collection_cache_branch E (collection_name cdep) (collection_version cdep) cache_path
                    (path_join (dependency_dir_path (self s)) [''collections'', ''src''])
                    (new_dependency LoadType_COLLECTION (collection_name cdep) cache) s1
             else collection_download_branch E (collection_name cdep) (collection_version cdep)
                    (path_join (dependency_dir_path (self s)) [''collections'', ''src''])
                    (new_dependency LoadType_COLLECTION (collection_name cdep) cache) s1) = (Inr dep, s2)
            \<longrightarrow> prepare_collection_dep E deps cache cache_path cdep s = (Inl IndexError, s2))"
proof -
  obtain e s' where st: "prepare_collection_dep E deps cache cache_path cdep s = (Inl e, s')"
    and se: "self s' = self s"
    using prepare_collection_dep_no_dot[OF nodot br] by blast
  have a: "\<exists>e s'. prepare_collection_dep E deps cache cache_path cdep s = (Inl e, s') \<and>
            dependency_dirs (self s') = dependency_dirs (self s)"
    using st se by auto
  have b: "\<exists>e s'. for_each (prepare_collection_dep E deps cache cache_path) (cdep # rest) s = (Inl e, s') \<and>
            dependency_dirs (self s') = dependency_dirs (self s)"
    using st se by (auto simp: bind_def)
  have c: "\<forall>s1 dep s2.
            ensure_dir (path_join (dependency_dir_path (self s)) [''collections'', ''src'']) s = (Inr (), s1) \<and>
            (if cache
             then collection_cache_branch E (collection_name cdep) (collection_version cdep) cache_path
                    (path_join (dependency_dir_path (self s)) [''collections'', ''src''])
                    (new_dependency LoadType_COLLECTION (collection_name cdep) cache) s1
             else collection_download_branch E (collection_name cdep) (collection_version cdep)
                    (path_join (dependency_dir_path (self s)) [''collections'', ''src''])
                    (new_dependency LoadType_COLLECTION (collection_name cdep) cache) s1) = (Inr dep, s2)
            \<longrightarrow> prepare_collection_dep E deps cache cache_path cdep s = (Inl IndexError, s2)"
    using br collection_dir_no_dot[OF nodot]
    by (auto simp: prepare_collection_dep_def bind_def lift_def)
  show ?thesis using a b c by blast
qed

theorem collection_name_without_dot_witness:
  "fst (prepare_collection_dep example_env no_dependencies True ''/cache'' (DepName ''nodot'') cache_example)
     = Inl IndexError \<and>
   dependency_dirs (self (snd (prepare_collection_dep example_env no_dependencies True ''/cache''
                                 (DepName ''nodot'') cache_example)))
     = dependency_dirs (self cache_example) \<and>
   (\<exists>e. fst (for_each (prepare_collection_dep example_env no_dependencies True ''/cache'')
              [DepName ''nodot'', DepName ''a.b''] cache_example) = Inl e)"
proof -
  have e: "fst (prepare_collection_dep example_env no_dependencies True ''/cache'' (DepName ''nodot'') cache_example)
     = Inl IndexError"
    by code_simp
  from collection_name_without_dot[where cdep="DepName ''nodot''" and cache=True
      and deps=no_dependencies and E=example_env and cache_path="''/cache''"
      and rest="[DepName ''a.b'']" and s=cache_example]
  show ?thesis using e by auto
qed

text \<open>
  Claim C1. With cache enabled and a cache directory of the role \<^verbatim>\<open>x.y\<close> that holds the
  metadata record of \<^verbatim>\<open>x.y\<close>, the role branch starts no fetch, but it looks the record up
  under the name of the root target (\<^verbatim>\<open>self.target_name\<close>), finds none and leaves the
  descriptor with the metadata it was created with; and it copies from the dependency's
  directory into the cache directory, not from the recorded path into the dependency's
  directory.
\<close>

theorem role_cache_hit_ignores_record:
  "fst (find_target_metadata LoadType_ROLE ''/cache/roles/src/x.y/download_meta.json'' ''x.y''
          cache_example) = Inr (Some cached_role) \<and>
   fst (prepare_role_dep example_env no_dependencies True ''/cache'' (DepName ''x.y'') cache_example)
     = Inr () \<and>
   trace (snd (prepare_role_dep example_env no_dependencies True ''/cache'' (DepName ''x.y'')
                 cache_example))
     = [CopyDir ''/work/roles/src/x.y'' ''/cache/roles/src/x.y''] \<and>
   dependency_dirs (self (snd (prepare_role_dep example_env no_dependencies True ''/cache''
                                 (DepName ''x.y'') cache_example)))
     = [\<lparr> dir = ''/work/roles/src/x.y'', dep_name = ''x.y'',
          dep_metadata = Some (DownloadMetadata_default
             \<lparr> name := PStr ''x.y'', type := PStr ''role'', cache_enabled := PBool True \<rparr>) \<rparr>]"
  by code_simp

lemma ensure_dir_frame:
  assumes "ensure_dir p s = (r, s1)"
  shows "trace s1 = trace s \<and> warnings s1 = warnings s \<and> self s1 = self s \<and>
         mtime (fs s1) = mtime (fs s) \<and>
         (\<forall>q. map_of (nodes (fs s1)) q = map_of (nodes (fs s)) q \<or>
              (map_of (nodes (fs s)) q = None \<and> map_of (nodes (fs s1)) q = Some Dir))"
  using assms
  by (auto simp: ensure_dir_def makedirs_def map_of_fold_add_dir map_of_add_dir split: if_splits)

text \<open>
  The path-mapping branch. Cache disabled, and the finder's path mapping has a directory
  for the dependency's name. For a collection whose metadata from the finder is absent or
  a dictionary, and for every role, the iteration returns normally and appends a
  descriptor whose \<open>dir\<close> is the mapped directory; it starts no external command (no fetch
  and no materialization), and on disk it has at most created the default sub-directory
  of the dependency, which every iteration makes sure of first: every path that existed
  is as it was, and a new path is a directory.
\<close>

lemma explicit_path_mapping:
  "(map_of (paths_collections deps) (collection_name cdep) = Some mapped \<and>
    map_of (metadata_collections deps) (collection_name cdep) \<noteq> Some NotADict \<and>
    ensure_dir (path_join (dependency_dir_path (self s)) [''collections'', ''src'']) s = (Inr (), s1)
    \<longrightarrow>
    (\<exists>d. prepare_collection_dep E deps False cache_path cdep s
            = (Inr (), s1\<lparr>self := (self s)\<lparr>dependency_dirs := dependency_dirs (self s) @ [d]\<rparr>\<rparr>) \<and>
          dir d = mapped \<and> dep_name d = collection_name cdep \<and>
          trace s1 = trace s \<and>
          (\<forall>q. map_of (nodes (fs s1)) q = map_of (nodes (fs s)) q \<or>
               (map_of (nodes (fs s)) q = None \<and> map_of (nodes (fs s1)) q = Some Dir)))) \<and>
   (role_name rdep = Some rname \<and>
    map_of (paths_roles deps) rname = Some rmapped \<and>
    ensure_dir (path_join (dependency_dir_path (self t)) [''roles'', ''src'', rname]) t = (Inr (), t1)
    \<longrightarrow>
    (\<exists>d. prepare_role_dep E deps False cache_path rdep t
            = (Inr (), t1\<lparr>self := (self t)\<lparr>dependency_dirs := dependency_dirs (self t) @ [d]\<rparr>\<rparr>) \<and>
          dir d = rmapped \<and> dep_name d = rname \<and>
          trace t1 = trace t \<and>
          (\<forall>q. map_of (nodes (fs t1)) q = map_of (nodes (fs t)) q \<or>
               (map_of (nodes (fs t)) q = None \<and> map_of (nodes (fs t1)) q = Some Dir))))"
proof (intro conjI impI)
  assume h: "map_of (paths_collections deps) (collection_name cdep) = Some mapped \<and>
    map_of (metadata_collections deps) (collection_name cdep) \<noteq> Some NotADict \<and>
    ensure_dir (path_join (dependency_dir_path (self s)) [''collections'', ''src'']) s = (Inr (), s1)"
  then have e: "ensure_dir (path_join (dependency_dir_path (self s)) [''collections'', ''src'']) s = (Inr (), s1)"
    by simp
  note fr = ensure_dir_frame[OF e]
  obtain g where g: "(case map_of (metadata_collections deps) (collection_name cdep) of
                   None \<Rightarrow> GalaxyDict [] | Some g \<Rightarrow> g) = GalaxyDict g"
    using h by (cases "map_of (metadata_collections deps) (collection_name cdep)")
      (auto split: galaxy_data.splits intro: galaxy_data.exhaust)
  show "\<exists>d. prepare_collection_dep E deps False cache_path cdep s
            = (Inr (), s1\<lparr>self := (self s)\<lparr>dependency_dirs := dependency_dirs (self s) @ [d]\<rparr>\<rparr>) \<and>
          dir d = mapped \<and> dep_name d = collection_name cdep \<and>
          trace s1 = trace s \<and>
          (\<forall>q. map_of (nodes (fs s1)) q = map_of (nodes (fs s)) q \<or>
               (map_of (nodes (fs s)) q = None \<and> map_of (nodes (fs s1)) q = Some Dir))"
    using h fr g
    by (fastforce simp: prepare_collection_dep_def bind_def collection_paths_branch_def lift_def
        set_metadata_field_def new_dependency_def ret_def append_dependency_def)
next
  assume h: "role_name rdep = Some rname \<and>
    map_of (paths_roles deps) rname = Some rmapped \<and>
    ensure_dir (path_join (dependency_dir_path (self t)) [''roles'', ''src'', rname]) t = (Inr (), t1)"
  then have e: "ensure_dir (path_join (dependency_dir_path (self t)) [''roles'', ''src'', rname]) t = (Inr (), t1)"
    by simp
  note fr = ensure_dir_frame[OF e]
  show "\<exists>d. prepare_role_dep E deps False cache_path rdep t
            = (Inr (), t1\<lparr>self := (self t)\<lparr>dependency_dirs := dependency_dirs (self t) @ [d]\<rparr>\<rparr>) \<and>
          dir d = rmapped \<and> dep_name d = rname \<and>
          trace t1 = trace t \<and>
          (\<forall>q. map_of (nodes (fs t1)) q = map_of (nodes (fs t)) q \<or>
               (map_of (nodes (fs t)) q = None \<and> map_of (nodes (fs t1)) q = Some Dir))"
    using h fr
    by (fastforce simp: prepare_role_dep_def bind_def lift_def
        set_metadata_field_def new_dependency_def ret_def append_dependency_def)
qed


lemma explicit_path_mapping_example:
  "map dir (dependency_dirs (self (snd (prepare_collection_dep example_env mapped_dependencies False []
              (DepName ''a.b'') cache_example)))) = [''/deps/ansible_collections/a/b''] \<and>
   trace (snd (prepare_collection_dep example_env mapped_dependencies False []
              (DepName ''a.b'') cache_example)) = [] \<and>
   map dir (dependency_dirs (self (snd (prepare_role_dep example_env mapped_dependencies False []
              (DepName ''x.y'') cache_example)))) = [''/deps/roles/x.y''] \<and>
   trace (snd (prepare_role_dep example_env mapped_dependencies False []
              (DepName ''x.y'') cache_example)) = []"
proof -
  let ?c = "ensure_dir (path_join (dependency_dir_path (self cache_example)) [''collections'', ''src'']) cache_example"
  let ?r = "ensure_dir (path_join (dependency_dir_path (self cache_example)) [''roles'', ''src'', ''x.y'']) cache_example"
  have "fst ?c = Inr ()" "fst ?r = Inr ()" by code_simp+
  then have e: "?c = (Inr (), snd ?c)" "?r = (Inr (), snd ?r)"
    by (metis prod.collapse)+
  have h: "map_of (paths_collections mapped_dependencies) (collection_name (DepName ''a.b''))
             = Some ''/deps/ansible_collections/a/b''"
    "map_of (metadata_collections mapped_dependencies) (collection_name (DepName ''a.b'')) \<noteq> Some NotADict"
    "role_name (DepName ''x.y'') = Some ''x.y''"
    "map_of (paths_roles mapped_dependencies) ''x.y'' = Some ''/deps/roles/x.y''"
    by (simp_all add: mapped_dependencies_def)
  have z: "dependency_dirs (self cache_example) = []" "trace cache_example = []"
    by (simp_all add: cache_example_def example_state_def prepared_self_def example_self_def)
  from explicit_path_mapping[where deps=mapped_dependencies and cdep="DepName ''a.b''"
      and mapped="''/deps/ansible_collections/a/b''" and s=cache_example and ?s1.0="snd ?c"
      and rdep="DepName ''x.y''" and rname="''x.y''" and rmapped="''/deps/roles/x.y''"
      and t=cache_example and ?t1.0="snd ?r" and E=example_env and cache_path="[]"]
  show ?thesis using e h z by auto
qed

text \<open>
  Claim C3. The finder's path mapping has the directory
  \<^verbatim>\<open>/deps/ansible_collections/a/b\<close> for the collection \<^verbatim>\<open>a.b\<close>, the cache is disabled, and
  the finder's metadata for \<^verbatim>\<open>a.b\<close> is not a dictionary. The iteration returns normally
  and starts no command, but the descriptor it appends has the empty path as its \<open>dir\<close>,
  not the mapped directory: the assignment of \<open>dir\<close> stands under the test
  \<^verbatim>\<open>isinstance(col_galaxy_data, dict)\<close>. For a role of the same mapping the descriptor has
  the mapped directory.
\<close>

theorem path_mapping_dir_left_empty:
  "map_of (paths_collections (mapped_dependencies\<lparr>metadata_collections := [(''a.b'', NotADict)]\<rparr>)) ''a.b''
     = Some ''/deps/ansible_collections/a/b'' \<and>
   fst (prepare_collection_dep example_env
          (mapped_dependencies\<lparr>metadata_collections := [(''a.b'', NotADict)]\<rparr>) False []
          (DepName ''a.b'') cache_example) = Inr () \<and>
   trace (snd (prepare_collection_dep example_env
          (mapped_dependencies\<lparr>metadata_collections := [(''a.b'', NotADict)]\<rparr>) False []
          (DepName ''a.b'') cache_example)) = [] \<and>
   map dir (dependency_dirs (self (snd (prepare_collection_dep example_env
          (mapped_dependencies\<lparr>metadata_collections := [(''a.b'', NotADict)]\<rparr>) False []
          (DepName ''a.b'') cache_example)))) = [[]] \<and>
   map dir (dependency_dirs (self (snd (prepare_role_dep example_env
          (mapped_dependencies\<lparr>metadata_collections := [(''a.b'', NotADict)]\<rparr>) False []
          (DepName ''x.y'') cache_example)))) = [''/deps/roles/x.y'']"
  by code_simp

subsection \<open>Running the preparation twice\<close>

lemma no_fetch_refl: "no_fetch_between s s"
  by (simp add: no_fetch_between_def)

lemma no_fetch_trans: "no_fetch_between a b \<Longrightarrow> no_fetch_between b c \<Longrightarrow> no_fetch_between a c"
  by (auto simp: no_fetch_between_def)

lemma no_fetch_same_trace: "trace s' = trace s \<Longrightarrow> no_fetch_between s s'"
  by (simp add: no_fetch_between_def)

lemma quietD: "quiet m \<Longrightarrow> m s = (r, s') \<Longrightarrow> no_fetch_between s s'"
  by (metis quiet_def snd_conv)

lemma quiet_ret: "quiet (ret x)" by (simp add: quiet_def ret_def no_fetch_refl)
lemma quiet_raise: "quiet (raise e)" by (simp add: quiet_def raise_def no_fetch_refl)
lemma quiet_lift: "quiet (lift r)" by (simp add: quiet_def lift_def no_fetch_refl)

lemma quiet_bind: "quiet m \<Longrightarrow> (\<And>x. quiet (k x)) \<Longrightarrow> quiet (bind m k)"
  unfolding quiet_def bind_def
proof (intro allI)
  fix s
  assume m: "\<forall>s. no_fetch_between s (snd (m s))" and k: "\<And>x. \<forall>s. no_fetch_between s (snd (k x s))"
  obtain r s1 where ms: "m s = (r, s1)" by (cases "m s")
  have a: "no_fetch_between s s1" using m ms by (metis snd_conv)
  show "no_fetch_between s (snd (case m s of (Inl e, s') \<Rightarrow> (Inl e, s') | (Inr x, s') \<Rightarrow> k x s'))"
  proof (cases r)
    case (Inl e)
    then show ?thesis using ms a by simp
  next
    case (Inr x)
    then show ?thesis using ms a k[of x] no_fetch_trans by auto
  qed
qed

lemma quiet_state: "(\<And>s0. quiet (m s0)) \<Longrightarrow> quiet (\<lambda>s. m s s)"
  by (simp add: quiet_def)

lemma quiet_if: "quiet a \<Longrightarrow> quiet b \<Longrightarrow> quiet (if c then a else b)"
  by simp

lemma quiet_same_trace: "(\<And>s. trace (snd (m s)) = trace s) \<Longrightarrow> quiet m"
  by (simp add: quiet_def no_fetch_same_trace)

lemma quiet_ensure_dir: "quiet (ensure_dir p)"
  by (rule quiet_same_trace) (simp add: ensure_dir_def makedirs_def)
lemma quiet_makedirs: "quiet (makedirs p)"
  by (rule quiet_same_trace) (simp add: makedirs_def)
lemma quiet_listdir: "quiet (listdir p)"
  by (rule quiet_same_trace) (simp add: listdir_def split: option.splits node.splits)
lemma quiet_json_load: "quiet (json_load p)"
  by (rule quiet_same_trace) (simp add: json_load_def split: option.splits node.splits content.splits)
lemma quiet_logging_warning: "quiet (logging_warning m)"
  by (rule quiet_same_trace) (simp add: logging_warning_def)
lemma quiet_run: "\<not> is_fetch c \<Longrightarrow> quiet (run E c)"
  by (auto simp: quiet_def no_fetch_between_def run_def split: prod.splits)

lemmas quiet_basic = quiet_ret quiet_raise quiet_lift quiet_ensure_dir quiet_makedirs
  quiet_listdir quiet_json_load quiet_logging_warning

lemma quiet_find_target_metadata: "quiet (find_target_metadata t f n)"
  unfolding find_target_metadata_def
  by (intro quiet_bind quiet_if quiet_basic)

lemma quiet_move_src: "quiet (move_src E a b)"
proof -
  have "quiet (bind (run E (CopyDir a b)) (\<lambda>status. ret ()))"
    by (intro quiet_bind quiet_basic quiet_run) simp
  then show ?thesis by (simp add: quiet_def move_src_def no_fetch_refl)
qed

lemma quiet_scan_metafiles: "quiet (scan_metafiles t n fs0 acc)"
proof (induction fs0 arbitrary: acc)
  case Nil
  show ?case by (simp add: quiet_basic)
next
  case (Cons f fs0)
  have "\<And>md. quiet (case md of None \<Rightarrow> scan_metafiles t n fs0 acc
             | Some dm \<Rightarrow> scan_metafiles t n fs0 (True, download_src_path dm))"
    using Cons by (simp split: option.splits)
  then show ?case unfolding scan_metafiles.simps
    by (intro quiet_bind quiet_find_target_metadata)
qed

lemma quiet_is_download_file_exist: "quiet (is_download_file_exist t n d)"
proof -
  have a: "quiet (bind (listdir d)
                    (\<lambda>files. ret (scan_archives (str_replace n ''.'' ''-'') files (False, PStr []))))"
    by (intro quiet_bind quiet_basic)
  show ?thesis using a quiet_scan_metafiles
    by (auto simp: quiet_def is_download_file_exist_def simp del: scan_metafiles.simps
        split: list.splits)
qed

lemma quiet_install_targz: "quiet (install_galaxy_collection_from_targz E a b)"
  unfolding install_galaxy_collection_from_targz_def
  by (intro quiet_bind quiet_basic quiet_run) simp

lemma quiet_setup_dirs: "quiet (setup_dirs c p)"
proof -
  have a: "quiet (\<lambda>s. (Inr (), s\<lparr>self := (self s)\<lparr>download_location := path_join (root_dir (self s)) [''archives''],
                                            dependency_dir_path := root_dir (self s)\<rparr>\<rparr>))"
    by (rule quiet_same_trace) simp
  have b: "quiet (\<lambda>s. ensure_dir (download_location (self s)) s)"
    "quiet (\<lambda>s. ensure_dir (dependency_dir_path (self s)) s)"
    by (rule quiet_state, rule quiet_ensure_dir)+
  have c: "quiet (\<lambda>s. if c \<and> \<not> path_exists (fs s) p then makedirs p s else ret () s)"
    using quiet_makedirs[of p] quiet_ret[of "()"] by (simp add: quiet_def)
  show ?thesis unfolding setup_dirs_def
    by (intro quiet_bind a b c)
qed

lemma quiet_prepare_root_dir:
  "is_src_installed \<or> \<not> root_install_wanted E root_install (self s) \<Longrightarrow>
   trace (snd (prepare_root_dir E root_install is_src_installed s)) = trace s \<and>
   fs (snd (prepare_root_dir E root_install is_src_installed s)) = fs s \<and>
   dependency_dirs (self (snd (prepare_root_dir E root_install is_src_installed s)))
     = dependency_dirs (self s)"
  by (auto simp: prepare_root_dir_def ret_def split: prod.splits)

lemma bind_Inr: "m s = (Inr x, s') \<Longrightarrow> bind m k s = k x s'"
  by (simp add: bind_def)

lemma bind_assoc: "bind (bind m f) g = bind m (\<lambda>x. bind (f x) g)"
  by (rule ext) (simp add: bind_def split: prod.splits sum.splits)

lemma appends_keeps_self: "keeps_self m \<Longrightarrow> appends 0 m"
  by (auto simp: appends_def dest: keeps_selfD)

lemma appendsD:
  "appends n m \<Longrightarrow> m s = (Inr x, s') \<Longrightarrow>
   \<exists>batch. dependency_dirs (self s') = dependency_dirs (self s) @ batch \<and> length batch = n"
  by (simp add: appends_def)

lemma appends_bind0:
  assumes m: "keeps_self m" and k: "\<And>x. appends n (k x)"
  shows "appends n (bind m k)"
  unfolding appends_def
proof (intro allI impI)
  fix s x s'
  assume run: "bind m k s = (Inr x, s')"
  obtain r s1 where ms: "m s = (r, s1)" by (cases "m s")
  have s1: "self s1 = self s" using keeps_selfD[OF m ms] .
  show "\<exists>batch. dependency_dirs (self s') = dependency_dirs (self s) @ batch \<and> length batch = n"
  proof (cases r)
    case (Inl e)
    then show ?thesis using run ms by (simp add: bind_def)
  next
    case (Inr y)
    then have "k y s1 = (Inr x, s')" using run ms by (simp add: bind_def)
    from appendsD[OF k this] show ?thesis using s1 by simp
  qed
qed

lemma appends_append_dependency: "appends 1 (append_dependency d)"
  by (simp add: appends_def append_dependency_def)

lemma appends_state: "(\<And>s0. appends n (m s0)) \<Longrightarrow> appends n (\<lambda>s. m s s)"
  by (simp add: appends_def)

lemma keeps_self_collection_paths_branch: "keeps_self (collection_paths_branch E deps n mapped dep)"
  unfolding keeps_self_def
proof
  fix s
  show "self (snd (collection_paths_branch E deps n mapped dep s)) = self s"
  proof (cases "case map_of (metadata_collections deps) n of None \<Rightarrow> GalaxyDict [] | Some g \<Rightarrow> g")
    case NotADict
    then show ?thesis by (simp add: collection_paths_branch_def ret_def)
  next
    case (GalaxyDict g)
    then show ?thesis
      by (cases "dep_metadata dep")
         (simp_all add: collection_paths_branch_def bind_def lift_def ret_def set_metadata_field_def)
  qed
qed

lemma appends_step: "keeps_self B \<Longrightarrow> appends 1 (bind (ensure_dir p) (\<lambda>u. bind B append_dependency))"
  by (intro appends_bind0 appends_append_dependency keeps_self_ensure_dir)

lemma keeps_self_branches:
  assumes a: "keeps_self A" and b: "keeps_self B" and c: "\<And>m. keeps_self (C m)"
  shows "keeps_self (if cache then A else (case x of Some mapped \<Rightarrow> C mapped | None \<Rightarrow> B))"
proof (cases cache)
  case True
  then show ?thesis using a by (simp only: if_True)
next
  case False
  show ?thesis
  proof (cases x)
    case None
    then show ?thesis using False b by (simp only: if_False option.case)
  next
    case (Some mapped)
    then show ?thesis using False c by (simp only: if_False option.case)
  qed
qed

lemma keeps_self_with_dir:
  "keeps_self m \<Longrightarrow> keeps_self (bind m (\<lambda>dep. bind (lift (collection_dir sub n)) (\<lambda>d. ret (dep\<lparr>dir := d\<rparr>))))"
  by (intro keeps_self_bind keeps_self_ret keeps_self_lift)

lemma keeps_self_collection_branches: "keeps_self (if cache then
             bind (collection_cache_branch E (collection_name cdep) (collection_version cdep) cp
                     (path_join (dependency_dir_path (self (s::state))) [''collections'', ''src''])
                     (new_dependency LoadType_COLLECTION (collection_name cdep) cache))
               (\<lambda>dep. bind (lift (collection_dir
                     (path_join (dependency_dir_path (self (s::state))) [''collections'', ''src''])
                     (collection_name cdep))) (\<lambda>d. ret (dep\<lparr>dir := d\<rparr>)))
           else (case map_of (paths_collections deps) (collection_name cdep) of
                   Some mapped \<Rightarrow>
                     collection_paths_branch E deps (collection_name cdep) mapped
                       (new_dependency LoadType_COLLECTION (collection_name cdep) cache)
                 | None \<Rightarrow>
                     bind (collection_download_branch E (collection_name cdep) (collection_version cdep)
                             (path_join (dependency_dir_path (self (s::state))) [''collections'', ''src''])
                             (new_dependency LoadType_COLLECTION (collection_name cdep) cache))
                       (\<lambda>dep. bind (lift (collection_dir
                             (path_join (dependency_dir_path (self (s::state))) [''collections'', ''src''])
                             (collection_name cdep))) (\<lambda>d. ret (dep\<lparr>dir := d\<rparr>)))))"
    by (rule keeps_self_branches)
       (rule keeps_self_with_dir keeps_self_collection_cache_branch
          keeps_self_collection_download_branch keeps_self_collection_paths_branch)+

lemma step_appends_one:
  assumes kb: "keeps_self B"
      and r: "bind (ensure_dir p) (\<lambda>u. bind B append_dependency) s = (Inr x, s')"
  shows "\<exists>batch. dependency_dirs (self s') = dependency_dirs (self s) @ batch \<and> length batch = 1"
  by (rule appendsD[OF appends_step[OF kb] r])

lemma appends_prepare_collection_dep: "appends 1 (prepare_collection_dep E deps cache cp cdep)"
  unfolding appends_def
proof (intro allI impI)
  fix s x s'
  assume run: "prepare_collection_dep E deps cache cp cdep s = (Inr x, s')"
  show "\<exists>batch. dependency_dirs (self s') = dependency_dirs (self s) @ batch \<and> length batch = 1"
    by (rule step_appends_one[OF keeps_self_collection_branches run[unfolded prepare_collection_dep_def]])
qed

lemma keeps_self_state_if:
  "keeps_self a \<Longrightarrow> keeps_self b \<Longrightarrow> keeps_self (\<lambda>s. if P s then a s else b s)"
  by (simp add: keeps_self_def)

lemma keeps_self_role_cache_test: "keeps_self (role_cache_test cdp)"
proof -
  have "keeps_self (\<lambda>s. if path_exists (fs s) cdp
                then bind (listdir cdp) (\<lambda>files. ret (files \<noteq> [])) s
                else ret False s)"
    by (rule keeps_self_state_if) (intro keeps_self_bind keeps_self_all)+
  then show ?thesis by (simp add: keeps_self_def role_cache_test_def)
qed

lemma keeps_self_role_cache_miss: "keeps_self (role_cache_miss E rname ver cdp repo target)"
  unfolding role_cache_miss_def
  by (intro keeps_self_bind keeps_self_all)

lemma keeps_self_role_cache_branch: "keeps_self (role_cache_branch E rname ver cdp sub dep)"
proof -
  have "keeps_self (\<lambda>s. role_cache_branch E rname ver cdp sub dep s)"
    unfolding role_cache_branch_def
    by (rule keeps_self_state)
       (intro keeps_self_bind keeps_self_if keeps_self_all keeps_self_role_cache_test
          keeps_self_role_cache_miss)
  then show ?thesis by simp
qed

lemma keeps_self_role_download_branch: "keeps_self (role_download_branch E rname sub dep)"
proof -
  have c: "\<And>md :: 'z DownloadMetadata_scheme option. keeps_self (case md of
                     None \<Rightarrow> raise AttributeError
                   | Some dm \<Rightarrow> bind (lift (as_path (download_src_path dm))) (\<lambda>src. move_src E src sub))"
  proof -
    fix md :: "'z DownloadMetadata_scheme option"
    show "keeps_self (case md of
                     None \<Rightarrow> raise AttributeError
                   | Some dm \<Rightarrow> bind (lift (as_path (download_src_path dm))) (\<lambda>src. move_src E src sub))"
    proof (cases md)
      case None
      then show ?thesis by (simp add: keeps_self_raise)
    next
      case (Some dm)
      have "keeps_self (bind (lift (as_path (download_src_path dm))) (\<lambda>src. move_src E src sub))"
        by (intro keeps_self_bind keeps_self_all)
      then show ?thesis using Some by simp
    qed
  qed
  have "keeps_self (\<lambda>s. role_download_branch E rname sub dep s)"
    unfolding role_download_branch_def
    by (rule keeps_self_state) (intro keeps_self_bind keeps_self_if keeps_self_all c)
  then show ?thesis by simp
qed

lemma keeps_self_role_branches:
  "keeps_self (if cache then
                  bind (role_cache_branch E rname ver cdp sub new) (\<lambda>dep. ret (dep, sub))
                else (case map_of (paths_roles deps) rname of
                        Some mapped \<Rightarrow> ret (new, mapped)
                      | None \<Rightarrow> bind (role_download_branch E rname sub new) (\<lambda>dep. ret (dep, sub))))"
  by (rule keeps_self_branches)
     (intro keeps_self_bind keeps_self_ret keeps_self_role_cache_branch keeps_self_role_download_branch)+

lemma role_step_appends_one:
  assumes kb: "keeps_self B"
      and r: "bind (ensure_dir p) (\<lambda>u. bind B (\<lambda>r. bind (lift (g r)) (\<lambda>dep. append_dependency (h r dep)))) s
                = (Inr x, s')"
  shows "\<exists>batch. dependency_dirs (self s') = dependency_dirs (self s) @ batch \<and> length batch = 1"
proof -
  have "appends 1 (bind (ensure_dir p) (\<lambda>u. bind B (\<lambda>r. bind (lift (g r)) (\<lambda>dep. append_dependency (h r dep)))))"
    by (intro appends_bind0 appends_append_dependency keeps_self_ensure_dir keeps_self_lift kb)
  from appendsD[OF this r] show ?thesis .
qed

lemma appends_prepare_role_dep: "appends 1 (prepare_role_dep E deps cache cp rdep)"
  unfolding appends_def
proof (intro allI impI)
  fix s x s'
  assume run: "prepare_role_dep E deps cache cp rdep s = (Inr x, s')"
  show "\<exists>batch. dependency_dirs (self s') = dependency_dirs (self s) @ batch \<and> length batch = 1"
  proof (cases "role_name rdep")
    case None
    then show ?thesis using run by (simp add: prepare_role_dep_def raise_def)
  next
    case (Some rname)
    note r = run[unfolded prepare_role_dep_def Some option.case]
    show ?thesis by (rule role_step_appends_one[OF keeps_self_role_branches r])
  qed
qed

lemma appends_for_each:
  assumes "\<And>x. appends 1 (body x)"
  shows "appends (length xs) (for_each body xs)"
proof (induction xs)
  case Nil
  show ?case by (simp add: appends_def ret_def)
next
  case (Cons x xs)
  show ?case unfolding appends_def
  proof (intro allI impI)
    fix s u s'
    assume run: "for_each body (x # xs) s = (Inr u, s')"
    obtain r s1 where b: "body x s = (r, s1)" by (cases "body x s")
    show "\<exists>batch. dependency_dirs (self s') = dependency_dirs (self s) @ batch \<and>
                  length batch = length (x # xs)"
    proof (cases r)
      case (Inl e)
      then show ?thesis using run b by (simp add: bind_def)
    next
      case (Inr v)
      then have rest: "for_each body xs s1 = (Inr u, s')" using run b by (simp add: bind_def)
      from appendsD[OF assms] b Inr obtain b1 where
        b1: "dependency_dirs (self s1) = dependency_dirs (self s) @ b1" "length b1 = 1" by blast
      from appendsD[OF Cons rest] obtain b2 where
        b2: "dependency_dirs (self s') = dependency_dirs (self s1) @ b2" "length b2 = length xs" by blast
      show ?thesis using b1 b2 by (intro exI[of _ "b1 @ b2"]) simp
    qed
  qed
qed

lemma no_fetch_for_each:
  assumes hit: "\<And>x s. cached x s \<Longrightarrow> no_fetch_between s (snd (body x s))"
      and all: "all_turns_cached cached body xs s"
  shows "no_fetch_between s (snd (for_each body xs s))"
  using all
proof (induction xs arbitrary: s)
  case Nil
  show ?case by (simp add: ret_def no_fetch_refl)
next
  case (Cons x xs)
  obtain r s1 where b: "body x s = (r, s1)" by (cases "body x s")
  have c: "cached x s" using Cons.prems by simp
  have n1: "no_fetch_between s s1" using hit[OF c] b by simp
  show ?case
  proof (cases r)
    case (Inl e)
    then show ?thesis using b n1 by (simp add: bind_def)
  next
    case (Inr v)
    then have "all_turns_cached cached body xs s1" using Cons.prems b by simp
    from Cons.IH[OF this] show ?thesis using b Inr n1 no_fetch_trans by (simp add: bind_def)
  qed
qed

lemma no_fetch_bind_at:
  assumes m: "no_fetch_between s (snd (m s))"
      and k: "\<And>x s1. m s = (Inr x, s1) \<Longrightarrow> no_fetch_between s1 (snd (k x s1))"
  shows "no_fetch_between s (snd (bind m k s))"
proof (cases "m s")
  case (Pair r s1)
  have a: "no_fetch_between s s1" using m Pair by simp
  show ?thesis
  proof (cases r)
    case (Inl e)
    then show ?thesis using a Pair by (simp add: bind_def)
  next
    case (Inr x)
    have b: "bind m k s = k x s1" using Pair Inr by (simp add: bind_def)
    have c: "no_fetch_between s1 (snd (k x s1))" using k Pair Inr by simp
    show ?thesis unfolding b by (rule no_fetch_trans[OF a c])
  qed
qed

lemma quiet_at: "quiet m \<Longrightarrow> no_fetch_between s (snd (m s))"
  by (simp add: quiet_def)

lemma quiet_append_dependency: "quiet (append_dependency d)"
  by (rule quiet_same_trace) (simp add: append_dependency_def)

lemma quiet_collection_cache_hit: "quiet (collection_cache_hit n t)"
  unfolding collection_cache_hit_def
  by (intro quiet_bind quiet_basic quiet_find_target_metadata)

lemma quiet_role_cache_test: "quiet (role_cache_test p)"
proof -
  have "quiet (bind (listdir p) (\<lambda>files. ret (files \<noteq> [])))"
    by (intro quiet_bind quiet_basic)
  then show ?thesis using quiet_ret[of False] by (simp add: quiet_def role_cache_test_def)
qed

lemma collection_branch_hit_quiet:
  assumes f: "fst (is_download_file_exist LoadType_COLLECTION n cp s1) = Inr found" "fst found"
  shows "no_fetch_between s1 (snd (collection_cache_branch E n v cp sub new s1))"
  unfolding collection_cache_branch_def
proof (rule no_fetch_bind_at)
  show "no_fetch_between s1 (snd (is_download_file_exist LoadType_COLLECTION n cp s1))"
    by (rule quiet_at[OF quiet_is_download_file_exist])
next
  fix x s2
  assume "is_download_file_exist LoadType_COLLECTION n cp s1 = (Inr x, s2)"
  then have x: "fst x" using f by simp
  have "quiet (bind (collection_cache_hit n (snd x)) (\<lambda>r.
           bind (install_galaxy_collection_from_targz E (snd r) sub) (\<lambda>u.
             lift (set_metadata_field (\<lambda>md. md\<lparr>cache_dir := snd r\<rparr>) (new\<lparr>dep_metadata := fst r\<rparr>)))))"
    by (intro quiet_bind quiet_basic quiet_collection_cache_hit quiet_install_targz)
  then show "no_fetch_between s2
          (snd (bind (if fst x then collection_cache_hit n (snd x)
                      else collection_cache_miss E n v cp (snd x))
                 (\<lambda>r. bind (install_galaxy_collection_from_targz E (snd r) sub)
                        (\<lambda>u. lift (set_metadata_field (\<lambda>md. md\<lparr>cache_dir := snd r\<rparr>)
                                     (new\<lparr>dep_metadata := fst r\<rparr>)))) s2))"
    using x by (simp add: quiet_def)
qed

lemma collection_hit_no_fetch:
  assumes c: "collection_turn_cached cp cdep s"
  shows "no_fetch_between s (snd (prepare_collection_dep E deps True cp cdep s))"
proof -
  have "no_fetch_between s (snd (bind (ensure_dir (path_join (dependency_dir_path (self s)) [''collections'', ''src''])) (\<lambda>u.
     bind (bind (collection_cache_branch E (collection_name cdep) (collection_version cdep) cp
                     (path_join (dependency_dir_path (self s)) [''collections'', ''src''])
                     (new_dependency LoadType_COLLECTION (collection_name cdep) True)) (\<lambda>dep.
             bind (lift (collection_dir
                     (path_join (dependency_dir_path (self s)) [''collections'', ''src''])
                     (collection_name cdep))) (\<lambda>d. ret (dep\<lparr>dir := d\<rparr>))))
       append_dependency) s))"
  proof (rule no_fetch_bind_at)
    show "no_fetch_between s (snd (ensure_dir (path_join (dependency_dir_path (self s)) [''collections'', ''src'']) s))"
      by (rule quiet_at[OF quiet_ensure_dir])
  next
    fix u s1
    assume e: "ensure_dir (path_join (dependency_dir_path (self s)) [''collections'', ''src'']) s = (Inr u, s1)"
    from c e obtain found where
      f: "fst (is_download_file_exist LoadType_COLLECTION (collection_name cdep) cp s1) = Inr found" "fst found"
      by (auto simp: collection_turn_cached_def split: sum.splits)
    show "no_fetch_between s1 (snd (bind (bind (collection_cache_branch E (collection_name cdep) (collection_version cdep) cp
                     (path_join (dependency_dir_path (self s)) [''collections'', ''src''])
                     (new_dependency LoadType_COLLECTION (collection_name cdep) True)) (\<lambda>dep.
             bind (lift (collection_dir
                     (path_join (dependency_dir_path (self s)) [''collections'', ''src''])
                     (collection_name cdep))) (\<lambda>d. ret (dep\<lparr>dir := d\<rparr>))))
       append_dependency s1))"
    proof (rule no_fetch_bind_at)
      show "no_fetch_between s1 (snd (bind (collection_cache_branch E (collection_name cdep) (collection_version cdep) cp
                     (path_join (dependency_dir_path (self s)) [''collections'', ''src''])
                     (new_dependency LoadType_COLLECTION (collection_name cdep) True)) (\<lambda>dep.
             bind (lift (collection_dir
                     (path_join (dependency_dir_path (self s)) [''collections'', ''src''])
                     (collection_name cdep))) (\<lambda>d. ret (dep\<lparr>dir := d\<rparr>))) s1))"
      proof (rule no_fetch_bind_at)
        show "no_fetch_between s1 (snd (collection_cache_branch E (collection_name cdep) (collection_version cdep) cp
                     (path_join (dependency_dir_path (self s)) [''collections'', ''src''])
                     (new_dependency LoadType_COLLECTION (collection_name cdep) True) s1))"
          by (rule collection_branch_hit_quiet[OF f])
      next
        fix dep s2
        show "no_fetch_between s2 (snd (bind (lift (collection_dir
                     (path_join (dependency_dir_path (self s)) [''collections'', ''src''])
                     (collection_name cdep))) (\<lambda>d. ret (dep\<lparr>dir := d\<rparr>)) s2))"
          by (rule quiet_at) (intro quiet_bind quiet_basic)
      qed
    next
      fix dep s2
      show "no_fetch_between s2 (snd (append_dependency dep s2))"
        by (rule quiet_at[OF quiet_append_dependency])
    qed
  qed
  then show ?thesis by (simp add: prepare_collection_dep_def)
qed

lemma role_branch_hit_quiet:
  assumes f: "fst (role_cache_test cdp s1) = Inr True"
  shows "no_fetch_between s1 (snd (role_cache_branch E rname ver cdp sub new s1))"
  unfolding role_cache_branch_def
proof (rule no_fetch_bind_at)
  show "no_fetch_between s1 (snd (role_cache_test cdp s1))"
    by (rule quiet_at[OF quiet_role_cache_test])
next
  fix x s2
  assume "role_cache_test cdp s1 = (Inr x, s2)"
  then have x: "x" using f by simp
  have "quiet (bind (find_target_metadata LoadType_ROLE
               (path_join cdp [download_metadata_file]) (target_name (self s1))) (\<lambda>md.
           bind (move_src E sub cdp) (\<lambda>u. ret (set_md md new))))"
    by (intro quiet_bind quiet_basic quiet_find_target_metadata quiet_move_src)
  then show "no_fetch_between s2
          (snd (bind (if x then find_target_metadata LoadType_ROLE
                                  (path_join cdp [download_metadata_file]) (target_name (self s1))
                      else role_cache_miss E rname ver cdp (self_source_repository (self s1))
                             (target_name (self s1)))
                 (\<lambda>md. bind (move_src E sub cdp) (\<lambda>u. ret (set_md md new))) s2))"
    using x by (simp add: quiet_def)
qed

lemma role_hit_no_fetch:
  assumes c: "role_turn_cached cp rdep s"
  shows "no_fetch_between s (snd (prepare_role_dep E deps True cp rdep s))"
proof -
  from c obtain rname where rn: "role_name rdep = Some rname"
    by (auto simp: role_turn_cached_def split: option.splits)
  have "no_fetch_between s (snd (bind (ensure_dir (path_join (dependency_dir_path (self s)) [''roles'', ''src'', rname])) (\<lambda>u.
          bind (bind (role_cache_branch E rname (VersionArg (role_version rdep))
                          (path_join cp [''roles'', ''src'', rname])
                          (path_join (dependency_dir_path (self s)) [''roles'', ''src'', rname])
                          (new_dependency LoadType_ROLE rname True)) (\<lambda>dep.
                    ret (dep, path_join (dependency_dir_path (self s)) [''roles'', ''src'', rname])))
            (\<lambda>r.
          bind (lift (set_metadata_field
                  (\<lambda>m. m\<lparr>source_repository := PStr (self_source_repository (self s))\<rparr>) (fst r))) (\<lambda>dep.
            append_dependency (dep\<lparr>dir := snd r\<rparr>)))) s))"
  proof (rule no_fetch_bind_at)
    show "no_fetch_between s (snd (ensure_dir (path_join (dependency_dir_path (self s)) [''roles'', ''src'', rname]) s))"
      by (rule quiet_at[OF quiet_ensure_dir])
  next
    fix u s1
    assume e: "ensure_dir (path_join (dependency_dir_path (self s)) [''roles'', ''src'', rname]) s = (Inr u, s1)"
    from c e rn have f: "fst (role_cache_test (path_join cp [''roles'', ''src'', rname]) s1) = Inr True"
      by (auto simp: role_turn_cached_def split: sum.splits)
    show "no_fetch_between s1 (snd (bind (bind (role_cache_branch E rname (VersionArg (role_version rdep))
                          (path_join cp [''roles'', ''src'', rname])
                          (path_join (dependency_dir_path (self s)) [''roles'', ''src'', rname])
                          (new_dependency LoadType_ROLE rname True)) (\<lambda>dep.
                    ret (dep, path_join (dependency_dir_path (self s)) [''roles'', ''src'', rname])))
            (\<lambda>r.
          bind (lift (set_metadata_field
                  (\<lambda>m. m\<lparr>source_repository := PStr (self_source_repository (self s))\<rparr>) (fst r))) (\<lambda>dep.
            append_dependency (dep\<lparr>dir := snd r\<rparr>))) s1))"
    proof (rule no_fetch_bind_at)
      show "no_fetch_between s1 (snd (bind (role_cache_branch E rname (VersionArg (role_version rdep))
                          (path_join cp [''roles'', ''src'', rname])
                          (path_join (dependency_dir_path (self s)) [''roles'', ''src'', rname])
                          (new_dependency LoadType_ROLE rname True)) (\<lambda>dep.
                    ret (dep, path_join (dependency_dir_path (self s)) [''roles'', ''src'', rname])) s1))"
      proof (rule no_fetch_bind_at)
        show "no_fetch_between s1 (snd (role_cache_branch E rname (VersionArg (role_version rdep))
                          (path_join cp [''roles'', ''src'', rname])
                          (path_join (dependency_dir_path (self s)) [''roles'', ''src'', rname])
                          (new_dependency LoadType_ROLE rname True) s1))"
          by (rule role_branch_hit_quiet[OF f])
      next
        fix dep s2
        show "no_fetch_between s2 (snd (ret (dep, path_join (dependency_dir_path (self s)) [''roles'', ''src'', rname]) s2))"
          by (rule quiet_at[OF quiet_ret])
      qed
    next
      fix r s2
      show "no_fetch_between s2 (snd (bind (lift (set_metadata_field
                  (\<lambda>m. m\<lparr>source_repository := PStr (self_source_repository (self s))\<rparr>) (fst r))) (\<lambda>dep.
            append_dependency (dep\<lparr>dir := snd r\<rparr>)) s2))"
        by (rule quiet_at) (intro quiet_bind quiet_basic quiet_append_dependency)
    qed
  qed
  then show ?thesis by (simp add: prepare_role_dep_def rn)
qed

lemma prepare_dir_parts:
  assumes "prepare_dir E ri isi c cp s = (Inr r, s')"
  shows "\<exists>sa sb. setup_dirs c cp s = (Inr (), sa) \<and>
           prepare_root_dir E ri isi sa = (Inr (), sb) \<and>
           prepare_dependency_dir E
             (find_dependency E (target_type (self sb)) (target_path (self sb))
                (target_dependency_dir (self sb)) (fs sb)) c cp sb = (Inr (), s') \<and>
           r = dependency_dirs (self s')"
  using assms
  by (auto simp: prepare_dir_def bind_def ret_def split: prod.splits sum.splits)

lemma setup_dirs_self:
  assumes "setup_dirs c cp s = (r, sa)"
  shows "self sa = (self s)\<lparr>download_location := path_join (root_dir (self s)) [''archives''],
                           dependency_dir_path := root_dir (self s)\<rparr>"
proof -
  let ?s0 = "s\<lparr>self := (self s)\<lparr>download_location := path_join (root_dir (self s)) [''archives''],
                                dependency_dir_path := root_dir (self s)\<rparr>\<rparr>"
  let ?rest = "bind (\<lambda>s. ensure_dir (download_location (self s)) s) (\<lambda>u.
     bind (\<lambda>s. if c \<and> \<not> path_exists (fs s) cp then makedirs cp s else ret () s) (\<lambda>u.
       (\<lambda>s. ensure_dir (dependency_dir_path (self s)) s)))"
  have k1: "keeps_self (\<lambda>s. ensure_dir (download_location (self s)) s)"
    by (rule keeps_self_state) (rule keeps_self_ensure_dir)
  have k2: "keeps_self (\<lambda>s. if c \<and> \<not> path_exists (fs s) cp then makedirs cp s else ret () s)"
    using keeps_self_makedirs[of cp] keeps_self_ret[of "()"] by (simp add: keeps_self_def)
  have k3: "keeps_self (\<lambda>s. ensure_dir (dependency_dir_path (self s)) s)"
    by (rule keeps_self_state) (rule keeps_self_ensure_dir)
  have k: "keeps_self ?rest" by (intro keeps_self_bind k1 k2 k3)
  have "setup_dirs c cp s = ?rest ?s0" by (simp add: setup_dirs_def bind_def)
  then have "?rest ?s0 = (r, sa)" using assms by simp
  from keeps_selfD[OF k this] show ?thesis by simp
qed

text \<open>
  Claim C2, as amended. \<open>prepare_dir\<close> has returned normally, with the list \<open>r1\<close>, and is
  run again on the same preparator, with the cache enabled, and returns normally, with
  the list \<open>r2\<close>. The second run installs no root target (\<open>is_src_installed\<close> is given, or
  the root target is local), and every dependency it reaches is in the cache when its
  turn comes. Then the second run starts no fetch, and \<open>r2\<close> is \<open>r1\<close> followed by one new
  descriptor for each dependency that the second run finds: the descriptors are appended
  to the list of the preparator, which is never emptied. The two lists are equal only
  when the second run finds no dependency.
\<close>

theorem second_run_appends:
  assumes run1: "prepare_dir E ri isi True cp s0 = (Inr r1, s1)"
      and run2: "prepare_dir E ri isi True cp s1 = (Inr r2, s2)"
      and noroot: "isi \<or> \<not> root_install_wanted E ri (self s1)"
      and cached: "fully_cached_run E ri isi cp s1"
  shows "no_fetch_between s1 s2 \<and>
         (\<exists>batch. r2 = r1 @ batch \<and>
            length batch =
              length (dependencies_collections (found_dependencies E ri isi True cp s1)) +
              length (dependencies_roles (found_dependencies E ri isi True cp s1))) \<and>
         (r2 = r1 \<longleftrightarrow>
            dependencies_collections (found_dependencies E ri isi True cp s1) = [] \<and>
            dependencies_roles (found_dependencies E ri isi True cp s1) = [])"
proof -
  let ?deps = "found_dependencies E ri isi True cp s1"
  from prepare_dir_parts[OF run1] have r1: "r1 = dependency_dirs (self s1)" by blast
  from prepare_dir_parts[OF run2] obtain sa sb where
    su: "setup_dirs True cp s1 = (Inr (), sa)" and
    ro: "prepare_root_dir E ri isi sa = (Inr (), sb)" and
    de: "prepare_dependency_dir E
             (find_dependency E (target_type (self sb)) (target_path (self sb))
                (target_dependency_dir (self sb)) (fs sb)) True cp sb = (Inr (), s2)" and
    r2: "r2 = dependency_dirs (self s2)" by blast
  have deps: "find_dependency E (target_type (self sb)) (target_path (self sb))
                (target_dependency_dir (self sb)) (fs sb) = ?deps"
    using su ro by (simp add: found_dependencies_def)
  note sa = setup_dirs_self[OF su]
  have "root_install_wanted E ri (self sa) = root_install_wanted E ri (self s1)"
    unfolding sa root_install_wanted_def by simp
  then have nr: "isi \<or> \<not> root_install_wanted E ri (self sa)"
    using noroot by simp
  from quiet_prepare_root_dir[OF nr] ro have
    rb: "trace sb = trace sa" "dependency_dirs (self sb) = dependency_dirs (self sa)" by simp_all
  have d0: "dependency_dirs (self sb) = r1" using rb(2) sa r1 by simp
  have n0: "no_fetch_between s1 sb"
    using quietD[OF quiet_setup_dirs su] no_fetch_same_trace[OF rb(1)] by (rule no_fetch_trans)
  obtain sc where
    co: "for_each (prepare_collection_dep E ?deps True cp) (dependencies_collections ?deps) sb = (Inr (), sc)" and
    rl: "for_each (prepare_role_dep E ?deps True cp) (dependencies_roles ?deps) sc = (Inr (), s2)"
    using de unfolding deps prepare_dependency_dir_def
    by (auto simp: bind_def split: prod.splits sum.splits)
  have fc: "all_turns_cached (collection_turn_cached cp) (prepare_collection_dep E ?deps True cp)
              (dependencies_collections ?deps) sb"
    and fr: "all_turns_cached (role_turn_cached cp) (prepare_role_dep E ?deps True cp)
              (dependencies_roles ?deps) sc"
    using cached su ro co by (simp_all add: fully_cached_run_def)
  have n1: "no_fetch_between sb sc"
    using no_fetch_for_each[of "collection_turn_cached cp" "prepare_collection_dep E ?deps True cp", OF _ fc]
      collection_hit_no_fetch co by simp
  have n2: "no_fetch_between sc s2"
    using no_fetch_for_each[of "role_turn_cached cp" "prepare_role_dep E ?deps True cp", OF _ fr]
      role_hit_no_fetch rl by simp
  have nf: "no_fetch_between s1 s2" using n0 n1 n2 no_fetch_trans by blast
  from appendsD[OF appends_for_each co] appends_prepare_collection_dep obtain b1 where
    b1: "dependency_dirs (self sc) = dependency_dirs (self sb) @ b1"
        "length b1 = length (dependencies_collections ?deps)" by blast
  from appendsD[OF appends_for_each rl] appends_prepare_role_dep obtain b2 where
    b2: "dependency_dirs (self s2) = dependency_dirs (self sc) @ b2"
        "length b2 = length (dependencies_roles ?deps)" by blast
  have eq: "r2 = r1 @ (b1 @ b2)" using r2 b1(1) b2(1) d0 by simp
  have len: "length (b1 @ b2) = length (dependencies_collections ?deps) + length (dependencies_roles ?deps)"
    using b1(2) b2(2) by simp
  have iff: "r2 = r1 \<longleftrightarrow> dependencies_collections ?deps = [] \<and> dependencies_roles ?deps = []"
    using eq b1(2) b2(2) by auto
  show ?thesis using nf eq len iff by blast
qed

theorem second_run_witness:
  "fst (prepare_dir cached_env True False True ''/cache'' (example_state cache_nodes))
     = Inr [cached_descriptor] \<and>
   fst (prepare_dir cached_env True False True ''/cache''
          (snd (prepare_dir cached_env True False True ''/cache'' (example_state cache_nodes))))
     = Inr ([cached_descriptor] @ [cached_descriptor]) \<and>
   no_fetch_between
     (snd (prepare_dir cached_env True False True ''/cache'' (example_state cache_nodes)))
     (snd (prepare_dir cached_env True False True ''/cache''
          (snd (prepare_dir cached_env True False True ''/cache'' (example_state cache_nodes)))))"
proof -
  let ?r1 = "prepare_dir cached_env True False True ''/cache'' (example_state cache_nodes)"
  let ?r2 = "prepare_dir cached_env True False True ''/cache'' (snd ?r1)"
  have a: "fst ?r1 = Inr [cached_descriptor]" by code_simp
  have b: "fst ?r2 = Inr [cached_descriptor, cached_descriptor]" by code_simp
  have c: "fully_cached_run cached_env True False ''/cache'' (snd ?r1)" by code_simp
  have d: "\<not> root_install_wanted cached_env True (self (snd ?r1))" by code_simp
  have run1: "?r1 = (Inr [cached_descriptor], snd ?r1)" using a by (metis prod.collapse)
  have run2: "?r2 = (Inr [cached_descriptor, cached_descriptor], snd ?r2)" using b by (metis prod.collapse)
  from second_run_appends[OF run1 run2 _ c] d
  have "no_fetch_between (snd ?r1) (snd ?r2)" by blast
  then show ?thesis using a b by simp
qed

theorem second_run_counterexample:
  "fully_cached_run cached_env True False ''/cache''
     (snd (prepare_dir cached_env True False True ''/cache'' (example_state cache_nodes))) \<and>
   fst (prepare_dir cached_env True False True ''/cache'' (example_state cache_nodes))
     = Inr [cached_descriptor] \<and>
   fst (prepare_dir cached_env True False True ''/cache''
          (snd (prepare_dir cached_env True False True ''/cache'' (example_state cache_nodes))))
     = Inr [cached_descriptor, cached_descriptor] \<and>
   fst (prepare_dir cached_env True False True ''/cache''
          (snd (prepare_dir cached_env True False True ''/cache'' (example_state cache_nodes))))
     \<noteq> fst (prepare_dir cached_env True False True ''/cache'' (example_state cache_nodes)) \<and>
   fully_cached_run installing_env True False ''/cache''
     (snd (prepare_dir installing_env True False True ''/cache'' remote_role_example)) \<and>
   fst (prepare_dir installing_env True False True ''/cache'' remote_role_example) = Inr [] \<and>
   fst (prepare_dir installing_env True False True ''/cache''
          (snd (prepare_dir installing_env True False True ''/cache'' remote_role_example))) = Inr [] \<and>
   filter is_fetch (trace (snd (prepare_dir installing_env True False True ''/cache''
          (snd (prepare_dir installing_env True False True ''/cache'' remote_role_example)))))
     = [InstallGalaxyTarget ''x.y'' ''role'' ''/tmp/install/src'' [] (VersionArg (Some [])),
        InstallGalaxyTarget ''x.y'' ''role'' ''/tmp/install/src'' [] (VersionArg (Some []))]"
proof -
  let ?r1 = "prepare_dir cached_env True False True ''/cache'' (example_state cache_nodes)"
  let ?r2 = "prepare_dir cached_env True False True ''/cache'' (snd ?r1)"
  have a: "fst ?r1 = Inr [cached_descriptor]" by code_simp
  have b: "fst ?r2 = Inr [cached_descriptor, cached_descriptor]" by code_simp
  have c: "fully_cached_run cached_env True False ''/cache'' (snd ?r1)" by code_simp
  have d: "fully_cached_run installing_env True False ''/cache''
     (snd (prepare_dir installing_env True False True ''/cache'' remote_role_example))" by code_simp
  have e: "fst (prepare_dir installing_env True False True ''/cache'' remote_role_example) = Inr []"
    by code_simp
  have f: "fst (prepare_dir installing_env True False True ''/cache''
          (snd (prepare_dir installing_env True False True ''/cache'' remote_role_example))) = Inr []"
    by code_simp
  have g: "filter is_fetch (trace (snd (prepare_dir installing_env True False True ''/cache''
          (snd (prepare_dir installing_env True False True ''/cache'' remote_role_example)))))
     = [InstallGalaxyTarget ''x.y'' ''role'' ''/tmp/install/src'' [] (VersionArg (Some [])),
        InstallGalaxyTarget ''x.y'' ''role'' ''/tmp/install/src'' [] (VersionArg (Some []))]"
    by code_simp
  show ?thesis using a b c d e f g by simp
qed

end
